(* ===== verification/Simtemp_Prelude.thy ===== *)
theory Simtemp_Prelude
  imports Complex_Main "HOL-Library.Word"
begin

text \<open>
  Shared vocabulary of the development: the exceptions the command line tool
  raises and handles, the type of a program fragment that threads a state and
  may raise, the combinators that stand for Python's sequencing,
  \<^verbatim>\<open>try/except\<close> and \<^verbatim>\<open>try/finally\<close>, and the
  collections of facts the component theories hand to the simplifier.

  A fragment of type \<open>('a, 's) prog\<close> maps a state to an outcome and the state
  it leaves behind. The state is returned on the exceptional path too: a Python
  exception does not undo the writes made before it was raised.
\<close>

section \<open>Collections of facts\<close>

named_theorems prog_simps "unfolding rules of the exception-and-state combinators"
named_theorems codec_defs "definitions of the binary record layout"
named_theorems store_defs "definitions of the attribute store operations"
named_theorems env_defs "definitions of the system-call model"
named_theorems preserves_intros "rules that carry a state predicate through a program"

section \<open>Bytes\<close>

type_synonym byte = "8 word"
type_synonym bytes = "byte list"

section \<open>Exceptions\<close>

datatype exn =
    FileNotFoundError
  | PermissionError
  | BlockingIOError
  | OSError
  | IndexError
  | ValueError
  | StructError
  | AttributeError
  | KeyboardInterrupt
  | ArgumentTypeError
  | SystemExit int

text \<open>
  The part of Python's exception hierarchy that the handlers of the tool depend
  on: the three file errors are subclasses of \<^verbatim>\<open>OSError\<close>.
  \<^verbatim>\<open>SystemExit\<close> carries the exit status \<^verbatim>\<open>parser.error\<close> and
  \<^verbatim>\<open>sys.exit\<close> raise it with.
\<close>

fun is_OSError :: "exn \<Rightarrow> bool" where
  "is_OSError FileNotFoundError = True"
| "is_OSError PermissionError = True"
| "is_OSError BlockingIOError = True"
| "is_OSError OSError = True"
| "is_OSError _ = False"

section \<open>Programs over a state\<close>

type_synonym ('a, 's) prog = "'s \<Rightarrow> (exn + 'a) \<times> 's"

definition ret :: "'a \<Rightarrow> ('a, 's) prog" where
  "ret x = (\<lambda>s. (Inr x, s))"

definition throw :: "exn \<Rightarrow> ('a, 's) prog" where
  "throw e = (\<lambda>s. (Inl e, s))"

definition bind :: "('a, 's) prog \<Rightarrow> ('a \<Rightarrow> ('b, 's) prog) \<Rightarrow> ('b, 's) prog" where
  "bind m f = (\<lambda>s. case m s of (Inl e, s') \<Rightarrow> (Inl e, s') | (Inr x, s') \<Rightarrow> f x s')"

definition lift :: "exn + 'a \<Rightarrow> ('a, 's) prog" where
  "lift r = (\<lambda>s. (r, s))"

definition seq :: "('a, 's) prog \<Rightarrow> ('b, 's) prog \<Rightarrow> ('b, 's) prog" where
  "seq m n = bind m (\<lambda>_. n)"

definition when_some :: "'a option \<Rightarrow> ('a \<Rightarrow> (unit, 's) prog) \<Rightarrow> (unit, 's) prog" where
  "when_some v f = (case v of None \<Rightarrow> ret () | Some x \<Rightarrow> f x)"

definition when_true :: "bool \<Rightarrow> (unit, 's) prog \<Rightarrow> (unit, 's) prog" where
  "when_true c m = (if c then m else ret ())"

text \<open>
  \<^verbatim>\<open>try: body except E: handler\<close>. The predicate says which exceptions
  the clause catches; the others pass through.
\<close>

definition try_except ::
  "('a, 's) prog \<Rightarrow> (exn \<Rightarrow> bool) \<Rightarrow> (exn \<Rightarrow> ('a, 's) prog) \<Rightarrow> ('a, 's) prog" where
  "try_except body catches handler =
     (\<lambda>s. case body s of
             (Inl e, s') \<Rightarrow> if catches e then handler e s' else (Inl e, s')
           | (Inr x, s') \<Rightarrow> (Inr x, s'))"

text \<open>
  \<^verbatim>\<open>try: body finally: cleanup\<close>. The cleanup runs on the state the
  body left, whether the body returned or raised. An exception of the cleanup
  replaces the outcome of the body; otherwise the outcome of the body stands.
\<close>

definition try_finally :: "('a, 's) prog \<Rightarrow> (unit, 's) prog \<Rightarrow> ('a, 's) prog" where
  "try_finally body cleanup =
     (\<lambda>s. case body s of
             (r, s') \<Rightarrow> (case cleanup s' of
                           (Inl e, s'') \<Rightarrow> (Inl e, s'')
                         | (Inr _, s'') \<Rightarrow> (r, s'')))"

text \<open>
  A predicate on states that holds after a fragment whenever it held before,
  on the exceptional path as well as on the normal one.
\<close>

definition preserves :: "('s \<Rightarrow> bool) \<Rightarrow> ('a, 's) prog \<Rightarrow> bool" where
  "preserves P m \<longleftrightarrow> (\<forall>s. P s \<longrightarrow> P (snd (m s)))"

abbreviation outcome :: "('a, 's) prog \<Rightarrow> 's \<Rightarrow> exn + 'a" where
  "outcome m s \<equiv> fst (m s)"

abbreviation final :: "('a, 's) prog \<Rightarrow> 's \<Rightarrow> 's" where
  "final m s \<equiv> snd (m s)"

section \<open>Laws of the combinators\<close>

lemma ret_apply [prog_simps]: "ret x s = (Inr x, s)"
  by (simp add: ret_def)

lemma throw_apply [prog_simps]: "throw e s = (Inl e, s)"
  by (simp add: throw_def)

lemma lift_apply [prog_simps]: "lift r s = (r, s)"
  by (simp add: lift_def)

lemma bind_apply [prog_simps]:
  "bind m f s = (case m s of (Inl e, s') \<Rightarrow> (Inl e, s') | (Inr x, s') \<Rightarrow> f x s')"
  by (simp add: bind_def)

lemma seq_apply [prog_simps]:
  "seq m n s = (case m s of (Inl e, s') \<Rightarrow> (Inl e, s') | (Inr x, s') \<Rightarrow> n s')"
  by (simp add: seq_def bind_def)

lemma when_some_apply [prog_simps]:
  "when_some None f s = (Inr (), s)" "when_some (Some x) f s = f x s"
  by (simp_all add: when_some_def ret_def)

lemma when_true_apply [prog_simps]:
  "when_true c m s = (if c then m s else (Inr (), s))"
  by (simp add: when_true_def ret_def)

lemma when_true_simps [simp]: "when_true True m = m" "when_true False m = ret ()"
  by (simp_all add: when_true_def)

lemma when_some_simps [simp]: "when_some None f = ret ()" "when_some (Some x) f = f x"
  by (simp_all add: when_some_def)

lemma try_except_apply [prog_simps]:
  "try_except body catches handler s =
     (case body s of
        (Inl e, s') \<Rightarrow> if catches e then handler e s' else (Inl e, s')
      | (Inr x, s') \<Rightarrow> (Inr x, s'))"
  by (simp add: try_except_def)

lemma try_finally_apply [prog_simps]:
  "try_finally body cleanup s =
     (case body s of
        (r, s') \<Rightarrow> (case cleanup s' of
                      (Inl e, s'') \<Rightarrow> (Inl e, s'')
                    | (Inr _, s'') \<Rightarrow> (r, s'')))"
  by (simp add: try_finally_def)

lemma bind_ret_left [simp]: "bind (ret x) f = f x"
  by (simp add: bind_def ret_def)

lemma bind_ret_right [simp]: "bind m ret = m"
  by (auto simp: bind_def ret_def fun_eq_iff split: prod.splits sum.splits)

lemma bind_throw [simp]: "bind (throw e) f = throw e"
  by (simp add: bind_def throw_def)

lemma bind_assoc: "bind (bind m f) g = bind m (\<lambda>x. bind (f x) g)"
  by (auto simp: bind_def fun_eq_iff split: prod.splits sum.splits)

lemma seq_raises: "outcome m s = Inl e \<Longrightarrow> seq m n s = (Inl e, final m s)"
  by (auto simp: seq_def bind_def split: prod.splits)

lemma seq_returns: "outcome m s = Inr x \<Longrightarrow> seq m n s = n (final m s)"
  by (auto simp: seq_def bind_def split: prod.splits)

lemma bind_raises: "outcome m s = Inl e \<Longrightarrow> bind m f s = (Inl e, final m s)"
  by (auto simp: bind_def split: prod.splits)

lemma bind_returns: "outcome m s = Inr x \<Longrightarrow> bind m f s = f x (final m s)"
  by (auto simp: bind_def split: prod.splits)

lemma bind_returnsE:
  assumes "outcome (bind m f) s = Inr r"
  obtains x where "outcome m s = Inr x" "bind m f s = f x (final m s)"
  using assms by (cases "m s"; cases "outcome m s") (auto simp: bind_def)

lemma seq_returnsE:
  assumes "outcome (seq m n) s = Inr r"
  obtains x where "outcome m s = Inr x" "seq m n s = n (final m s)"
  using assms unfolding seq_def by (rule bind_returnsE)

lemma try_finally_returnsE:
  assumes "outcome (try_finally body cleanup) s = Inr r"
  obtains "outcome body s = Inr r" "outcome cleanup (final body s) = Inr ()"
  using assms by (auto simp: try_finally_def split: prod.splits sum.splits)

text \<open>
  The two facts about \<^verbatim>\<open>finally\<close> that the sessions rest on: the
  cleanup always runs on the state the body left, and a cleanup that raises
  decides the outcome.
\<close>

lemma final_try_finally: "final (try_finally body cleanup) s = final cleanup (final body s)"
  by (simp add: try_finally_def split: prod.splits sum.splits)

lemma outcome_try_finally:
  "outcome (try_finally body cleanup) s =
     (case outcome cleanup (final body s) of Inl e \<Rightarrow> Inl e | Inr _ \<Rightarrow> outcome body s)"
  by (simp add: try_finally_def split: prod.splits sum.splits)

lemma try_finally_cleanup_raises:
  "outcome cleanup (final body s) = Inl e \<Longrightarrow> outcome (try_finally body cleanup) s = Inl e"
  by (simp add: outcome_try_finally)

section \<open>Preserved predicates\<close>

lemma preservesI: "(\<And>s. P s \<Longrightarrow> P (final m s)) \<Longrightarrow> preserves P m"
  by (simp add: preserves_def)

lemma preservesD: "preserves P m \<Longrightarrow> P s \<Longrightarrow> P (final m s)"
  by (simp add: preserves_def)

lemma preserves_ret [preserves_intros]: "preserves P (ret x)"
  by (simp add: preserves_def ret_def)

lemma preserves_throw [preserves_intros]: "preserves P (throw e)"
  by (simp add: preserves_def throw_def)

lemma preserves_lift [preserves_intros]: "preserves P (lift r)"
  by (simp add: preserves_def lift_def)

lemma preserves_bind [preserves_intros]:
  "preserves P m \<Longrightarrow> (\<And>x. preserves P (f x)) \<Longrightarrow> preserves P (bind m f)"
  by (fastforce simp: preserves_def bind_def split: prod.splits sum.splits)

lemma preserves_seq [preserves_intros]:
  "preserves P m \<Longrightarrow> preserves P n \<Longrightarrow> preserves P (seq m n)"
  by (simp add: seq_def preserves_bind)

lemma preserves_when_some [preserves_intros]:
  "(\<And>x. preserves P (f x)) \<Longrightarrow> preserves P (when_some v f)"
  by (cases v) (simp_all add: when_some_def preserves_ret)

lemma preserves_when_true [preserves_intros]:
  "preserves P m \<Longrightarrow> preserves P (when_true c m)"
  by (simp add: when_true_def preserves_ret)

lemma preserves_try_except [preserves_intros]:
  "preserves P m \<Longrightarrow> (\<And>e. preserves P (h e)) \<Longrightarrow> preserves P (try_except m c h)"
  by (fastforce simp: preserves_def try_except_def split: prod.splits sum.splits)

lemma preserves_try_finally [preserves_intros]:
  "preserves P m \<Longrightarrow> preserves P c \<Longrightarrow> preserves P (try_finally m c)"
  by (fastforce simp: preserves_def try_finally_def split: prod.splits sum.splits)

section \<open>Integers\<close>

lemma mod_neg_shift:
  assumes "- m \<le> v" "v < 0"
  shows "(v::int) mod m = v + m"
proof -
  have "v mod m = (v + m) mod m" by simp
  also have "\<dots> = v + m" using assms by (intro mod_pos_pos_trivial) auto
  finally show ?thesis .
qed

section \<open>Lists\<close>

lemma take_drop_length_eq:
  "length xs = a + b \<Longrightarrow> take a xs @ take b (drop a xs) = xs"
  by (metis append_take_drop_id drop_all order_refl length_drop add_diff_cancel_left' take_all)

lemma length_take_min [simp]: "n \<le> length xs \<Longrightarrow> length (take n xs) = n"
  by simp

end
