(* ===== verification/Py_Text.thy ===== *)
theory Py_Text
  imports Simtemp_Prelude
begin

text \<open>
  The text side of the attribute files: Python's \<^verbatim>\<open>str\<close> of an integer,
  \<^verbatim>\<open>str.strip\<close> and \<^verbatim>\<open>int\<close> of a string, as
  \<^verbatim>\<open>SimtempDevice.read_int\<close>, \<^verbatim>\<open>read_str\<close> and the callers of
  \<^verbatim>\<open>write\<close> use them. Characters are bytes, so the whitespace and the
  digits are the ASCII ones.
\<close>

section \<open>Definitions\<close>

definition digit_char :: "nat \<Rightarrow> char" where
  "digit_char d = char_of (48 + d)"

fun digits_of :: "nat \<Rightarrow> string" where
  "digits_of n = (if n < 10 then [digit_char n] else digits_of (n div 10) @ [digit_char (n mod 10)])"

declare digits_of.simps [simp del]

definition py_str :: "int \<Rightarrow> string" where
  "py_str i = (if i < 0 then CHR ''-'' # digits_of (nat (- i)) else digits_of (nat i))"

definition is_space :: "char \<Rightarrow> bool" where
  "is_space c \<longleftrightarrow> (let k = (of_char c :: nat) in (9 \<le> k \<and> k \<le> 13) \<or> (28 \<le> k \<and> k \<le> 32))"

definition strip :: "string \<Rightarrow> string" where
  "strip s = rev (dropWhile is_space (rev (dropWhile is_space s)))"

definition is_digit :: "char \<Rightarrow> bool" where
  "is_digit c \<longleftrightarrow> 48 \<le> (of_char c :: nat) \<and> (of_char c :: nat) \<le> 57"

definition digit_val :: "char \<Rightarrow> nat" where
  "digit_val c = of_char c - 48"

fun digits_ok :: "bool \<Rightarrow> string \<Rightarrow> bool" where
  "digits_ok prev [] = prev"
| "digits_ok prev (c # cs) =
     (if is_digit c then digits_ok True cs else c = CHR ''_'' \<and> prev \<and> digits_ok False cs)"

definition digits_value :: "string \<Rightarrow> nat" where
  "digits_value s = foldl (\<lambda>acc c. 10 * acc + digit_val c) 0 (filter is_digit s)"

definition py_int :: "string \<Rightarrow> exn + int" where
  "py_int s =
     (let t = strip s;
          neg = (t \<noteq> [] \<and> hd t = CHR ''-'');
          body = (if t \<noteq> [] \<and> (hd t = CHR ''-'' \<or> hd t = CHR ''+'') then tl t else t)
      in if digits_ok False body
         then Inr (if neg then - int (digits_value body) else int (digits_value body))
         else Inl ValueError)"

section \<open>Digits\<close>

lemma of_char_digit_char: "d < 10 \<Longrightarrow> (of_char (digit_char d) :: nat) = 48 + d"
  by (simp add: digit_char_def)

lemma is_digit_digit_char [simp]: "d < 10 \<Longrightarrow> is_digit (digit_char d)"
  by (simp add: is_digit_def of_char_digit_char)

lemma digit_val_digit_char [simp]: "d < 10 \<Longrightarrow> digit_val (digit_char d) = d"
  by (simp add: digit_val_def of_char_digit_char)

lemma not_space_digit: "is_digit c \<Longrightarrow> \<not> is_space c"
  by (auto simp: is_digit_def is_space_def Let_def)

lemma not_space_minus [simp]: "\<not> is_space (CHR ''-'')"
  by (simp add: is_space_def)

lemma not_digit_sign [simp]: "\<not> is_digit (CHR ''-'')" "\<not> is_digit (CHR ''+'')" "\<not> is_digit (CHR ''_'')"
  by (simp_all add: is_digit_def)

lemma digits_of_all_digits: "\<forall>c \<in> set (digits_of n). is_digit c"
proof (induction n rule: digits_of.induct)
  case (1 n)
  then show ?case by (subst digits_of.simps) auto
qed

lemma digits_of_nonempty [simp]: "digits_of n \<noteq> []"
  by (subst digits_of.simps) simp

lemma digits_ok_all_digits:
  "\<forall>c \<in> set s. is_digit c \<Longrightarrow> digits_ok prev s = (prev \<or> s \<noteq> [])"
  by (induction s arbitrary: prev) auto

lemma digits_ok_digits_of [simp]: "digits_ok prev (digits_of n)"
  using digits_ok_all_digits [OF digits_of_all_digits] by simp

lemma filter_digits_of [simp]: "filter is_digit (digits_of n) = digits_of n"
  using digits_of_all_digits by (simp add: filter_id_conv)

lemma foldl_digits_of:
  "foldl (\<lambda>acc c. 10 * acc + digit_val c) 0 (digits_of n) = n"
proof (induction n rule: digits_of.induct)
  case (1 n)
  show ?case
  proof (cases "n < 10")
    case True
    then show ?thesis by (subst digits_of.simps) simp
  next
    case False
    with 1 show ?thesis by (subst digits_of.simps) simp
  qed
qed

lemma digits_value_digits_of [simp]: "digits_value (digits_of n) = n"
  by (simp add: digits_value_def foldl_digits_of)

lemma hd_digits_of_digit: "is_digit (hd (digits_of n))"
  using digits_of_all_digits [of n] digits_of_nonempty [of n] by (metis hd_in_set)

lemma last_digits_of_digit: "is_digit (last (digits_of n))"
  using digits_of_all_digits [of n] digits_of_nonempty [of n] by (metis last_in_set)

section \<open>Stripping\<close>

lemma strip_unchanged:
  assumes "s \<noteq> []" "\<not> is_space (hd s)" "\<not> is_space (last s)"
  shows "strip s = s"
proof -
  have "dropWhile is_space s = s"
    using assms by (simp add: dropWhile_eq_self_iff)
  moreover have "dropWhile is_space (rev s) = rev s"
    using assms by (simp add: dropWhile_eq_self_iff hd_rev)
  ultimately show ?thesis by (simp add: strip_def)
qed

lemma strip_Nil [simp]: "strip [] = []"
  by (simp add: strip_def)

lemma strip_ends:
  assumes "strip s \<noteq> []"
  shows "\<not> is_space (hd (strip s))" "\<not> is_space (last (strip s))"
proof -
  let ?a = "dropWhile is_space s" and ?b = "dropWhile is_space (rev (dropWhile is_space s))"
  from assms have b: "?b \<noteq> []" by (simp add: strip_def)
  then have a: "?a \<noteq> []" by (metis dropWhile.simps(1) rev_is_Nil_conv)
  from b show "\<not> is_space (last (strip s))"
    using hd_dropWhile [of is_space "rev ?a"] by (simp add: strip_def last_rev)
  have "last ?b = last (rev ?a)"
    using b by (metis takeWhile_dropWhile_id last_appendR)
  also have "\<dots> = hd ?a" using a by (simp add: last_rev)
  finally show "\<not> is_space (hd (strip s))"
    using hd_dropWhile [of is_space s] a b by (simp add: strip_def hd_rev)
qed

lemma strip_idem [simp]: "strip (strip s) = strip s"
  by (cases "strip s = []") (simp_all add: strip_unchanged strip_ends)

lemma strip_append_newline:
  assumes "s \<noteq> []" "\<not> is_space (hd s)" "\<not> is_space (last s)"
  shows "strip (s @ [CHR 0x0A]) = s"
proof -
  have "is_space (CHR 0x0A)" by (simp add: is_space_def)
  then have "dropWhile is_space (rev (s @ [CHR 0x0A])) = rev s"
    using assms by (simp add: dropWhile_eq_self_iff hd_rev)
  moreover have "dropWhile is_space (s @ [CHR 0x0A]) = s @ [CHR 0x0A]"
    using assms by (simp add: dropWhile_eq_self_iff)
  ultimately show ?thesis by (simp add: strip_def)
qed

section \<open>Integers as text\<close>

lemma strip_strip_newline: "strip (strip s @ [CHR 0x0A]) = strip s"
proof (cases "strip s = []")
  case True
  have "strip [CHR 0x0A] = []" by (simp add: strip_def is_space_def)
  with True show ?thesis by simp
next
  case False
  then show ?thesis by (simp add: strip_append_newline strip_ends)
qed

lemma py_str_ends:
  "py_str i \<noteq> []" "\<not> is_space (hd (py_str i))" "\<not> is_space (last (py_str i))"
  using hd_digits_of_digit last_digits_of_digit
  by (auto simp: py_str_def not_space_digit)

lemma py_int_strip [simp]: "py_int (strip s) = py_int s"
  by (simp add: py_int_def)

lemma py_int_py_str: "py_int (py_str i) = Inr i"
proof -
  have s: "strip (py_str i) = py_str i"
    using py_str_ends [of i] by (intro strip_unchanged)
  show ?thesis
  proof (cases "i < 0")
    case True
    then show ?thesis by (simp add: py_int_def s Let_def) (simp add: py_str_def)
  next
    case False
    have "hd (digits_of (nat i)) \<noteq> CHR ''-''" "hd (digits_of (nat i)) \<noteq> CHR ''+''"
      using hd_digits_of_digit [of "nat i"] by auto
    with False show ?thesis by (simp add: py_int_def s Let_def) (simp add: py_str_def)
  qed
qed

lemma py_int_raises: "py_int s = Inl e \<Longrightarrow> e = ValueError"
  by (simp add: py_int_def Let_def split: if_splits)

lemma py_int_written: "py_int (strip (py_str i @ [CHR 0x0A])) = Inr i"
  using py_str_ends [of i] by (simp add: strip_append_newline py_int_py_str)

section \<open>Evaluation\<close>

lemma digit_char_simps:
  "digit_char 0 = CHR ''0''" "digit_char 1 = CHR ''1''" "digit_char 2 = CHR ''2''"
  "digit_char 3 = CHR ''3''" "digit_char 4 = CHR ''4''" "digit_char 5 = CHR ''5''"
  "digit_char 6 = CHR ''6''" "digit_char 7 = CHR ''7''" "digit_char 8 = CHR ''8''"
  "digit_char 9 = CHR ''9''"
  by (simp_all add: digit_char_def char_of_def bit_0)

lemmas text_eval = py_str_def digits_of.simps digit_char_simps py_int_def strip_def
  is_space_def is_digit_def digits_value_def digit_val_def

lemma py_str_examples:
  "py_str 500 = ''500''" "py_str (- 46000) = ''-46000''" "py_str 0 = ''0''"
  by (simp_all add: text_eval)

lemma py_int_examples:
  "py_int [CHR '' '', CHR ''1'', CHR ''_'', CHR ''0'', CHR 0x0A] = Inr 10"
  "py_int ''+7'' = Inr 7" "py_int ''-20000'' = Inr (- 20000)"
  "py_int ''12a'' = Inl ValueError" "py_int [] = Inl ValueError"
  "py_int ''1__0'' = Inl ValueError" "py_int ''- 5'' = Inl ValueError"
  by (simp_all add: text_eval)

end
