(* ===== verification/Sysfs_Store.thy ===== *)
theory Sysfs_Store
  imports Py_Text "HOL-Library.AList" "HOL-Library.Char_ord" "HOL-Library.List_Lexorder"
begin

text \<open>
  The attribute store of one device instance:
  \<^verbatim>\<open>class SimtempDevice\<close> with its constructor (discovery of the
  instance directories under the sysfs root, sorted, selected by index),
  \<^verbatim>\<open>read_int\<close>, \<^verbatim>\<open>read_str\<close>, \<^verbatim>\<open>write\<close> (here
  \<open>write_attr\<close>) and \<^verbatim>\<open>snapshot\<close>, and the function
  \<^verbatim>\<open>write_sampling\<close> with its fallback from the microsecond to the
  millisecond attribute.

  A path is the list of its parts, as \<^verbatim>\<open>pathlib\<close> keeps it. The file
  tree is an association list from paths to nodes in the order the entries
  were created; \<open>files\<close> is the map it denotes. The attribute files are
  passive text files: what is written is what is read back. What opening a
  missing file for writing does is a parameter of the tree
  (\<open>missing_write\<close>): a plain directory creates the file, a kernel interface
  answers with an error.
\<close>

section \<open>The file tree\<close>

type_synonym path = "string list"

datatype node = Dir | File (writable: bool) (content: string)

record sysfs =
  tree :: "(path \<times> node) list"
  missing_write :: "exn option"

definition path_exists :: "path \<Rightarrow> 'a sysfs_scheme \<Rightarrow> bool" where
  "path_exists p w \<longleftrightarrow> map_of (tree w) p \<noteq> None"

definition is_dir :: "path \<Rightarrow> 'a sysfs_scheme \<Rightarrow> bool" where
  "is_dir p w \<longleftrightarrow> map_of (tree w) p = Some Dir"

definition glob_simtemp :: "path \<Rightarrow> 'a sysfs_scheme \<Rightarrow> path list" where
  "glob_simtemp base w =
     filter (\<lambda>p. p \<noteq> [] \<and> butlast p = base \<and> take 7 (last p) = ''simtemp'') (map fst (tree w))"

definition read_text :: "path \<Rightarrow> (string, 'a sysfs_scheme) prog" where
  "read_text p = (\<lambda>w. case map_of (tree w) p of
                         None \<Rightarrow> (Inl FileNotFoundError, w)
                       | Some Dir \<Rightarrow> (Inl OSError, w)
                       | Some (File _ text) \<Rightarrow> (Inr text, w))"

definition write_text :: "path \<Rightarrow> string \<Rightarrow> (unit, 'a sysfs_scheme) prog" where
  "write_text p text =
     (\<lambda>w. case map_of (tree w) p of
             Some Dir \<Rightarrow> (Inl OSError, w)
           | Some (File rw _) \<Rightarrow>
               if rw then (Inr (), w\<lparr>tree := AList.update p (File rw text) (tree w)\<rparr>)
               else (Inl PermissionError, w)
           | None \<Rightarrow>
               (case missing_write w of
                  Some e \<Rightarrow> (Inl e, w)
                | None \<Rightarrow>
                    if p \<noteq> [] \<and> is_dir (butlast p) w
                    then (Inr (), w\<lparr>tree := AList.update p (File True text) (tree w)\<rparr>)
                    else (Inl FileNotFoundError, w)))"

section \<open>The device handle\<close>

definition DEFAULT_CHAR_DEVICE :: path where
  "DEFAULT_CHAR_DEVICE = [''/'', ''dev'', ''nxp_simtemp'']"

definition DEFAULT_SYSFS_ROOT :: path where
  "DEFAULT_SYSFS_ROOT = [''/'', ''sys'', ''class'', ''simtemp'']"

record SimtempConfig =
  sampling_us :: int
  threshold_mc :: int
  mode :: string

record SimtempDevice =
  sysfs_dir :: path
  char_device :: path

definition discover :: "path \<Rightarrow> 'a sysfs_scheme \<Rightarrow> path list" where
  "discover sysfs_root w = sort (filter (\<lambda>p. is_dir p w) (glob_simtemp sysfs_root w))"

definition SimtempDevice_init ::
  "path \<Rightarrow> int \<Rightarrow> path option \<Rightarrow> (SimtempDevice, 'a sysfs_scheme) prog" where
  "SimtempDevice_init sysfs_root index device_path =
     (\<lambda>w. if \<not> path_exists sysfs_root w then (Inl FileNotFoundError, w)
           else let devices = discover sysfs_root w
                in if devices = [] then (Inl FileNotFoundError, w)
                   else if index < 0 \<or> index \<ge> int (length devices) then (Inl IndexError, w)
                   else (Inr \<lparr>sysfs_dir = devices ! nat index,
                              char_device = (case device_path of
                                               None \<Rightarrow> DEFAULT_CHAR_DEVICE
                                             | Some p \<Rightarrow> p)\<rparr>, w))"

definition attr_path :: "SimtempDevice \<Rightarrow> string \<Rightarrow> path" where
  "attr_path dev name = sysfs_dir dev @ [name]"

definition read_int :: "SimtempDevice \<Rightarrow> string \<Rightarrow> (int, 'a sysfs_scheme) prog" where
  "read_int dev name =
     bind (read_text (attr_path dev name))
       (\<lambda>text. case py_int (strip text) of Inl e \<Rightarrow> throw e | Inr v \<Rightarrow> ret v)"

definition read_str :: "SimtempDevice \<Rightarrow> string \<Rightarrow> (string, 'a sysfs_scheme) prog" where
  "read_str dev name = bind (read_text (attr_path dev name)) (\<lambda>text. ret (strip text))"

definition write_attr :: "SimtempDevice \<Rightarrow> string \<Rightarrow> string \<Rightarrow> (unit, 'a sysfs_scheme) prog" where
  "write_attr dev name val = write_text (attr_path dev name) (val @ [CHR 0x0A])"

definition snapshot :: "SimtempDevice \<Rightarrow> (SimtempConfig, 'a sysfs_scheme) prog" where
  "snapshot dev =
     bind (try_except (read_int dev ''sampling_us'') (\<lambda>e. e = FileNotFoundError)
             (\<lambda>_. bind (read_int dev ''sampling_ms'') (\<lambda>ms. ret (ms * 1000))))
       (\<lambda>us. bind (read_int dev ''threshold_mC'')
          (\<lambda>th. bind (read_str dev ''mode'')
             (\<lambda>m. ret \<lparr>sampling_us = us, threshold_mc = th, mode = m\<rparr>)))"

definition write_sampling ::
  "SimtempDevice \<Rightarrow> int option \<Rightarrow> int option \<Rightarrow> (unit, 'a sysfs_scheme) prog" where
  "write_sampling device us_arg ms_arg =
     bind (case us_arg of
             None \<Rightarrow> ret (False, ms_arg)
           | Some us \<Rightarrow>
               try_except
                 (bind (write_attr device ''sampling_us'' (py_str us)) (\<lambda>_. ret (True, ms_arg)))
                 (\<lambda>e. e = FileNotFoundError)
                 (\<lambda>_. ret (False, Some (max 1 (us div 1000)))))
       (\<lambda>(returned, ms).
          if returned then ret ()
          else when_some ms (\<lambda>v. write_attr device ''sampling_ms'' (py_str v)))"

section \<open>The store as a map\<close>

definition files :: "'a sysfs_scheme \<Rightarrow> path \<rightharpoonup> node" where
  "files w = map_of (tree w)"

definition well_formed :: "'a sysfs_scheme \<Rightarrow> bool" where
  "well_formed w \<longleftrightarrow> distinct (map fst (tree w))"

definition abs_write ::
  "exn option \<Rightarrow> path \<Rightarrow> string \<Rightarrow> (path \<rightharpoonup> node) \<Rightarrow> (exn + unit) \<times> (path \<rightharpoonup> node)" where
  "abs_write missing p text m =
     (case m p of
        Some Dir \<Rightarrow> (Inl OSError, m)
      | Some (File rw _) \<Rightarrow> if rw then (Inr (), m(p \<mapsto> File rw text)) else (Inl PermissionError, m)
      | None \<Rightarrow>
          (case missing of
             Some e \<Rightarrow> (Inl e, m)
           | None \<Rightarrow> if p \<noteq> [] \<and> m (butlast p) = Some Dir then (Inr (), m(p \<mapsto> File True text))
                     else (Inl FileNotFoundError, m)))"

definition writable_attr :: "SimtempDevice \<Rightarrow> string \<Rightarrow> 'a sysfs_scheme \<Rightarrow> bool" where
  "writable_attr dev name w \<longleftrightarrow>
     (case files w (attr_path dev name) of Some (File rw _) \<Rightarrow> rw | _ \<Rightarrow> False)"

definition attr_value :: "SimtempDevice \<Rightarrow> string \<Rightarrow> 'a sysfs_scheme \<Rightarrow> exn + int" where
  "attr_value dev name w = outcome (read_int dev name) w"

definition attr_text :: "SimtempDevice \<Rightarrow> string \<Rightarrow> 'a sysfs_scheme \<Rightarrow> exn + string" where
  "attr_text dev name w = outcome (read_str dev name) w"

definition read_sampling :: "SimtempDevice \<Rightarrow> 'a sysfs_scheme \<Rightarrow> exn + int" where
  "read_sampling dev w =
     (case attr_value dev ''sampling_us'' w of
        Inr us \<Rightarrow> Inr us
      | Inl e \<Rightarrow> if e = FileNotFoundError
                 then (case attr_value dev ''sampling_ms'' w of Inl e' \<Rightarrow> Inl e' | Inr ms \<Rightarrow> Inr (ms * 1000))
                 else Inl e)"

text \<open>
  Two predicates on the store for the sessions that change an attribute and
  put it back. \<open>guarded p rw c\<close> says that \<open>p\<close> is a file of writability
  \<open>rw\<close> and that a read-only file still has the content \<open>c\<close>: no write of the
  program can break it. \<open>holds_value\<close> and \<open>holds_text\<close> say what a read of
  an attribute returns.
\<close>

definition guarded :: "path \<Rightarrow> bool \<Rightarrow> string \<Rightarrow> 'a sysfs_scheme \<Rightarrow> bool" where
  "guarded p rw c w \<longleftrightarrow> (\<exists>c'. files w p = Some (File rw c') \<and> (\<not> rw \<longrightarrow> c' = c))"

definition holds_value :: "SimtempDevice \<Rightarrow> string \<Rightarrow> int \<Rightarrow> 'a sysfs_scheme \<Rightarrow> bool" where
  "holds_value dev name v w \<longleftrightarrow> attr_value dev name w = Inr v"

definition holds_text :: "SimtempDevice \<Rightarrow> string \<Rightarrow> string \<Rightarrow> 'a sysfs_scheme \<Rightarrow> bool" where
  "holds_text dev name v w \<longleftrightarrow> attr_text dev name w = Inr v"

section \<open>Stores of the examples\<close>

text \<open>
  The directories the tests in \<^verbatim>\<open>src/tests/test_cli.py\<close> build: one device
  with the four attributes \<^verbatim>\<open>_write_attrs\<close> writes (sampling 100 ms,
  threshold 45000, mode normal); the same device on a kernel that has no
  \<^verbatim>\<open>sampling_us\<close> attribute and refuses to create one; two devices
  created in the order \<^verbatim>\<open>simtemp10\<close>, \<^verbatim>\<open>simtemp0\<close>.
\<close>

definition tmp_device :: SimtempDevice where
  "tmp_device = \<lparr>sysfs_dir = [''/'', ''tmp'', ''simtemp0''], char_device = DEFAULT_CHAR_DEVICE\<rparr>"

definition tmp_tree :: "(path \<times> node) list" where
  "tmp_tree =
     [([''/'', ''tmp''], Dir),
      ([''/'', ''tmp'', ''simtemp0''], Dir),
      ([''/'', ''tmp'', ''simtemp0'', ''sampling_ms''], File True (''100'' @ [CHR 0x0A])),
      ([''/'', ''tmp'', ''simtemp0'', ''sampling_us''], File True (''100000'' @ [CHR 0x0A])),
      ([''/'', ''tmp'', ''simtemp0'', ''threshold_mC''], File True (''45000'' @ [CHR 0x0A])),
      ([''/'', ''tmp'', ''simtemp0'', ''mode''], File True (''normal'' @ [CHR 0x0A]))]"

definition tmp_store :: sysfs where
  "tmp_store = \<lparr>tree = tmp_tree, missing_write = None\<rparr>"

definition legacy_store :: sysfs where
  "legacy_store =
     \<lparr>tree = [([''/'', ''tmp''], Dir),
              ([''/'', ''tmp'', ''simtemp0''], Dir),
              ([''/'', ''tmp'', ''simtemp0'', ''sampling_ms''], File True (''100'' @ [CHR 0x0A])),
              ([''/'', ''tmp'', ''simtemp0'', ''threshold_mC''], File True (''45000'' @ [CHR 0x0A])),
              ([''/'', ''tmp'', ''simtemp0'', ''mode''], File True (''normal'' @ [CHR 0x0A]))],
      missing_write = Some FileNotFoundError\<rparr>"

definition two_devices :: sysfs where
  "two_devices =
     \<lparr>tree = [([''/'', ''tmp''], Dir),
              ([''/'', ''tmp'', ''simtemp10''], Dir),
              ([''/'', ''tmp'', ''simtemp0''], Dir)],
      missing_write = None\<rparr>"

declare path_exists_def [store_defs] is_dir_def [store_defs] glob_simtemp_def [store_defs]
  read_text_def [store_defs] write_text_def [store_defs] discover_def [store_defs]
  SimtempDevice_init_def [store_defs] attr_path_def [store_defs] read_int_def [store_defs]
  read_str_def [store_defs] write_attr_def [store_defs] snapshot_def [store_defs]
  write_sampling_def [store_defs]

lemmas store_eval = store_defs files_def writable_attr_def attr_value_def attr_text_def
  well_formed_def tmp_device_def tmp_tree_def tmp_store_def legacy_store_def two_devices_def
  DEFAULT_CHAR_DEVICE_def

section \<open>Reading and writing files\<close>

lemma read_text_final [simp]: "final (read_text p) w = w"
  by (simp add: read_text_def split: option.splits node.splits)

lemma read_text_files: "outcome (read_text p) w =
  (case files w p of None \<Rightarrow> Inl FileNotFoundError | Some Dir \<Rightarrow> Inl OSError | Some (File _ t) \<Rightarrow> Inr t)"
  by (simp add: read_text_def files_def split: option.splits node.splits)

lemma write_text_refines:
  "outcome (write_text p text) w = fst (abs_write (missing_write w) p text (files w))"
  "files (final (write_text p text) w) = snd (abs_write (missing_write w) p text (files w))"
  by (auto simp: write_text_def abs_write_def files_def is_dir_def update_conv'
      split: option.splits node.splits)

lemma write_text_missing_write [simp]:
  "missing_write (final (write_text p text) w) = missing_write w"
  by (simp add: write_text_def split: option.splits node.splits)


lemma write_text_fails: "outcome (write_text p text) w = Inl e \<Longrightarrow> final (write_text p text) w = w"
  by (auto simp: write_text_def split: option.splits node.splits if_splits)

lemma write_text_other:
  "q \<noteq> p \<Longrightarrow> files (final (write_text p text) w) q = files w q"
  by (auto simp: write_text_def files_def update_conv' split: option.splits node.splits)

lemma write_text_same:
  "outcome (write_text p text) w = Inr () \<Longrightarrow>
     files (final (write_text p text) w) p = Some (File True text)"
  by (auto simp: write_text_def files_def update_conv' split: option.splits node.splits if_splits)

section \<open>Attributes of a device\<close>

lemma attr_path_inject [simp]: "attr_path dev n = attr_path dev m \<longleftrightarrow> n = m"
  by (simp add: attr_path_def)

lemma read_int_final [simp]: "final (read_int dev name) w = w"
  by (simp add: read_int_def prog_simps read_text_def split: option.splits node.splits sum.splits)

lemma read_str_final [simp]: "final (read_str dev name) w = w"
  by (simp add: read_str_def prog_simps read_text_def split: option.splits node.splits sum.splits)

lemma read_int_files:
  "outcome (read_int dev name) w =
     (case files w (attr_path dev name) of
        None \<Rightarrow> Inl FileNotFoundError
      | Some Dir \<Rightarrow> Inl OSError
      | Some (File _ t) \<Rightarrow> py_int t)"
  by (simp add: read_int_def prog_simps read_text_def files_def
      split: option.splits node.splits sum.splits)

lemma read_str_files:
  "outcome (read_str dev name) w =
     (case files w (attr_path dev name) of
        None \<Rightarrow> Inl FileNotFoundError
      | Some Dir \<Rightarrow> Inl OSError
      | Some (File _ t) \<Rightarrow> Inr (strip t))"
  by (simp add: read_str_def prog_simps read_text_def files_def
      split: option.splits node.splits sum.splits)

lemma read_int_apply: "read_int dev name w = (attr_value dev name w, w)"
  by (simp add: attr_value_def prod_eq_iff)

lemma write_attr_fails:
  "outcome (write_attr dev name t) w = Inl e \<Longrightarrow> final (write_attr dev name t) w = w"
  by (simp add: write_attr_def write_text_fails)

lemma write_attr_writable:
  "writable_attr dev name w \<Longrightarrow> outcome (write_attr dev name t) w = Inr ()"
  by (auto simp: writable_attr_def write_attr_def write_text_refines abs_write_def
      split: option.splits node.splits)

lemma write_attr_files_same:
  "outcome (write_attr dev name t) w = Inr () \<Longrightarrow>
     files (final (write_attr dev name t) w) (attr_path dev name) = Some (File True (t @ [CHR 0x0A]))"
  by (simp add: write_attr_def write_text_same)

lemma write_attr_files_other:
  "p \<noteq> attr_path dev name \<Longrightarrow> files (final (write_attr dev name t) w) p = files w p"
  by (simp add: write_attr_def write_text_other)

lemma write_attr_missing_write [simp]:
  "missing_write (final (write_attr dev name t) w) = missing_write w"
  by (simp add: write_attr_def)

lemma write_attr_keeps_writable:
  "writable_attr dev m w \<Longrightarrow> writable_attr dev m (final (write_attr dev n t) w)"
proof (cases "outcome (write_attr dev n t) w")
  case (Inl e)
  then show "writable_attr dev m w \<Longrightarrow> ?thesis" by (simp add: write_attr_fails)
next
  case (Inr u)
  then show "writable_attr dev m w \<Longrightarrow> ?thesis"
    by (cases "m = n") (simp_all add: writable_attr_def write_attr_files_same write_attr_files_other)
qed

lemma attr_value_written:
  "outcome (write_attr dev name (py_str v)) w = Inr () \<Longrightarrow>
     attr_value dev name (final (write_attr dev name (py_str v)) w) = Inr v"
  using py_int_written [of v]
  by (simp add: attr_value_def read_int_files write_attr_files_same)

lemma attr_value_other:
  "m \<noteq> n \<Longrightarrow> attr_value dev m (final (write_attr dev n t) w) = attr_value dev m w"
  by (simp add: attr_value_def read_int_files write_attr_files_other)

lemma write_sampling_cases:
  "write_sampling dev us ms w =
     (case us of
        None \<Rightarrow> (case ms of None \<Rightarrow> (Inr (), w)
                  | Some v \<Rightarrow> write_attr dev ''sampling_ms'' (py_str v) w)
      | Some u \<Rightarrow>
          (case write_attr dev ''sampling_us'' (py_str u) w of
             (Inr _, w') \<Rightarrow> (Inr (), w')
           | (Inl e, w') \<Rightarrow>
               if e = FileNotFoundError
               then write_attr dev ''sampling_ms'' (py_str (max 1 (u div 1000))) w'
               else (Inl e, w')))"
  by (simp add: write_sampling_def prog_simps split: option.splits prod.splits sum.splits)

section \<open>The sampling period\<close>

lemma read_str_apply: "read_str dev name w = (attr_text dev name w, w)"
  by (simp add: attr_text_def prod_eq_iff)

text \<open>
  Claim C8. On a kernel without the \<^verbatim>\<open>sampling_us\<close> attribute, where the
  write raises \<^verbatim>\<open>FileNotFoundError\<close>, \<^verbatim>\<open>write_sampling\<close> with a
  period in microseconds succeeds by writing the period to \<^verbatim>\<open>sampling_ms\<close>
  instead, divided by 1000 rounding down and never below 1, and creates no
  \<^verbatim>\<open>sampling_us\<close> file.
\<close>

theorem write_sampling_fallback:
  assumes "files w (attr_path dev ''sampling_us'') = None"
    and "missing_write w = Some FileNotFoundError"
    and "writable_attr dev ''sampling_ms'' w"
  shows "outcome (write_sampling dev (Some us) ms) w = Inr ()
    \<and> attr_value dev ''sampling_ms'' (final (write_sampling dev (Some us) ms) w)
        = Inr (max 1 (us div 1000))
    \<and> files (final (write_sampling dev (Some us) ms) w) (attr_path dev ''sampling_us'') = None"
proof -
  let ?v = "py_str (max 1 (us div 1000))"
  have us: "write_attr dev ''sampling_us'' (py_str us) w = (Inl FileNotFoundError, w)"
    using assms(1,2) by (simp add: write_attr_def write_text_def files_def)
  then have eq: "write_sampling dev (Some us) ms w = write_attr dev ''sampling_ms'' ?v w"
    by (simp add: write_sampling_cases)
  have ok: "outcome (write_attr dev ''sampling_ms'' ?v) w = Inr ()"
    using assms(3) by (rule write_attr_writable)
  have v: "attr_value dev ''sampling_ms'' (final (write_attr dev ''sampling_ms'' ?v) w)
      = Inr (max 1 (us div 1000))"
    by (rule attr_value_written [OF ok])
  have f: "files (final (write_attr dev ''sampling_ms'' ?v) w) (attr_path dev ''sampling_us'')
      = None"
    using assms(1) by (simp add: write_attr_files_other)
  show ?thesis
    unfolding eq using ok v f by (intro conjI)
qed

theorem write_sampling_fallback_witness:
  "files legacy_store (attr_path tmp_device ''sampling_us'') = None
   \<and> missing_write legacy_store = Some FileNotFoundError
   \<and> writable_attr tmp_device ''sampling_ms'' legacy_store
   \<and> outcome (write_sampling tmp_device (Some 500) None) legacy_store = Inr ()
   \<and> attr_value tmp_device ''sampling_ms''
        (final (write_sampling tmp_device (Some 500) None) legacy_store) = Inr 1
   \<and> files (final (write_sampling tmp_device (Some 500) None) legacy_store)
        (attr_path tmp_device ''sampling_us'') = None"
  using write_sampling_fallback [of legacy_store tmp_device 500 None]
  by (simp add: legacy_store_def tmp_device_def files_def attr_path_def writable_attr_def)

lemma write_sampling_prefers_us:
  assumes "writable_attr dev ''sampling_us'' w"
  shows "outcome (write_sampling dev (Some us) ms) w = Inr ()
    \<and> attr_value dev ''sampling_us'' (final (write_sampling dev (Some us) ms) w) = Inr us
    \<and> files (final (write_sampling dev (Some us) ms) w) (attr_path dev ''sampling_ms'')
        = files w (attr_path dev ''sampling_ms'')"
proof -
  have ok: "outcome (write_attr dev ''sampling_us'' (py_str us)) w = Inr ()"
    using assms by (rule write_attr_writable)
  then obtain w' where run: "write_attr dev ''sampling_us'' (py_str us) w = (Inr (), w')"
    by (cases "write_attr dev ''sampling_us'' (py_str us) w") auto
  then have "write_sampling dev (Some us) ms w = (Inr (), w')"
    by (simp add: write_sampling_cases)
  then show ?thesis
    using attr_value_written [OF ok]
      write_attr_files_other [of "attr_path dev ''sampling_ms''" dev "''sampling_us''" "py_str us" w]
    by (simp add: run)
qed

lemma write_attr_not_found:
  assumes "outcome (write_attr dev name t) w = Inl FileNotFoundError"
  shows "missing_write w = Some FileNotFoundError \<or> \<not> is_dir (sysfs_dir dev) w"
  using assms
  by (auto simp: write_attr_def write_text_def attr_path_def split: option.splits node.splits if_splits)

text \<open>
  Claim C37. The fallback depends on the store raising \<^verbatim>\<open>FileNotFoundError\<close>:
  in a device directory where a write to a missing attribute does not raise
  it (a plain directory creates the file), \<^verbatim>\<open>write_sampling\<close> with a period
  in microseconds never touches \<^verbatim>\<open>sampling_ms\<close>, whatever the write to
  \<^verbatim>\<open>sampling_us\<close> does.
\<close>

theorem write_sampling_no_fallback:
  assumes "missing_write w \<noteq> Some FileNotFoundError" and "is_dir (sysfs_dir dev) w"
  shows "files (final (write_sampling dev (Some us) ms) w) (attr_path dev ''sampling_ms'')
        = files w (attr_path dev ''sampling_ms'')"
proof (cases "outcome (write_attr dev ''sampling_us'' (py_str us)) w")
  case (Inl e)
  with assms have "e \<noteq> FileNotFoundError"
    using write_attr_not_found by blast
  moreover from Inl have "write_attr dev ''sampling_us'' (py_str us) w = (Inl e, w)"
    using write_attr_fails [OF Inl] by (simp add: prod_eq_iff)
  ultimately show ?thesis
    by (simp add: write_sampling_cases)
next
  case (Inr u)
  then obtain w' where run: "write_attr dev ''sampling_us'' (py_str us) w = (Inr (), w')"
    by (cases "write_attr dev ''sampling_us'' (py_str us) w") auto
  then show ?thesis
    using write_attr_files_other [of "attr_path dev ''sampling_ms''" dev "''sampling_us''" "py_str us" w]
    by (simp add: write_sampling_cases)
qed

theorem write_sampling_no_fallback_witness:
  "missing_write (tmp_store\<lparr>tree := tl tmp_tree\<rparr>) \<noteq> Some FileNotFoundError
   \<and> is_dir (sysfs_dir tmp_device) (tmp_store\<lparr>tree := tl tmp_tree\<rparr>)
   \<and> files (final (write_sampling tmp_device (Some 500) None) (tmp_store\<lparr>tree := tl tmp_tree\<rparr>))
        (attr_path tmp_device ''sampling_ms'')
      = Some (File True (''100'' @ [CHR 0x0A]))"
  using write_sampling_no_fallback [of "tmp_store\<lparr>tree := tl tmp_tree\<rparr>" tmp_device 500 None]
  by (simp add: store_eval)

lemma snapshot_final [simp]: "final (snapshot dev) w = w"
  by (simp add: snapshot_def prog_simps read_int_apply read_str_apply split: sum.splits prod.splits)

section \<open>The snapshot\<close>

lemma attr_value_not_found:
  "attr_value dev name w = Inl FileNotFoundError \<longleftrightarrow> files w (attr_path dev name) = None"
  by (auto simp: attr_value_def read_int_files py_int_def Let_def split: option.splits node.splits)

lemma snapshot_cases:
  "outcome (snapshot dev) w =
     (case read_sampling dev w of
        Inl e \<Rightarrow> Inl e
      | Inr us \<Rightarrow>
          (case attr_value dev ''threshold_mC'' w of
             Inl e \<Rightarrow> Inl e
           | Inr th \<Rightarrow>
               (case attr_text dev ''mode'' w of
                  Inl e \<Rightarrow> Inl e
                | Inr m \<Rightarrow> Inr \<lparr>sampling_us = us, threshold_mc = th, mode = m\<rparr>)))"
  by (simp add: snapshot_def read_sampling_def prog_simps read_int_apply read_str_apply
      split: sum.splits)

text \<open>
  Claim C36. When the \<^verbatim>\<open>sampling_us\<close> attribute is missing, the snapshot takes
  the sampling period from \<^verbatim>\<open>sampling_ms\<close>, multiplied by 1000, and the
  threshold and the mode as they are.
\<close>

theorem snapshot_fallback:
  assumes "files w (attr_path dev ''sampling_us'') = None"
    and "attr_value dev ''sampling_ms'' w = Inr ms"
    and "attr_value dev ''threshold_mC'' w = Inr th"
    and "attr_text dev ''mode'' w = Inr m"
  shows "outcome (snapshot dev) w = Inr \<lparr>sampling_us = ms * 1000, threshold_mc = th, mode = m\<rparr>"
proof -
  have "attr_value dev ''sampling_us'' w = Inl FileNotFoundError"
    using assms(1) by (simp add: attr_value_not_found)
  with assms show ?thesis by (simp add: snapshot_cases read_sampling_def)
qed

theorem snapshot_fallback_witness:
  "files legacy_store (attr_path tmp_device ''sampling_us'') = None
   \<and> attr_value tmp_device ''sampling_ms'' legacy_store = Inr 100
   \<and> attr_value tmp_device ''threshold_mC'' legacy_store = Inr 45000
   \<and> attr_text tmp_device ''mode'' legacy_store = Inr ''normal''
   \<and> outcome (snapshot tmp_device) legacy_store
     = Inr \<lparr>sampling_us = 100000, threshold_mc = 45000, mode = ''normal''\<rparr>"
  using snapshot_fallback [of legacy_store tmp_device 100 45000 "''normal''"]
  by (simp add: legacy_store_def tmp_device_def files_def attr_path_def attr_value_def
      attr_text_def read_int_files read_str_files text_eval)

lemma snapshot_threshold:
  "outcome (snapshot dev) w = Inr c \<Longrightarrow> attr_value dev ''threshold_mC'' w = Inr (threshold_mc c)"
  by (auto simp: snapshot_cases split: sum.splits)

section \<open>Discovery\<close>

lemma init_final [simp]: "final (SimtempDevice_init base i d) w = w"
  by (simp add: SimtempDevice_init_def Let_def)

text \<open>
  Claim C35. Selecting a device raises \<^verbatim>\<open>IndexError\<close> exactly when the root
  exists, at least one device directory was found, and the index is negative
  or not below the number of device directories.
\<close>

theorem init_index_error:
  "outcome (SimtempDevice_init base i d) w = Inl IndexError \<longleftrightarrow>
     path_exists base w \<and> discover base w \<noteq> [] \<and> (i < 0 \<or> int (length (discover base w)) \<le> i)"
  by (auto simp: SimtempDevice_init_def Let_def)

theorem init_index_error_witness:
  "outcome (SimtempDevice_init [''/'', ''tmp''] 1 None) tmp_store = Inl IndexError
   \<and> path_exists [''/'', ''tmp''] tmp_store \<and> discover [''/'', ''tmp''] tmp_store \<noteq> []"
  using init_index_error [of "[''/'', ''tmp'']" 1 None tmp_store]
  by (simp add: store_eval)

lemma init_Inr:
  "outcome (SimtempDevice_init base i d) w = Inr dev \<longleftrightarrow>
     path_exists base w \<and> 0 \<le> i \<and> i < int (length (discover base w))
     \<and> dev = \<lparr>sysfs_dir = discover base w ! nat i,
              char_device = (case d of None \<Rightarrow> DEFAULT_CHAR_DEVICE | Some p \<Rightarrow> p)\<rparr>"
  by (auto simp: SimtempDevice_init_def Let_def)

lemma sorted_discover [simp]: "sorted (discover base w)"
  by (simp add: discover_def)

lemma set_discover:
  "set (discover base w) =
     {p \<in> fst ` set (tree w). p \<noteq> [] \<and> butlast p = base \<and> take 7 (last p) = ''simtemp'' \<and> is_dir p w}"
  by (auto simp: discover_def glob_simtemp_def)

lemma init_selects:
  assumes "outcome (SimtempDevice_init base i d) w = Inr dev"
  shows "is_dir (sysfs_dir dev) w \<and> butlast (sysfs_dir dev) = base
    \<and> take 7 (last (sysfs_dir dev)) = ''simtemp''"
proof -
  from assms have "sysfs_dir dev \<in> set (discover base w)"
    by (auto simp: init_Inr)
  then show ?thesis by (simp add: set_discover)
qed

lemma init_sorted:
  assumes "outcome (SimtempDevice_init base i d) w = Inr a"
    and "outcome (SimtempDevice_init base j d) w = Inr b" and "i \<le> j"
  shows "sysfs_dir a \<le> sysfs_dir b"
  using assms sorted_nth_mono [OF sorted_discover, of "nat i" "nat j" base w]
  by (auto simp: init_Inr)

lemma distinct_discover: "well_formed w \<Longrightarrow> distinct (discover base w)"
  by (simp add: discover_def glob_simtemp_def well_formed_def)

lemma files_permuted:
  assumes "well_formed w" "well_formed w'" "set (tree w) = set (tree w')"
  shows "files w = files w'"
  using assms by (simp add: files_def well_formed_def map_of_inject_set)

lemma discover_permuted:
  assumes "well_formed w" "well_formed w'" "set (tree w) = set (tree w')"
  shows "discover base w = discover base w'"
proof (rule sorted_distinct_set_unique)
  have "is_dir p w = is_dir p w'" for p
    using files_permuted [OF assms] by (simp add: is_dir_def files_def)
  then show "set (discover base w) = set (discover base w')"
    using assms(3) by (simp add: set_discover)
qed (simp_all add: assms distinct_discover)

text \<open>
  Claim C16. Which device an index selects does not depend on the order in which the
  directories were created: two stores with the same entries in a different
  order give the same device, or the same error, for every root and index.
\<close>

theorem init_order_independent:
  assumes "well_formed w" "well_formed w'" "set (tree w) = set (tree w')"
  shows "outcome (SimtempDevice_init base i d) w' = outcome (SimtempDevice_init base i d) w"
proof -
  have "path_exists base w' = path_exists base w"
    using files_permuted [OF assms] by (simp add: path_exists_def files_def)
  then show ?thesis
    by (simp add: SimtempDevice_init_def discover_permuted [OF assms] Let_def)
qed

theorem init_order_independent_witness:
  "well_formed two_devices \<and> well_formed (two_devices\<lparr>tree := rev (tree two_devices)\<rparr>)
   \<and> outcome (SimtempDevice_init [''/'', ''tmp''] 0 None) two_devices = Inr tmp_device
   \<and> outcome (SimtempDevice_init [''/'', ''tmp''] 0 None)
         (two_devices\<lparr>tree := rev (tree two_devices)\<rparr>) = Inr tmp_device"
  using init_order_independent [of two_devices "two_devices\<lparr>tree := rev (tree two_devices)\<rparr>"
      "[''/'', ''tmp'']" 0 None]
  by (simp add: store_eval)

section \<open>Attributes under a session\<close>

lemma attr_text_written:
  "outcome (write_attr dev name t) w = Inr () \<Longrightarrow>
     attr_text dev name (final (write_attr dev name t) w) = Inr (strip (t @ [CHR 0x0A]))"
  by (simp add: attr_text_def read_str_files write_attr_files_same)

lemma attr_text_other:
  "m \<noteq> n \<Longrightarrow> attr_text dev m (final (write_attr dev n t) w) = attr_text dev m w"
  by (simp add: attr_text_def read_str_files write_attr_files_other)

lemma attr_text_stripped: "attr_text dev name w = Inr v \<Longrightarrow> strip v = v"
  by (auto simp: attr_text_def read_str_files split: option.splits node.splits)

lemma snapshot_mode:
  "outcome (snapshot dev) w = Inr c \<Longrightarrow> attr_text dev ''mode'' w = Inr (mode c)"
  by (auto simp: snapshot_cases split: sum.splits)

lemma guarded_write_text [preserves_intros]: "preserves (guarded p rw c) (write_text q t)"
proof (rule preservesI)
  fix w :: "'a sysfs_scheme"
  assume g: "guarded p rw c w"
  show "guarded p rw c (final (write_text q t) w)"
  proof (cases "q = p")
    case False
    with g show ?thesis by (simp add: guarded_def write_text_other)
  next
    case True
    show ?thesis
    proof (cases "outcome (write_text p t) w")
      case (Inl e)
      with g True show ?thesis by (simp add: write_text_fails)
    next
      case (Inr u)
      then have "files (final (write_text p t) w) p = Some (File True t)"
        by (simp add: write_text_same)
      moreover from Inr g have rw
        by (auto simp: guarded_def write_text_refines abs_write_def split: if_splits)
      ultimately show ?thesis using True by (simp add: guarded_def)
    qed
  qed
qed

lemma guarded_write_attr [preserves_intros]: "preserves (guarded p rw c) (write_attr dev n t)"
  by (simp add: write_attr_def guarded_write_text)

lemma guarded_write_sampling [preserves_intros]:
  "preserves (guarded p rw c) (write_sampling dev us ms)"
  unfolding write_sampling_def
  by (auto intro!: preserves_intros split: option.splits)

lemma holds_value_write_attr [preserves_intros]:
  "n \<noteq> m \<Longrightarrow> preserves (holds_value dev m v) (write_attr dev n t)"
  by (simp add: preserves_def holds_value_def attr_value_other)

lemma holds_value_write_sampling [preserves_intros]:
  "m \<noteq> ''sampling_us'' \<Longrightarrow> m \<noteq> ''sampling_ms'' \<Longrightarrow>
     preserves (holds_value dev m v) (write_sampling dev us ms)"
  unfolding write_sampling_def
  by (auto intro!: preserves_intros split: option.splits)

lemma holds_text_write_attr [preserves_intros]:
  "n \<noteq> m \<Longrightarrow> preserves (holds_text dev m v) (write_attr dev n t)"
  by (simp add: preserves_def holds_text_def attr_text_other)

lemma holds_text_write_sampling [preserves_intros]:
  "m \<noteq> ''sampling_us'' \<Longrightarrow> m \<noteq> ''sampling_ms'' \<Longrightarrow>
     preserves (holds_text dev m v) (write_sampling dev us ms)"
  unfolding write_sampling_def
  by (auto intro!: preserves_intros split: option.splits)

lemma guarded_writable:
  "guarded (attr_path dev n) True c w \<Longrightarrow> writable_attr dev n w"
  by (auto simp: guarded_def writable_attr_def)

lemma guarded_readonly:
  "guarded (attr_path dev n) False c w \<Longrightarrow> outcome (write_attr dev n t) w = Inl PermissionError"
  by (auto simp: guarded_def write_attr_def write_text_refines abs_write_def)

lemma guarded_value:
  "guarded (attr_path dev n) False c w \<Longrightarrow> attr_value dev n w = py_int c"
  by (auto simp: guarded_def attr_value_def read_int_files)

lemma attr_value_guarded:
  assumes "attr_value dev n w = Inr v"
  obtains rw c where "guarded (attr_path dev n) rw c w" "py_int c = Inr v"
  using assms
  by (auto simp: guarded_def attr_value_def read_int_files split: option.splits node.splits)




text \<open>A write never removes a file: what exists keeps existing.\<close>

lemma path_exists_write_text [preserves_intros]: "preserves (path_exists p) (write_text q t)"
  by (auto simp: preserves_def path_exists_def write_text_refines(2) [unfolded files_def]
      abs_write_def split: option.splits node.splits if_splits)

lemma path_exists_write_attr [preserves_intros]: "preserves (path_exists p) (write_attr dev n t)"
  by (simp add: write_attr_def path_exists_write_text)

lemma path_exists_write_sampling [preserves_intros]:
  "preserves (path_exists p) (write_sampling dev us ms)"
  unfolding write_sampling_def by (auto intro!: preserves_intros split: option.splits)

section \<open>Properties of the store\<close>



text \<open>
  Claim C26. An integer written to a writable attribute is the integer
  \<^verbatim>\<open>read_int\<close> reads back: the decimal text with its newline parses to the
  same value, negative values included.
\<close>

theorem write_read_roundtrip:
  assumes "writable_attr dev name w"
  shows "outcome (write_attr dev name (py_str v)) w = Inr ()
    \<and> outcome (read_int dev name) (final (write_attr dev name (py_str v)) w) = Inr v"
  using write_attr_writable [OF assms, of "py_str v"] attr_value_written [of dev name v w]
  by (simp add: attr_value_def)

theorem write_read_roundtrip_witness:
  "writable_attr tmp_device ''sampling_ms'' tmp_store
   \<and> outcome (write_attr tmp_device ''sampling_ms'' (py_str 250)) tmp_store = Inr ()
   \<and> outcome (read_int tmp_device ''sampling_ms'')
        (final (write_attr tmp_device ''sampling_ms'' (py_str 250)) tmp_store) = Inr 250"
  using write_read_roundtrip [of tmp_device "''sampling_ms''" tmp_store 250]
  by (simp add: store_eval)



end
