(* ===== verification/Sample_Codec.thy ===== *)
theory Sample_Codec
  imports Simtemp_Prelude
begin

text \<open>
  The binary sample record of \<^verbatim>\<open>src/user/cli/main.py\<close>:
  \<^verbatim>\<open>SIMTEMP_SAMPLE_STRUCT = struct.Struct("<QiI")\<close>, a little-endian
  record without padding of an unsigned 64-bit timestamp, a signed 32-bit
  temperature and an unsigned 32-bit flag word, and the alert flag
  \<^verbatim>\<open>SIMTEMP_FLAG_ALERT = 1 << 1\<close>.

  Python integers are unbounded, so the fields are \<open>int\<close>; the widths live in
  the byte layout. \<open>unpack\<close> is what both polling loops call on a record;
  \<open>pack\<close> is the inverse the test suite uses to build records. The lemmas give
  the length of a packed record, the range of every unpacked field, both round
  trips, and the reading of the layout through the machine words of
  \<open>HOL-Library.Word\<close>.
\<close>

unbundle bit_operations_syntax

section \<open>Little-endian byte strings\<close>

fun le_bytes :: "nat \<Rightarrow> int \<Rightarrow> bytes" where
  "le_bytes 0 v = []"
| "le_bytes (Suc n) v = word_of_int (v mod 256) # le_bytes n (v div 256)"

fun le_value :: "bytes \<Rightarrow> int" where
  "le_value [] = 0"
| "le_value (b # bs) = uint b + 256 * le_value bs"

definition to_signed :: "nat \<Rightarrow> int \<Rightarrow> int" where
  "to_signed bits v = (if 2 ^ (bits - 1) \<le> v then v - 2 ^ bits else v)"

section \<open>The record\<close>

type_synonym sample = "int \<times> int \<times> int"

definition SIMTEMP_SAMPLE_SIZE :: nat where
  "SIMTEMP_SAMPLE_SIZE = 8 + 4 + 4"

definition SIMTEMP_FLAG_ALERT :: int where
  "SIMTEMP_FLAG_ALERT = push_bit 1 1"

definition unpack :: "bytes \<Rightarrow> exn + sample" where
  "unpack data =
     (if length data \<noteq> SIMTEMP_SAMPLE_SIZE then Inl StructError
      else Inr (le_value (take 8 data),
                to_signed 32 (le_value (take 4 (drop 8 data))),
                le_value (take 4 (drop 12 data))))"

definition pack :: "int \<Rightarrow> int \<Rightarrow> int \<Rightarrow> exn + bytes" where
  "pack timestamp_ns temp_mc flags =
     (if 0 \<le> timestamp_ns \<and> timestamp_ns < 2 ^ 64
         \<and> - (2 ^ 31) \<le> temp_mc \<and> temp_mc < 2 ^ 31
         \<and> 0 \<le> flags \<and> flags < 2 ^ 32
      then Inr (le_bytes 8 timestamp_ns @ le_bytes 4 temp_mc @ le_bytes 4 flags)
      else Inl StructError)"

definition alert_set :: "int \<Rightarrow> bool" where
  "alert_set flags \<longleftrightarrow> flags AND SIMTEMP_FLAG_ALERT \<noteq> 0"

definition alert_bit :: "int \<Rightarrow> int" where
  "alert_bit flags = (if alert_set flags then 1 else 0)"

declare SIMTEMP_SAMPLE_SIZE_def [codec_defs] SIMTEMP_FLAG_ALERT_def [codec_defs]
  unpack_def [codec_defs] pack_def [codec_defs] alert_set_def [codec_defs]
  alert_bit_def [codec_defs]

section \<open>Byte strings and their values\<close>

lemma length_le_bytes [simp]: "length (le_bytes n v) = n"
  by (induction n arbitrary: v) auto

lemma le_value_nonneg [simp]: "0 \<le> le_value bs"
  by (induction bs) auto

lemma le_value_less: "le_value bs < 256 ^ length bs"
proof (induction bs)
  case Nil
  show ?case by simp
next
  case (Cons b bs)
  have "uint b < 256"
    using uint_bounded [of b] by simp
  with Cons show ?case by simp
qed

lemma le_value_append: "le_value (xs @ ys) = le_value xs + 256 ^ length xs * le_value ys"
  by (induction xs) (auto simp: algebra_simps)

lemma uint_byte_of_mod [simp]: "uint (word_of_int (v mod 256) :: byte) = v mod 256"
  by (simp add: uint_word_of_int)

lemma le_value_le_bytes_mod: "le_value (le_bytes n v) = v mod 256 ^ n"
proof (induction n arbitrary: v)
  case 0
  show ?case by simp
next
  case (Suc n)
  have "v mod 256 + 256 * (v div 256 mod 256 ^ n) = v mod (256 * 256 ^ n)"
    by (simp add: zmod_zmult2_eq)
  with Suc show ?case by simp
qed

lemma le_value_le_bytes: "0 \<le> v \<Longrightarrow> v < 256 ^ n \<Longrightarrow> le_value (le_bytes n v) = v"
  by (simp add: le_value_le_bytes_mod)

lemma le_bytes_le_value: "le_bytes (length bs) (le_value bs) = bs"
proof (induction bs)
  case Nil
  show ?case by simp
next
  case (Cons b bs)
  have b: "0 \<le> uint b" "uint b < 256"
    using uint_bounded [of b] by simp_all
  then have "(uint b + 256 * le_value bs) mod 256 = uint b"
    and "(uint b + 256 * le_value bs) div 256 = le_value bs"
    by simp_all
  with Cons show ?case by simp
qed

lemma le_bytes_inject:
  "length xs = length ys \<Longrightarrow> le_value xs = le_value ys \<Longrightarrow> xs = ys"
  by (metis le_bytes_le_value)

section \<open>Two's complement\<close>

lemma to_signed_mod:
  assumes "- (2 ^ 31) \<le> v" "v < 2 ^ 31"
  shows "to_signed 32 (v mod 2 ^ 32) = (v::int)"
proof (cases "0 \<le> v")
  case True
  with assms have "v mod 2 ^ 32 = v" by simp
  with assms show ?thesis by (simp add: to_signed_def)
next
  case False
  with assms have "v mod 2 ^ 32 = v + 2 ^ 32"
    by (simp add: mod_neg_shift)
  with False assms show ?thesis by (simp add: to_signed_def)
qed

lemma to_signed_range:
  "0 \<le> v \<Longrightarrow> v < 2 ^ 32 \<Longrightarrow> - (2 ^ 31) \<le> to_signed 32 v \<and> to_signed 32 v < 2 ^ 31"
  by (simp add: to_signed_def)

lemma to_signed_mod_inverse:
  "0 \<le> v \<Longrightarrow> v < 2 ^ 32 \<Longrightarrow> to_signed 32 v mod 2 ^ 32 = (v::int)"
  by (auto simp: to_signed_def mod_neg_shift)

lemma signed_take_bit_31:
  assumes "0 \<le> k" "k < 2 ^ 32"
  shows "signed_take_bit 31 (k::int) = to_signed 32 k"
proof (cases "k < 2 ^ 31")
  case True
  with assms have "(k + 2 ^ 31) mod 2 ^ 32 = k + 2 ^ 31" by simp
  with True show ?thesis
    by (simp add: signed_take_bit_eq_take_bit_shift take_bit_eq_mod to_signed_def)
next
  case False
  with assms have "(k + 2 ^ 31) mod 2 ^ 32 = (k + 2 ^ 31 - 2 ^ 32)"
    by (simp add: mod_pos_geq)
  with False show ?thesis
    by (simp add: signed_take_bit_eq_take_bit_shift take_bit_eq_mod to_signed_def)
qed

section \<open>Words\<close>

lemma le_value_horner: "le_value bs = horner_sum uint 256 bs"
  by (induction bs) auto

lemma word_rcat_rev_le: "(word_rcat (rev bs) :: 'a::len word) = word_of_int (le_value bs)"
  by (simp add: word_rcat_def le_value_horner)

section \<open>Decoding and encoding a record\<close>

lemma unpack_fields:
  assumes "unpack bs = Inr (t, m, f)"
  shows "length bs = 16" "t = le_value (take 8 bs)"
    "m = to_signed 32 (le_value (take 4 (drop 8 bs)))" "f = le_value (take 4 (drop 12 bs))"
  using assms by (auto simp: codec_defs split: if_splits)

lemma field_bounds:
  assumes "length bs = 16"
  shows "le_value (take 8 bs) < 2 ^ 64" "le_value (take 4 (drop 8 bs)) < 2 ^ 32"
    "le_value (take 4 (drop 12 bs)) < 2 ^ 32"
  using le_value_less [of "take 8 bs"] le_value_less [of "take 4 (drop 8 bs)"]
    le_value_less [of "take 4 (drop 12 bs)"] assms by simp_all

lemma unpack_Inr_iff: "(\<exists>s. unpack data = Inr s) \<longleftrightarrow> length data = SIMTEMP_SAMPLE_SIZE"
  by (simp add: unpack_def)

lemma unpack_wrong_length:
  "length data \<noteq> SIMTEMP_SAMPLE_SIZE \<Longrightarrow> unpack data = Inl StructError"
  by (simp add: unpack_def)

lemma pack_length: "pack t m f = Inr bs \<Longrightarrow> length bs = SIMTEMP_SAMPLE_SIZE"
  by (auto simp: codec_defs split: if_splits)

lemma unpack_le_bytes:
  assumes "0 \<le> t" "t < 2 ^ 64" "- (2 ^ 31) \<le> m" "m < 2 ^ 31" "0 \<le> f" "f < 2 ^ 32"
  shows "unpack (le_bytes 8 t @ le_bytes 4 m @ le_bytes 4 f) = Inr (t, m, f)"
proof -
  have "le_value (le_bytes 8 t) = t" using assms by (simp add: le_value_le_bytes)
  moreover have "to_signed 32 (le_value (le_bytes 4 m)) = m"
    using assms to_signed_mod [of m] by (simp add: le_value_le_bytes_mod)
  moreover have "le_value (le_bytes 4 f) = f" using assms by (simp add: le_value_le_bytes)
  ultimately show ?thesis by (simp add: unpack_def SIMTEMP_SAMPLE_SIZE_def)
qed

lemma unpack_packed: "pack t m f = Inr bs \<Longrightarrow> unpack bs = Inr (t, m, f)"
  by (auto simp: pack_def unpack_le_bytes split: if_splits)

lemma pack_example:
  "pack 1234567890 42000 SIMTEMP_FLAG_ALERT =
     Inr [0xD2, 0x02, 0x96, 0x49, 0, 0, 0, 0, 0x10, 0xA4, 0, 0, 2, 0, 0, 0]"
  by (simp add: codec_defs numeral_eq_Suc)

lemma unpack_example:
  "unpack [0, 0, 0, 0, 0, 0, 0, 0, 0xFF, 0xFF, 0xFF, 0xFF, 2, 0, 0, 0] = Inr (0, - 1, 2)"
  by (simp add: codec_defs to_signed_def)

text \<open>
  Claim C5. A record that \<open>pack\<close> builds from a timestamp, a temperature and a
  flag word decodes to exactly these three values: the round trip of the fixed
  binary layout, negative temperatures included.
\<close>

theorem unpack_pack:
  assumes "pack t m f = Inr bs"
  shows "unpack bs = Inr (t, m, f)"
  using assms by (auto simp: pack_def unpack_le_bytes split: if_splits)

theorem unpack_pack_witness:
  "pack 1234567890 42000 SIMTEMP_FLAG_ALERT =
     Inr [0xD2, 0x02, 0x96, 0x49, 0, 0, 0, 0, 0x10, 0xA4, 0, 0, 2, 0, 0, 0]
   \<and> unpack [0xD2, 0x02, 0x96, 0x49, 0, 0, 0, 0, 0x10, 0xA4, 0, 0, 2, 0, 0, 0] =
     Inr (1234567890, 42000, SIMTEMP_FLAG_ALERT)"
  using unpack_pack [OF pack_example] pack_example by simp

text \<open>
  Claim C28. Every field of a decoded record lies in the range of its machine
  type: the timestamp in \<open>[0, 2^64)\<close>, the temperature in \<open>[-2^31, 2^31)\<close>,
  the flags in \<open>[0, 2^32)\<close>.
\<close>

theorem unpack_range:
  assumes "unpack bs = Inr (t, m, f)"
  shows "0 \<le> t \<and> t < 2 ^ 64 \<and> - (2 ^ 31) \<le> m \<and> m < 2 ^ 31 \<and> 0 \<le> f \<and> f < 2 ^ 32"
  using unpack_fields [OF assms] field_bounds [of bs]
    to_signed_range [of "le_value (take 4 (drop 8 bs))"] by simp

theorem unpack_range_witness:
  "unpack [0, 0, 0, 0, 0, 0, 0, 0, 0xFF, 0xFF, 0xFF, 0xFF, 2, 0, 0, 0] = Inr (0, - 1, 2)
   \<and> (0::int) \<le> 0 \<and> (0::int) < 2 ^ 64 \<and> - (2 ^ 31) \<le> (- 1::int) \<and> (- 1::int) < 2 ^ 31
   \<and> (0::int) \<le> 2 \<and> (2::int) < 2 ^ 32"
  using unpack_range [OF unpack_example] unpack_example by simp

text \<open>
  Claim C27. Decoding loses nothing: packing the three fields of a decoded
  record gives back the sixteen bytes it was decoded from, so \<open>unpack\<close> is
  injective on records.
\<close>

theorem pack_unpack:
  assumes "unpack bs = Inr (t, m, f)"
  shows "pack t m f = Inr bs"
proof -
  note u = unpack_fields [OF assms] and b = field_bounds [OF unpack_fields(1) [OF assms]]
  have mm: "m mod 2 ^ 32 = le_value (take 4 (drop 8 bs))"
    unfolding u(3) using b(2) by (intro to_signed_mod_inverse) simp_all
  have "le_bytes 8 t = take 8 bs"
    using le_bytes_le_value [of "take 8 bs"] u(1) by (simp add: u(2))
  moreover have "le_bytes 4 m = take 4 (drop 8 bs)"
  proof (rule le_bytes_inject)
    show "length (le_bytes 4 m) = length (take 4 (drop 8 bs))" using u(1) by simp
    show "le_value (le_bytes 4 m) = le_value (take 4 (drop 8 bs))"
      using mm by (simp add: le_value_le_bytes_mod)
  qed
  moreover have "le_bytes 4 f = take 4 (drop 12 bs)"
    using le_bytes_le_value [of "take 4 (drop 12 bs)"] u(1) by (simp add: u(4))
  moreover have "take 8 bs @ take 4 (drop 8 bs) @ take 4 (drop 12 bs) = bs"
  proof -
    have "take 4 (drop 8 bs) @ take 4 (drop 4 (drop 8 bs)) = drop 8 bs"
      by (rule take_drop_length_eq) (simp add: u(1))
    then show ?thesis by simp
  qed
  ultimately show ?thesis
    using u b to_signed_range [of "le_value (take 4 (drop 8 bs))"] by (simp add: pack_def)
qed

theorem pack_unpack_witness:
  "unpack [0, 0, 0, 0, 0, 0, 0, 0, 0xFF, 0xFF, 0xFF, 0xFF, 2, 0, 0, 0] = Inr (0, - 1, 2)
   \<and> pack 0 (- 1) 2 = Inr [0, 0, 0, 0, 0, 0, 0, 0, 0xFF, 0xFF, 0xFF, 0xFF, 2, 0, 0, 0]"
  using pack_unpack [OF unpack_example] unpack_example by simp

text \<open>
  Claim C29. The integer arithmetic of \<open>unpack\<close> reads the same values as the
  machine words of the layout: the first eight bytes as an unsigned 64-bit
  word, the next four as a signed 32-bit word, the last four as an unsigned
  32-bit word, each little-endian.
\<close>

theorem unpack_words:
  assumes "length bs = SIMTEMP_SAMPLE_SIZE"
  shows "unpack bs = Inr (uint (word_rcat (rev (take 8 bs)) :: 64 word),
                          sint (word_rcat (rev (take 4 (drop 8 bs))) :: 32 word),
                          uint (word_rcat (rev (take 4 (drop 12 bs))) :: 32 word))"
proof -
  from assms have len: "length bs = 16" by (simp add: SIMTEMP_SAMPLE_SIZE_def)
  note b = field_bounds [OF len]
  have "uint (word_of_int (le_value (take 8 bs)) :: 64 word) = le_value (take 8 bs)"
    using b by (simp add: uint_word_of_int)
  moreover have "sint (word_of_int (le_value (take 4 (drop 8 bs))) :: 32 word)
      = to_signed 32 (le_value (take 4 (drop 8 bs)))"
    using b by (simp add: sint_sbintrunc' signed_take_bit_31)
  moreover have "uint (word_of_int (le_value (take 4 (drop 12 bs))) :: 32 word)
      = le_value (take 4 (drop 12 bs))"
    using b by (simp add: uint_word_of_int)
  ultimately show ?thesis
    using assms by (simp add: unpack_def word_rcat_rev_le)
qed

theorem unpack_words_witness:
  "unpack [0, 0, 0, 0, 0, 0, 0, 0, 0xFF, 0xFF, 0xFF, 0xFF, 2, 0, 0, 0] =
     Inr (uint (word_rcat [0, 0, 0, 0, 0, 0, 0, 0 :: byte] :: 64 word),
          sint (word_rcat [0xFF, 0xFF, 0xFF, 0xFF :: byte] :: 32 word),
          uint (word_rcat [0, 0, 0, 2 :: byte] :: 32 word))"
  using unpack_words [of "[0, 0, 0, 0, 0, 0, 0, 0, 0xFF, 0xFF, 0xFF, 0xFF, 2, 0, 0, 0]"]
  by (simp add: SIMTEMP_SAMPLE_SIZE_def)

text \<open>
  The alert test \<^verbatim>\<open>flags & SIMTEMP_FLAG_ALERT\<close> of the two polling loops
  looks at bit 1 of the flag word and at nothing else.
\<close>

theorem alert_set_bit: "alert_set flags \<longleftrightarrow> bit flags 1"
  using and_exp_eq_0_iff_not_bit [of flags 1] by (simp add: codec_defs)

end
