(* ===== verification/Poll_Env.thy ===== *)
theory Poll_Env
  imports Sysfs_Store Sample_Codec
begin

text \<open>
  The system calls of the two polling loops and the world they act on. The
  world extends the file tree with the scripted answers of the environment:
  the readings \<^verbatim>\<open>time.monotonic()\<close> will return, the results of
  \<^verbatim>\<open>poller.poll\<close> and the results of \<^verbatim>\<open>os.read\<close>, each consumed in
  order. A call that finds its script exhausted raises
  \<^verbatim>\<open>KeyboardInterrupt\<close>: the operator stops the program there. The world
  also records what the program does to its environment: the descriptors it
  holds, the timeouts it passed to \<^verbatim>\<open>poll\<close> and the lines it printed
  on the standard output and on the standard error. The step the two loops
  have in common, \<open>poll_record\<close>, is defined here with its lemmas.
\<close>

section \<open>The world\<close>

datatype poll_result = Ready | TimedOut | PollRaises exn

datatype read_result = Data bytes | ReadRaises exn

datatype out_line =
    SampleLine int int int int
  | PassLine int int int int
  | FailLine int int

datatype err_line = UsageError exn | RuntimeError exn

record world = sysfs +
  clock :: "real list"
  polls :: "poll_result list"
  reads :: "read_result list"
  poll_log :: "int list"
  open_fds :: "nat list"
  next_fd :: nat
  stdout :: "out_line list"
  stderr :: "err_line list"

section \<open>System calls\<close>

definition MICROS_PER_SEC :: int where
  "MICROS_PER_SEC = 1000000"

definition DEFAULT_POLL_TIMEOUT_MS :: int where
  "DEFAULT_POLL_TIMEOUT_MS = 1000"

definition monotonic :: "(real, world) prog" where
  "monotonic = (\<lambda>w. case clock w of
                       [] \<Rightarrow> (Inl KeyboardInterrupt, w)
                     | t # ts \<Rightarrow> (Inr t, w\<lparr>clock := ts\<rparr>))"

definition os_open :: "path \<Rightarrow> (nat, world) prog" where
  "os_open p = (\<lambda>w. if path_exists p w
                     then (Inr (next_fd w),
                           w\<lparr>open_fds := next_fd w # open_fds w, next_fd := Suc (next_fd w)\<rparr>)
                     else (Inl FileNotFoundError, w))"

definition os_close :: "nat \<Rightarrow> (unit, world) prog" where
  "os_close fd = (\<lambda>w. if fd \<in> set (open_fds w)
                       then (Inr (), w\<lparr>open_fds := removeAll fd (open_fds w)\<rparr>)
                       else (Inl OSError, w))"

definition poller_poll :: "nat \<Rightarrow> int \<Rightarrow> (bool, world) prog" where
  "poller_poll fd timeout_ms =
     (\<lambda>w. case polls w of
             [] \<Rightarrow> (Inl KeyboardInterrupt, w)
           | r # rs \<Rightarrow>
               (case r of
                  Ready \<Rightarrow> (Inr True, w\<lparr>polls := rs, poll_log := timeout_ms # poll_log w\<rparr>)
                | TimedOut \<Rightarrow> (Inr False, w\<lparr>polls := rs, poll_log := timeout_ms # poll_log w\<rparr>)
                | PollRaises e \<Rightarrow> (Inl e, w\<lparr>polls := rs, poll_log := timeout_ms # poll_log w\<rparr>)))"

definition os_read :: "nat \<Rightarrow> nat \<Rightarrow> (bytes, world) prog" where
  "os_read fd n =
     (\<lambda>w. if fd \<notin> set (open_fds w) then (Inl OSError, w)
           else case reads w of
                  [] \<Rightarrow> (Inl KeyboardInterrupt, w)
                | r # rs \<Rightarrow>
                    (case r of
                       Data bs \<Rightarrow> (Inr (take n bs), w\<lparr>reads := rs\<rparr>)
                     | ReadRaises e \<Rightarrow> (Inl e, w\<lparr>reads := rs\<rparr>)))"

text \<open>
  The step both loops share: wait for the channel, read one record without
  blocking, and decode it. \<open>None\<close> stands for the three \<^verbatim>\<open>continue\<close>
  statements: no event, a read that would block, a short read.
\<close>

definition poll_record :: "nat \<Rightarrow> int \<Rightarrow> (sample option, world) prog" where
  "poll_record fd timeout_ms =
     bind (poller_poll fd timeout_ms) (\<lambda>events.
       if \<not> events then ret None
       else bind (try_except (bind (os_read fd SIMTEMP_SAMPLE_SIZE) (\<lambda>d. ret (Some d)))
                    (\<lambda>e. e = BlockingIOError) (\<lambda>_. ret None)) (\<lambda>data.
         case data of
           None \<Rightarrow> ret None
         | Some d \<Rightarrow>
             if length d < SIMTEMP_SAMPLE_SIZE then ret None
             else bind (lift (unpack d)) (\<lambda>unpacked. ret (Some unpacked))))"

definition print_line :: "out_line \<Rightarrow> (unit, world) prog" where
  "print_line l = (\<lambda>w. (Inr (), w\<lparr>stdout := stdout w @ [l]\<rparr>))"

definition print_err :: "err_line \<Rightarrow> (unit, world) prog" where
  "print_err l = (\<lambda>w. (Inr (), w\<lparr>stderr := stderr w @ [l]\<rparr>))"

definition py_trunc :: "real \<Rightarrow> int" where
  "py_trunc x = (if 0 \<le> x then \<lfloor>x\<rfloor> else \<lceil>x\<rceil>)"

section \<open>What a polling loop may change\<close>

definition only_env :: "world \<Rightarrow> world \<Rightarrow> bool" where
  "only_env w w' \<longleftrightarrow>
     tree w' = tree w \<and> missing_write w' = missing_write w \<and> open_fds w' = open_fds w
     \<and> next_fd w' = next_fd w \<and> stdout w' = stdout w \<and> stderr w' = stderr w"

definition fds_fresh :: "world \<Rightarrow> bool" where
  "fds_fresh w \<longleftrightarrow> list_all (\<lambda>fd. fd < next_fd w) (open_fds w)"

text \<open>
  Conversely, what an operation of the attribute store leaves alone: the
  scripts, the descriptors and the output.
\<close>

definition same_env :: "world \<Rightarrow> world \<Rightarrow> bool" where
  "same_env w w' \<longleftrightarrow>
     clock w' = clock w \<and> polls w' = polls w \<and> reads w' = reads w \<and> poll_log w' = poll_log w
     \<and> open_fds w' = open_fds w \<and> next_fd w' = next_fd w \<and> stdout w' = stdout w
     \<and> stderr w' = stderr w"

text \<open>
  A script is benign if the only exceptions it holds are those the loop
  handles: an interrupt anywhere, a read that would block.
\<close>

definition benign :: "world \<Rightarrow> bool" where
  "benign w \<longleftrightarrow>
     list_all (\<lambda>r. case r of PollRaises e \<Rightarrow> e = KeyboardInterrupt | _ \<Rightarrow> True) (polls w)
     \<and> list_all (\<lambda>r. case r of ReadRaises e \<Rightarrow> e = KeyboardInterrupt \<or> e = BlockingIOError
                     | _ \<Rightarrow> True) (reads w)"

text \<open>
  What everything but a read and a print leaves alone: the script of reads and
  the output.
\<close>

definition consumed :: "world \<Rightarrow> world \<Rightarrow> read_result list \<Rightarrow> bool" where
  "consumed w w' c \<longleftrightarrow> reads w = c @ reads w'"

definition taken :: "world \<Rightarrow> world \<Rightarrow> read_result list" where
  "taken w w' = take (length (reads w) - length (reads w')) (reads w)"

definition unread :: "world \<Rightarrow> world \<Rightarrow> bool" where
  "unread w w' \<longleftrightarrow> reads w' = reads w \<and> stdout w' = stdout w"

declare monotonic_def [env_defs] os_open_def [env_defs] os_close_def [env_defs]
  poller_poll_def [env_defs] os_read_def [env_defs] print_line_def [env_defs]
  print_err_def [env_defs] poll_record_def [env_defs]
  py_trunc_def [env_defs] MICROS_PER_SEC_def [env_defs] DEFAULT_POLL_TIMEOUT_MS_def [env_defs]

section \<open>Frame rules\<close>

lemma only_env_refl [simp]: "only_env w w"
  by (simp add: only_env_def)

lemma only_env_trans: "only_env a b \<Longrightarrow> only_env b c \<Longrightarrow> only_env a c"
  by (simp add: only_env_def)

lemma only_env_files: "only_env w w' \<Longrightarrow> files w' = files w"
  by (simp add: only_env_def files_def)

lemma only_env_monotonic: "only_env w (final monotonic w)"
  by (simp add: only_env_def monotonic_def split: list.splits)

lemma only_env_poll: "only_env w (final (poller_poll fd t) w)"
  by (simp add: only_env_def poller_poll_def split: list.splits poll_result.splits)

lemma only_env_read: "only_env w (final (os_read fd n) w)"
  by (simp add: only_env_def os_read_def split: list.splits read_result.splits)

lemma only_env_ret: "only_env w (final (ret x) w)"
  by (simp add: ret_def)

lemma only_env_lift: "only_env w (final (lift r) w)"
  by (simp add: lift_def)

lemma only_env_bind:
  assumes "\<And>w. only_env w (final m w)" "\<And>x w. only_env w (final (f x) w)"
  shows "only_env w (final (bind m f) w)"
proof (cases "m w")
  case (Pair r w')
  with assms(1) [of w] have 1: "only_env w w'" by simp
  show ?thesis
  proof (cases r)
    case (Inl e)
    with Pair 1 show ?thesis by (simp add: bind_apply)
  next
    case (Inr x)
    with Pair 1 assms(2) [of w' x] show ?thesis
      by (auto simp: bind_apply intro: only_env_trans)
  qed
qed

lemma only_env_try_except:
  assumes "\<And>w. only_env w (final m w)" "\<And>e w. only_env w (final (h e) w)"
  shows "only_env w (final (try_except m c h) w)"
proof (cases "m w")
  case (Pair r w')
  with assms(1) [of w] have 1: "only_env w w'" by simp
  with Pair assms(2) [of w'] show ?thesis
    by (cases r) (auto simp: try_except_apply intro: only_env_trans)
qed

lemma only_env_poll_record: "only_env w (final (poll_record fd t) w)"
  unfolding poll_record_def
  by (auto split: option.splits intro!: only_env_bind only_env_try_except only_env_poll
      only_env_read only_env_ret only_env_lift)

lemmas frame_rules = only_env_bind only_env_try_except only_env_monotonic only_env_poll
  only_env_read only_env_ret only_env_lift only_env_poll_record

section \<open>Descriptors\<close>

lemma os_open_result:
  "path_exists p w \<Longrightarrow>
     os_open p w = (Inr (next_fd w),
                    w\<lparr>open_fds := next_fd w # open_fds w, next_fd := Suc (next_fd w)\<rparr>)"
  "\<not> path_exists p w \<Longrightarrow> os_open p w = (Inl FileNotFoundError, w)"
  by (simp_all add: os_open_def)

lemma fresh_not_open: "fds_fresh w \<Longrightarrow> next_fd w \<notin> set (open_fds w)"
  by (auto simp: fds_fresh_def list_all_iff)

lemma os_close_opened:
  assumes "open_fds w' = fd # fds" "fd \<notin> set fds"
  shows "os_close fd w' = (Inr (), w'\<lparr>open_fds := fds\<rparr>)"
  using assms by (simp add: os_close_def)

lemma fds_fresh_open: "fds_fresh w \<Longrightarrow> fds_fresh (final (os_open p) w)"
  by (auto simp: os_open_def fds_fresh_def list_all_iff)

section \<open>The store operations leave the environment alone\<close>

lemma same_env_refl [simp]: "same_env w w"
  by (simp add: same_env_def)

lemma same_env_write_text [preserves_intros]: "preserves (same_env w0) (write_text p t)"
  by (auto simp: preserves_def same_env_def write_text_def
      split: option.splits node.splits if_splits)

lemma same_env_write_attr [preserves_intros]: "preserves (same_env w0) (write_attr dev n t)"
  by (simp add: write_attr_def same_env_write_text)

lemma same_env_write_sampling [preserves_intros]:
  "preserves (same_env w0) (write_sampling dev us ms)"
  unfolding write_sampling_def
  by (auto intro!: preserves_intros split: option.splits)

lemma unread_refl [simp]: "unread w w"
  by (simp add: unread_def)

lemma unread_write_text [preserves_intros]: "preserves (unread w0) (write_text p t)"
  by (auto simp: preserves_def unread_def write_text_def
      split: option.splits node.splits if_splits)

lemma unread_write_attr [preserves_intros]: "preserves (unread w0) (write_attr dev n t)"
  by (simp add: write_attr_def unread_write_text)

lemma unread_write_sampling [preserves_intros]:
  "preserves (unread w0) (write_sampling dev us ms)"
  unfolding write_sampling_def
  by (auto intro!: preserves_intros split: option.splits)

lemma unread_monotonic [preserves_intros]: "preserves (unread w0) monotonic"
  by (auto simp: preserves_def unread_def monotonic_def split: list.splits)

lemma unread_os_open [preserves_intros]: "preserves (unread w0) (os_open p)"
  by (auto simp: preserves_def unread_def os_open_def)

lemma unread_os_close [preserves_intros]: "preserves (unread w0) (os_close fd)"
  by (auto simp: preserves_def unread_def os_close_def)

lemma unread_init [preserves_intros]: "preserves (unread w0) (SimtempDevice_init base i d)"
  by (simp add: preserves_def)

section \<open>The shared step\<close>

lemmas step_splits = list.splits sum.splits prod.splits option.splits poll_result.splits
  read_result.splits if_splits

lemma unpack_take_raises:
  "unpack (take SIMTEMP_SAMPLE_SIZE bs) = Inl e \<Longrightarrow> length bs < SIMTEMP_SAMPLE_SIZE"
  by (auto simp: unpack_def split: if_splits)

lemma poll_record_consumed:
  assumes "poll_record fd t w = (r, w')"
  shows "consumed w w' (taken w w')" "length (taken w w') \<le> 1"
  using assms
  by (auto simp: consumed_def taken_def prog_simps env_defs split: step_splits)

lemma poll_record_frame:
  assumes "poll_record fd t w = (r, w')"
  shows "only_env w w'" "clock w' = clock w" "polls w' = tl (polls w)"
    "poll_log w' = (if polls w = [] then poll_log w else t # poll_log w)"
  using assms only_env_poll_record [of w fd t]
  by (auto simp: prog_simps env_defs split: step_splits)

lemma poll_record_result:
  assumes "poll_record fd t w = (r, w')"
  shows "case r of
      Inl e \<Rightarrow> taken w w' = [] \<or> taken w w' = [ReadRaises e]
    | Inr None \<Rightarrow> polls w \<noteq> [] \<and> (taken w w' = [] \<or> taken w w' = [ReadRaises BlockingIOError]
         \<or> (\<exists>bs. taken w w' = [Data bs] \<and> length bs < SIMTEMP_SAMPLE_SIZE))
    | Inr (Some s) \<Rightarrow> polls w \<noteq> [] \<and> (\<exists>bs. taken w w' = [Data bs]
         \<and> SIMTEMP_SAMPLE_SIZE \<le> length bs \<and> unpack (take SIMTEMP_SAMPLE_SIZE bs) = Inr s)"
  using assms
  by (auto simp: taken_def prog_simps env_defs dest: unpack_take_raises split: step_splits)

lemma poll_record_benign:
  assumes "benign w" "fd \<in> set (open_fds w)" "poll_record fd t w = (r, w')"
  shows "benign w' \<and> (\<forall>e. r = Inl e \<longrightarrow> e = KeyboardInterrupt)"
  using assms
  by (auto simp: benign_def prog_simps env_defs dest: unpack_take_raises split: step_splits)

end
