(* ===== verification/Wait_Alert.thy ===== *)
theory Wait_Alert
  imports Poll_Env
begin

text \<open>
  The alert wait of the self-test, \<^verbatim>\<open>wait_for_alert\<close>: open the data
  channel, fix a deadline, poll and read one record per wake-up until a record
  carries the alert flag or the clock passes the deadline, and close the
  channel in a \<^verbatim>\<open>finally\<close> clause.

  One pass through the body of the \<^verbatim>\<open>while\<close> loop is
  \<open>wait_iteration\<close>: it ends in \<open>Continue\<close> with the running sample count (a
  \<^verbatim>\<open>continue\<close>, or the end of the body), in \<open>Break\<close> with the value of a
  \<^verbatim>\<open>return\<close>, or in an exception. Its poll, read and decode are the
  shared step \<open>poll_record\<close>. \<open>wait_loop\<close> repeats the pass. Every pass
  that continues has consumed a clock reading, so the loop is a total function.
\<close>

section \<open>The loop\<close>

datatype 'a loop_step = Continue int | Break 'a

type_synonym alert_result = "bool \<times> sample option \<times> int"

definition wait_iteration :: "nat \<Rightarrow> real \<Rightarrow> int \<Rightarrow> (alert_result loop_step, world) prog" where
  "wait_iteration fd deadline samples =
     bind monotonic (\<lambda>now.
       if \<not> now < deadline then ret (Break (False, None, samples))
       else bind monotonic (\<lambda>now2.
         bind (poll_record fd (max (py_trunc ((deadline - now2) * 1000)) 50)) (\<lambda>unpacked.
           case unpacked of
             None \<Rightarrow> ret (Continue samples)
           | Some (t, m, flags) \<Rightarrow>
               if alert_set flags then ret (Break (True, Some (t, m, flags), samples + 1))
               else ret (Continue (samples + 1)))))"

lemma wait_iteration_continue:
  "wait_iteration fd deadline samples w = (Inr (Continue n), w') \<Longrightarrow>
     length (clock w') < length (clock w)"
  by (auto simp: wait_iteration_def prog_simps env_defs Let_def
      split: list.splits sum.splits prod.splits option.splits poll_result.splits
        read_result.splits if_splits)

function wait_loop :: "nat \<Rightarrow> real \<Rightarrow> int \<Rightarrow> (alert_result, world) prog" where
  "wait_loop fd deadline samples w =
     (case wait_iteration fd deadline samples w of
        (Inl e, w') \<Rightarrow> (Inl e, w')
      | (Inr (Break r), w') \<Rightarrow> (Inr r, w')
      | (Inr (Continue n), w') \<Rightarrow> wait_loop fd deadline n w')"
  by pat_completeness auto
termination
  by (relation "measure (\<lambda>(fd, deadline, samples, w). length (clock w))")
    (auto dest: wait_iteration_continue [OF sym])

declare wait_loop.simps [simp del]

definition wait_deadline :: "real \<Rightarrow> int \<Rightarrow> int \<Rightarrow> real" where
  "wait_deadline t0 sampling max_periods =
     t0 + max (real_of_int (max_periods * sampling) / real_of_int MICROS_PER_SEC) (1 / 2)"

definition wait_for_alert :: "path \<Rightarrow> int \<Rightarrow> int \<Rightarrow> (alert_result, world) prog" where
  "wait_for_alert char_dev sampling max_periods =
     bind (os_open char_dev) (\<lambda>fd.
       bind monotonic (\<lambda>t0.
         try_finally (wait_loop fd (wait_deadline t0 sampling max_periods) 0) (os_close fd)))"

section \<open>What the loop promises\<close>

datatype scan = Searching int | Found sample int

fun scan_reads :: "int \<Rightarrow> read_result list \<Rightarrow> scan" where
  "scan_reads n [] = Searching n"
| "scan_reads n (ReadRaises e # rs) = scan_reads n rs"
| "scan_reads n (Data bs # rs) =
     (if length bs < SIMTEMP_SAMPLE_SIZE then scan_reads n rs
      else case unpack (take SIMTEMP_SAMPLE_SIZE bs) of
             Inl e \<Rightarrow> scan_reads n rs
           | Inr (t, m, flags) \<Rightarrow>
               if alert_set flags then Found (t, m, flags) (n + 1) else scan_reads (n + 1) rs)"

fun result_of :: "scan \<Rightarrow> alert_result" where
  "result_of (Searching n) = (False, None, n)"
| "result_of (Found s n) = (True, Some s, n)"

text \<open>
  The relations the properties of the loop are stated with: what the call has
  taken from the script of reads, what it has added to the log of timeouts, a
  script on which the channel never becomes readable, a clock that reaches the
  deadline before the scripts run out, and the world right after
  \<^verbatim>\<open>os.open\<close>.
\<close>

definition polled :: "world \<Rightarrow> world \<Rightarrow> bool" where
  "polled w w' \<longleftrightarrow> (\<exists>new. poll_log w' = new @ poll_log w \<and> list_all (\<lambda>t. 50 \<le> t) new)"

definition idle :: "world \<Rightarrow> bool" where
  "idle w \<longleftrightarrow> list_all (\<lambda>r. r = TimedOut) (polls w)"

definition enough :: "real \<Rightarrow> world \<Rightarrow> bool" where
  "enough dl w \<longleftrightarrow> odd (length (clock w)) \<and> dl \<le> last (clock w)
     \<and> length (clock w) div 2 \<le> length (polls w)"

definition opened :: "world \<Rightarrow> world" where
  "opened w = w\<lparr>open_fds := next_fd w # open_fds w, next_fd := Suc (next_fd w)\<rparr>"

text \<open>
  Two scripts for the examples, those of the tests of the wait in
  \<^verbatim>\<open>src/tests/test_cli.py\<close>: a channel whose first record carries
  the alert flag (the bytes of \<open>pack_example\<close>), with a clock that advances by a hundredth of a second per
  reading, and a channel that never becomes readable, with a clock that
  advances by three tenths.
\<close>

definition alert_world :: world where
  "alert_world =
     \<lparr>tree = [(DEFAULT_CHAR_DEVICE, File False [])], missing_write = None,
      clock = [1 / 100, 2 / 100, 3 / 100, 4 / 100], polls = [Ready],
      reads = [Data [0xD2, 0x02, 0x96, 0x49, 0, 0, 0, 0, 0x10, 0xA4, 0, 0, 2, 0, 0, 0]],
      poll_log = [], open_fds = [], next_fd = 99, stdout = [], stderr = []\<rparr>"

definition idle_world :: world where
  "idle_world =
     \<lparr>tree = [(DEFAULT_CHAR_DEVICE, File False [])], missing_write = None,
      clock = [3 / 10, 6 / 10, 9 / 10, 12 / 10], polls = [TimedOut],
      reads = [], poll_log = [], open_fds = [], next_fd = 55, stdout = [], stderr = []\<rparr>"

section \<open>The loop rule\<close>

lemma wait_loop_rule:
  assumes inv: "I n w"
    and step: "\<And>n w r w'. I n w \<Longrightarrow> wait_iteration fd dl n w = (r, w') \<Longrightarrow>
      (case r of Inl e \<Rightarrow> Q (Inl e) w'
       | Inr (Break res) \<Rightarrow> Q (Inr res) w'
       | Inr (Continue k) \<Rightarrow> I k w')"
  shows "Q (outcome (wait_loop fd dl n) w) (final (wait_loop fd dl n) w)"
  using inv
proof (induction "length (clock w)" arbitrary: n w rule: less_induct)
  case less
  obtain r w' where it: "wait_iteration fd dl n w = (r, w')"
    by (cases "wait_iteration fd dl n w")
  note s = step [OF less.prems it]
  show ?case
  proof (cases r)
    case (Inl e)
    with s it show ?thesis by (simp add: wait_loop.simps [of fd dl n w])
  next
    case (Inr st)
    show ?thesis
    proof (cases st)
      case (Continue k)
      with s Inr have "I k w'" by simp
      moreover have "length (clock w') < length (clock w)"
        using it Inr Continue by (auto dest: wait_iteration_continue)
      ultimately have "Q (outcome (wait_loop fd dl k) w') (final (wait_loop fd dl k) w')"
        by (rule less.hyps [rotated])
      with it Inr Continue show ?thesis by (simp add: wait_loop.simps [of fd dl n w])
    next
      case (Break res)
      with s it Inr show ?thesis by (simp add: wait_loop.simps [of fd dl n w])
    qed
  qed
qed

lemma wait_loop_preserves:
  assumes step: "\<And>n w. R w (final (wait_iteration fd dl n) w)"
    and refl: "\<And>w. R w w" and trans: "\<And>a b c. R a b \<Longrightarrow> R b c \<Longrightarrow> R a c"
  shows "R w (final (wait_loop fd dl n) w)"
proof (rule wait_loop_rule [where I = "\<lambda>_. R w" and Q = "\<lambda>_. R w"])
  fix n v r v'
  assume "R w v" and "wait_iteration fd dl n v = (r, v')"
  then have "R w v'"
    using step [of v n] by (auto intro: trans)
  then show "case r of Inl e \<Rightarrow> R w v' | Inr (Continue k) \<Rightarrow> R w v' | Inr (Break res) \<Rightarrow> R w v'"
    by (simp split: sum.splits loop_step.splits)
qed (rule refl)

section \<open>The frame of the loop\<close>

lemma only_env_wait_iteration: "only_env w (final (wait_iteration fd deadline samples) w)"
  unfolding wait_iteration_def
  by (auto split: option.splits prod.splits intro!: frame_rules)

lemma only_env_wait_loop: "only_env w (final (wait_loop fd dl n) w)"
  by (rule wait_loop_preserves) (auto intro: only_env_wait_iteration only_env_trans)

section \<open>Timeouts\<close>

lemma polled_refl [simp]: "polled w w"
  by (simp add: polled_def)

lemma polled_trans: "polled a b \<Longrightarrow> polled b c \<Longrightarrow> polled a c"
  by (auto simp: polled_def)

lemma polled_wait_iteration:
  "polled w (final (wait_iteration fd deadline samples) w)"
  by (auto simp: polled_def wait_iteration_def prog_simps env_defs Let_def
      split: list.splits sum.splits prod.splits option.splits poll_result.splits
        read_result.splits if_splits)

lemma polled_wait_loop: "polled w (final (wait_loop fd dl n) w)"
  by (rule wait_loop_preserves) (auto intro: polled_wait_iteration polled_trans)

section \<open>The loop implements the scan\<close>

lemma scan_reads_append:
  "scan_reads n c1 = Searching k \<Longrightarrow> scan_reads n (c1 @ c2) = scan_reads k c2"
  by (induction n c1 rule: scan_reads.induct) (auto split: if_splits sum.splits)

lemma wait_iteration_scan:
  assumes "wait_iteration fd dl n w = (r, w')"
  shows "\<exists>c. consumed w w' c \<and>
    (case r of Inl e \<Rightarrow> True
     | Inr (Continue k) \<Rightarrow> scan_reads n c = Searching k
     | Inr (Break res) \<Rightarrow> res = result_of (scan_reads n c))"
proof (cases "reads w' = reads w")
  case True
  then have "consumed w w' []" by (simp add: consumed_def)
  moreover from assms True have "case r of Inl e \<Rightarrow> True
     | Inr (Continue k) \<Rightarrow> k = n
     | Inr (Break res) \<Rightarrow> res = (False, None, n)"
    by (auto simp: wait_iteration_def prog_simps env_defs Let_def
      split: list.splits sum.splits prod.splits option.splits poll_result.splits
        read_result.splits if_splits)
  ultimately show ?thesis
    by (intro exI [of _ "[]"]) (auto split: sum.splits loop_step.splits)
next
  case False
  with assms obtain x where x: "reads w = x # reads w'"
    by (auto simp: wait_iteration_def prog_simps env_defs Let_def
      split: list.splits sum.splits prod.splits option.splits poll_result.splits
        read_result.splits if_splits)
  then have "consumed w w' [x]" by (simp add: consumed_def)
  moreover from assms x have "case r of Inl e \<Rightarrow> True
     | Inr (Continue k) \<Rightarrow> scan_reads n [x] = Searching k
     | Inr (Break res) \<Rightarrow> res = result_of (scan_reads n [x])"
    by (auto simp: wait_iteration_def prog_simps env_defs Let_def
      split: list.splits sum.splits prod.splits option.splits poll_result.splits
        read_result.splits if_splits)
  ultimately show ?thesis by blast
qed

lemma wait_loop_scan:
  assumes "outcome (wait_loop fd dl n) w = Inr res"
  shows "\<exists>c. consumed w (final (wait_loop fd dl n) w) c \<and> res = result_of (scan_reads n c)"
proof -
  let ?I = "\<lambda>k v. \<exists>c. consumed w v c \<and> scan_reads n c = Searching k"
  let ?Q = "\<lambda>r v. case r of Inl e \<Rightarrow> True
    | Inr res \<Rightarrow> \<exists>c. consumed w v c \<and> res = result_of (scan_reads n c)"
  have "?Q (outcome (wait_loop fd dl n) w) (final (wait_loop fd dl n) w)"
  proof (rule wait_loop_rule [where I = ?I and Q = ?Q])
    show "?I n w" by (intro exI [of _ "[]"]) (simp add: consumed_def)
  next
    fix k v r v'
    assume "?I k v" and it: "wait_iteration fd dl k v = (r, v')"
    then obtain c where c: "consumed w v c" "scan_reads n c = Searching k" by blast
    from wait_iteration_scan [OF it] obtain d where d: "consumed v v' d"
      "case r of Inl e \<Rightarrow> True | Inr (Continue j) \<Rightarrow> scan_reads k d = Searching j
       | Inr (Break res) \<Rightarrow> res = result_of (scan_reads k d)" by blast
    have cd: "consumed w v' (c @ d)"
      using c(1) d(1) by (simp add: consumed_def)
    have sc: "scan_reads n (c @ d) = scan_reads k d"
      using c(2) by (rule scan_reads_append)
    show "case r of Inl e \<Rightarrow> ?Q (Inl e) v' | Inr (Continue j) \<Rightarrow> ?I j v'
      | Inr (Break res) \<Rightarrow> ?Q (Inr res) v'"
      using cd sc d(2) by (auto split: sum.splits loop_step.splits)
  qed
  with assms show ?thesis by simp
qed

lemma wait_iteration_idle:
  assumes "idle w" "wait_iteration fd dl n w = (r, w')"
  shows "idle w' \<and> reads w' = reads w \<and>
    (case r of Inl e \<Rightarrow> e = KeyboardInterrupt
     | Inr (Continue k) \<Rightarrow> k = n
     | Inr (Break res) \<Rightarrow> res = (False, None, n))"
  using assms
  by (auto simp: idle_def wait_iteration_def prog_simps env_defs Let_def
      split: list.splits sum.splits prod.splits option.splits poll_result.splits
        read_result.splits if_splits)

lemma wait_loop_idle:
  assumes "idle w"
  shows "outcome (wait_loop fd dl n) w \<in> {Inr (False, None, n), Inl KeyboardInterrupt}
    \<and> reads (final (wait_loop fd dl n) w) = reads w"
proof -
  let ?I = "\<lambda>k v. idle v \<and> reads v = reads w \<and> k = n"
  let ?Q = "\<lambda>r v. r \<in> {Inr (False, None, n), Inl KeyboardInterrupt} \<and> reads v = reads w"
  show ?thesis
  proof (rule wait_loop_rule [where I = ?I and Q = ?Q])
    show "?I n w" using assms by simp
  next
    fix k v r v'
    assume "?I k v" and "wait_iteration fd dl k v = (r, v')"
    then show "case r of Inl e \<Rightarrow> ?Q (Inl e) v' | Inr (Continue j) \<Rightarrow> ?I j v'
      | Inr (Break res) \<Rightarrow> ?Q (Inr res) v'"
      using wait_iteration_idle [of v fd dl k r v']
      by (auto split: sum.splits loop_step.splits)
  qed
qed

lemma wait_iteration_enough:
  assumes "idle w" "enough dl w" "wait_iteration fd dl n w = (r, w')"
  shows "case r of Inl e \<Rightarrow> False
     | Inr (Continue k) \<Rightarrow> enough dl w'
     | Inr (Break res) \<Rightarrow> True"
proof -
  from assms(2) obtain t ts where c: "clock w = t # ts"
    by (cases "clock w") (auto simp: enough_def)
  show ?thesis
  proof (cases "t < dl")
    case False
    with c assms(3) show ?thesis
      by (auto simp: wait_iteration_def prog_simps env_defs)
  next
    case True
    with c assms(2) obtain t2 ts2 where c2: "ts = t2 # ts2" "ts2 \<noteq> []"
      by (cases ts; cases "tl ts") (auto simp: enough_def)
    with c assms(1,2) obtain ps where p: "polls w = TimedOut # ps"
      by (cases "polls w") (auto simp: enough_def idle_def)
    from c c2 p True assms(3) have "r = Inr (Continue n)" "clock w' = ts2" "polls w' = ps"
      by (auto simp: wait_iteration_def prog_simps env_defs)
    with c c2 p assms(2) show ?thesis by (auto simp: enough_def)
  qed
qed

lemma wait_loop_enough:
  assumes "idle w" "enough dl w"
  shows "outcome (wait_loop fd dl n) w = Inr (False, None, n)"
proof -
  let ?I = "\<lambda>k v. idle v \<and> enough dl v \<and> k = n"
  let ?Q = "\<lambda>r (v::world). r = Inr (False, None, n)"
  show ?thesis
  proof (rule wait_loop_rule [where I = ?I and Q = ?Q])
    show "?I n w" using assms by simp
  next
    fix k v r v'
    assume "?I k v" and "wait_iteration fd dl k v = (r, v')"
    then show "case r of Inl e \<Rightarrow> ?Q (Inl e) v' | Inr (Continue j) \<Rightarrow> ?I j v'
      | Inr (Break res) \<Rightarrow> ?Q (Inr res) v'"
      using wait_iteration_idle [of v fd dl k r v'] wait_iteration_enough [of v dl fd k r v']
      by (auto split: sum.splits loop_step.splits)
  qed
qed

section \<open>The whole call\<close>

text \<open>
  The call either fails to open the channel, or is interrupted at the clock
  reading that fixes the deadline, or runs the loop under the
  \<^verbatim>\<open>finally\<close> clause. The second case is outside the
  \<^verbatim>\<open>try\<close>: the descriptor stays open.
\<close>

lemma wait_for_alert_missing:
  "\<not> path_exists dev w \<Longrightarrow> wait_for_alert dev s p w = (Inl FileNotFoundError, w)"
  by (simp add: wait_for_alert_def prog_simps os_open_result)

lemma wait_for_alert_leak:
  "path_exists dev w \<Longrightarrow> clock w = [] \<Longrightarrow>
     wait_for_alert dev s p w = (Inl KeyboardInterrupt, opened w)"
  by (simp add: wait_for_alert_def prog_simps os_open_result monotonic_def opened_def)

lemma wait_for_alert_unfold:
  assumes "path_exists dev w" "clock w = t0 # cs"
  shows "wait_for_alert dev s p w =
     try_finally (wait_loop (next_fd w) (wait_deadline t0 s p) 0) (os_close (next_fd w))
       ((opened w)\<lparr>clock := cs\<rparr>)"
proof -
  have "monotonic (opened w) = (Inr t0, (opened w)\<lparr>clock := cs\<rparr>)"
    using assms(2) by (simp add: monotonic_def opened_def)
  then show ?thesis
    using assms(1) by (simp add: wait_for_alert_def bind_apply os_open_result opened_def)
qed

lemma wait_for_alert_cases:
  obtains (missing) "\<not> path_exists dev w"
  | (interrupted) "path_exists dev w" "clock w = []"
  | (run) t0 cs where "path_exists dev w" "clock w = t0 # cs"
  by (cases "clock w") auto

lemma final_os_close: "final (os_close fd) v = v\<lparr>open_fds := removeAll fd (open_fds v)\<rparr>"
  by (simp add: os_close_def)

lemma wait_for_alert_final:
  assumes "path_exists dev w" "clock w = t0 # cs"
  shows "\<exists>fds. final (wait_for_alert dev s p) w =
     (final (wait_loop (next_fd w) (wait_deadline t0 s p) 0) ((opened w)\<lparr>clock := cs\<rparr>))
       \<lparr>open_fds := fds\<rparr>"
  unfolding wait_for_alert_unfold [OF assms] final_try_finally final_os_close
  by (rule exI) (rule refl)

lemma wait_for_alert_outcome:
  assumes "path_exists dev w" "clock w = t0 # cs" "outcome (wait_for_alert dev s p) w = Inr res"
  shows "outcome (wait_loop (next_fd w) (wait_deadline t0 s p) 0) ((opened w)\<lparr>clock := cs\<rparr>)
    = Inr res"
  using assms(3)
  by (simp add: wait_for_alert_unfold [OF assms(1,2)] outcome_try_finally split: sum.splits)

lemma wait_for_alert_run:
  assumes "path_exists dev w" "fds_fresh w" "clock w = t0 # cs"
  shows "wait_for_alert dev s p w =
     (outcome (wait_loop (next_fd w) (wait_deadline t0 s p) 0) ((opened w)\<lparr>clock := cs\<rparr>),
      (final (wait_loop (next_fd w) (wait_deadline t0 s p) 0) ((opened w)\<lparr>clock := cs\<rparr>))
        \<lparr>open_fds := open_fds w\<rparr>)"
proof -
  let ?w1 = "(opened w)\<lparr>clock := cs\<rparr>"
  let ?loop = "wait_loop (next_fd w) (wait_deadline t0 s p) 0"
  have "only_env ?w1 (final ?loop ?w1)" by (rule only_env_wait_loop)
  then have "open_fds (final ?loop ?w1) = next_fd w # open_fds w"
    by (simp add: only_env_def opened_def)
  then have "os_close (next_fd w) (final ?loop ?w1)
      = (Inr (), (final ?loop ?w1)\<lparr>open_fds := open_fds w\<rparr>)"
    using fresh_not_open [OF assms(2)] by (rule os_close_opened)
  then show ?thesis
    unfolding wait_for_alert_unfold [OF assms(1,3)]
    by (cases "?loop ?w1") (simp add: try_finally_apply)
qed

lemma wait_for_alert_store:
  "tree (final (wait_for_alert dev s p) w) = tree w
    \<and> missing_write (final (wait_for_alert dev s p) w) = missing_write w
    \<and> stdout (final (wait_for_alert dev s p) w) = stdout w"
proof (cases dev w rule: wait_for_alert_cases)
  case missing
  then show ?thesis by (simp add: wait_for_alert_missing)
next
  case interrupted
  then show ?thesis by (simp add: wait_for_alert_leak opened_def)
next
  case (run t0 cs)
  from wait_for_alert_final [OF this] obtain fds where "final (wait_for_alert dev s p) w =
     (final (wait_loop (next_fd w) (wait_deadline t0 s p) 0) ((opened w)\<lparr>clock := cs\<rparr>))
       \<lparr>open_fds := fds\<rparr>" ..
  then show ?thesis
    using only_env_wait_loop [of "(opened w)\<lparr>clock := cs\<rparr>" "next_fd w" "wait_deadline t0 s p" 0]
    by (simp add: only_env_def opened_def)
qed

lemma wait_for_alert_closed:
  assumes "fds_fresh w" "clock w \<noteq> []"
  shows "open_fds (final (wait_for_alert dev s p) w) = open_fds w"
proof (cases dev w rule: wait_for_alert_cases)
  case missing
  then show ?thesis by (simp add: wait_for_alert_missing)
next
  case interrupted
  with assms show ?thesis by simp
next
  case (run t0 cs)
  then show ?thesis by (simp add: wait_for_alert_run [OF _ assms(1)])
qed

lemma wait_for_alert_idle:
  assumes "idle w" "outcome (wait_for_alert dev s p) w = Inr res"
  shows "res = (False, None, 0)"
proof (cases dev w rule: wait_for_alert_cases)
  case missing
  with assms show ?thesis by (simp add: wait_for_alert_missing)
next
  case interrupted
  with assms show ?thesis by (simp add: wait_for_alert_leak)
next
  case (run t0 cs)
  have "idle ((opened w)\<lparr>clock := cs\<rparr>)"
    using assms(1) by (simp add: idle_def opened_def)
  from wait_loop_idle [OF this, of "next_fd w" "wait_deadline t0 s p" 0]
    wait_for_alert_outcome [OF run assms(2)]
  show ?thesis by auto
qed

lemma wait_deadline_floor: "t0 + 1 / 2 \<le> wait_deadline t0 s p"
  by (simp add: wait_deadline_def)

lemma wait_deadline_periods:
  assumes "500000 \<le> p * s"
  shows "wait_deadline t0 s p = t0 + real_of_int (p * s) / 1000000"
proof -
  have "real_of_int 500000 \<le> real_of_int (p * s)"
    using assms by (simp only: of_int_le_iff)
  then show ?thesis
    by (simp add: wait_deadline_def MICROS_PER_SEC_def max_def)
qed

lemmas wait_eval = wait_for_alert_def wait_loop.simps wait_iteration_def wait_deadline_def
  codec_defs to_signed_def DEFAULT_CHAR_DEVICE_def

lemma alert_world_run:
  "wait_for_alert DEFAULT_CHAR_DEVICE 100000 1 alert_world =
     (Inr (True, Some (1234567890, 42000, 2), 1),
      alert_world\<lparr>clock := [4 / 100], polls := [], reads := [], poll_log := [480],
        next_fd := 100\<rparr>)"
  by (simp add: alert_world_def wait_eval prog_simps env_defs store_defs)

lemma idle_world_run:
  "wait_for_alert DEFAULT_CHAR_DEVICE 100000 1 idle_world =
     (Inr (False, None, 0),
      idle_world\<lparr>clock := [], polls := [], poll_log := [50], next_fd := 56\<rparr>)"
  by (simp add: idle_world_def wait_eval prog_simps env_defs store_defs)

lemma wait_for_alert_scan:
  assumes "outcome (wait_for_alert dev s p) w = Inr res"
  shows "\<exists>c. consumed w (final (wait_for_alert dev s p) w) c \<and> res = result_of (scan_reads 0 c)"
proof (cases dev w rule: wait_for_alert_cases)
  case missing
  with assms show ?thesis by (simp add: wait_for_alert_missing)
next
  case interrupted
  with assms show ?thesis by (simp add: wait_for_alert_leak)
next
  case (run t0 cs)
  from wait_for_alert_final [OF run] obtain fds where f: "final (wait_for_alert dev s p) w =
     (final (wait_loop (next_fd w) (wait_deadline t0 s p) 0) ((opened w)\<lparr>clock := cs\<rparr>))
       \<lparr>open_fds := fds\<rparr>" ..
  from wait_loop_scan [OF wait_for_alert_outcome [OF run assms]] show ?thesis
    by (simp add: f consumed_def opened_def)
qed

section \<open>Properties of the alert wait\<close>

text \<open>
  Claim C2. Whenever \<^verbatim>\<open>wait_for_alert\<close> returns, it has taken a prefix of the
  reads the channel offered, and its result is the result of scanning that
  prefix for the first full record with the alert flag: success, that record and
  the number of full records up to it, or failure and the number of full
  records seen. Short reads and reads that would block are skipped and not
  counted. The call changes neither the file tree nor the output.
\<close>

theorem wait_for_alert_refines:
  assumes "outcome (wait_for_alert dev s p) w = Inr res"
  shows "\<exists>c. consumed w (final (wait_for_alert dev s p) w) c \<and> res = result_of (scan_reads 0 c)
    \<and> tree (final (wait_for_alert dev s p) w) = tree w
    \<and> stdout (final (wait_for_alert dev s p) w) = stdout w"
  using wait_for_alert_scan [OF assms] wait_for_alert_store [of dev s p w] by blast

theorem wait_for_alert_refines_witness:
  "outcome (wait_for_alert DEFAULT_CHAR_DEVICE 100000 1) alert_world
     = Inr (True, Some (1234567890, 42000, 2), 1)
   \<and> (\<exists>c. consumed alert_world (final (wait_for_alert DEFAULT_CHAR_DEVICE 100000 1) alert_world) c
          \<and> (True, Some (1234567890, 42000, 2), 1) = result_of (scan_reads 0 c)
          \<and> tree (final (wait_for_alert DEFAULT_CHAR_DEVICE 100000 1) alert_world)
              = tree alert_world
          \<and> stdout (final (wait_for_alert DEFAULT_CHAR_DEVICE 100000 1) alert_world)
              = stdout alert_world)"
  using wait_for_alert_refines [of DEFAULT_CHAR_DEVICE 100000 1 alert_world
      "(True, Some (1234567890, 42000, 2), 1)"]
  by (simp add: alert_world_run)

text \<open>
  Claim C9. With descriptors allocated freshly, \<^verbatim>\<open>wait_for_alert\<close> leaves the
  set of open descriptors as it found it on every path but one: when the
  operator interrupts the clock reading that fixes the deadline, which the
  code makes after \<^verbatim>\<open>os.open\<close> and before \<^verbatim>\<open>try\<close>, the
  descriptor of the channel stays open.
\<close>

theorem wait_for_alert_descriptor:
  assumes "fds_fresh w"
  shows "open_fds (final (wait_for_alert dev s p) w) =
    (if path_exists dev w \<and> clock w = [] then next_fd w # open_fds w else open_fds w)"
proof (cases dev w rule: wait_for_alert_cases)
  case missing
  then show ?thesis by (simp add: wait_for_alert_missing)
next
  case interrupted
  then show ?thesis by (simp add: wait_for_alert_leak opened_def)
next
  case (run t0 cs)
  then show ?thesis by (simp add: wait_for_alert_run [OF _ assms])
qed

theorem wait_for_alert_descriptor_witness:
  "fds_fresh alert_world
   \<and> open_fds (final (wait_for_alert DEFAULT_CHAR_DEVICE 100000 1) alert_world) = []
   \<and> open_fds (final (wait_for_alert DEFAULT_CHAR_DEVICE 100000 1) (alert_world\<lparr>clock := []\<rparr>))
       = [99]"
  using wait_for_alert_descriptor [of alert_world DEFAULT_CHAR_DEVICE 100000 1]
    wait_for_alert_descriptor [of "alert_world\<lparr>clock := []\<rparr>" DEFAULT_CHAR_DEVICE 100000 1]
  by (simp add: alert_world_def fds_fresh_def path_exists_def DEFAULT_CHAR_DEVICE_def)

text \<open>
  Claim C30. Every timeout \<^verbatim>\<open>wait_for_alert\<close> passes to \<^verbatim>\<open>poll\<close> is at
  least 50 milliseconds, whatever the clock does, and the call removes nothing
  from the log of earlier polls.
\<close>

theorem wait_for_alert_timeouts:
  "polled w (final (wait_for_alert dev s p) w)"
proof (cases dev w rule: wait_for_alert_cases)
  case missing
  then show ?thesis by (simp add: wait_for_alert_missing)
next
  case interrupted
  then show ?thesis by (simp add: wait_for_alert_leak opened_def polled_def)
next
  case (run t0 cs)
  from wait_for_alert_final [OF run] obtain fds where f: "final (wait_for_alert dev s p) w =
     (final (wait_loop (next_fd w) (wait_deadline t0 s p) 0) ((opened w)\<lparr>clock := cs\<rparr>))
       \<lparr>open_fds := fds\<rparr>" ..
  show ?thesis
    using polled_wait_loop [of "(opened w)\<lparr>clock := cs\<rparr>" "next_fd w" "wait_deadline t0 s p" 0]
    by (simp add: f polled_def opened_def)
qed

theorem wait_for_alert_timeouts_witness:
  "poll_log (final (wait_for_alert DEFAULT_CHAR_DEVICE 100000 1) idle_world) = [50]
   \<and> polled idle_world (final (wait_for_alert DEFAULT_CHAR_DEVICE 100000 1) idle_world)"
  using wait_for_alert_timeouts [of idle_world DEFAULT_CHAR_DEVICE 100000 1]
  by (simp add: idle_world_run)

text \<open>
  Claim C12. If the channel never becomes readable and the clock passes the deadline
  before the operator interrupts, \<^verbatim>\<open>wait_for_alert\<close> returns failure with no
  record and a count of zero: the wait ends, and it ends without an error.
\<close>

theorem wait_for_alert_times_out:
  assumes "fds_fresh w" "path_exists dev w" "idle w" "clock w = t0 # cs"
    and "enough (wait_deadline t0 s p) (w\<lparr>clock := cs\<rparr>)"
  shows "outcome (wait_for_alert dev s p) w = Inr (False, None, 0)"
proof -
  let ?w1 = "(opened w)\<lparr>clock := cs\<rparr>"
  have "idle ?w1" "enough (wait_deadline t0 s p) ?w1"
    using assms(3,5) by (simp_all add: idle_def enough_def opened_def)
  then have "outcome (wait_loop (next_fd w) (wait_deadline t0 s p) 0) ?w1 = Inr (False, None, 0)"
    by (rule wait_loop_enough)
  then show ?thesis
    by (simp add: wait_for_alert_run [OF assms(2,1,4)])
qed

theorem wait_for_alert_times_out_witness:
  "fds_fresh idle_world \<and> path_exists DEFAULT_CHAR_DEVICE idle_world \<and> idle idle_world
   \<and> enough (wait_deadline (3 / 10) 100000 1) (idle_world\<lparr>clock := [6 / 10, 9 / 10, 12 / 10]\<rparr>)
   \<and> outcome (wait_for_alert DEFAULT_CHAR_DEVICE 100000 1) idle_world = Inr (False, None, 0)"
  using wait_for_alert_times_out [of idle_world DEFAULT_CHAR_DEVICE "3 / 10"
      "[6 / 10, 9 / 10, 12 / 10]" 100000 1]
  by (simp add: idle_world_def fds_fresh_def path_exists_def DEFAULT_CHAR_DEVICE_def idle_def
      enough_def wait_deadline_def MICROS_PER_SEC_def)

end
