(* ===== verification/Cli_Args.thy ===== *)
theory Cli_Args
  imports Sysfs_Store
begin

text \<open>
  The command line of the tool as \<^verbatim>\<open>build_parser\<close> declares it: the
  options shared by both subcommands, the options of \<^verbatim>\<open>stream\<close> and of
  \<^verbatim>\<open>test\<close>, their converters (\<^verbatim>\<open>positive_int\<close>,
  \<^verbatim>\<open>non_negative_int\<close>, \<^verbatim>\<open>int\<close>, \<^verbatim>\<open>float\<close>), their choices
  and their defaults, and the namespace \<^verbatim>\<open>parse_args\<close> returns.

  The lexical work of \<^verbatim>\<open>argparse\<close> is not part of the program and not
  modelled: a command line is given as the list of option occurrences before
  the subcommand, the subcommand, and the list of option occurrences after it.
  An occurrence carries the text of its value, or the path for the two options
  of type \<^verbatim>\<open>Path\<close>. What is modelled is what the declarations decide:
  which options a parser knows, the conversion of each value in the order of
  the command line, the last occurrence winning, and exit status 2 for a value
  the converter rejects. \<^verbatim>\<open>float\<close> is a parameter of the parser.
\<close>

section \<open>The namespace\<close>

record cli_args =
  arg_sysfs_root :: path
  arg_device :: "path option"
  arg_index :: int

record config_args = cli_args +
  arg_sampling_ms :: "int option"
  arg_sampling_us :: "int option"
  arg_threshold_mc :: "int option"
  arg_mode :: "string option"

record stream_args = config_args +
  arg_count :: "int option"
  arg_duration :: "real option"

record test_args = config_args +
  arg_max_periods :: int

datatype namespace = NoCommand cli_args | StreamNs stream_args | TestNs test_args

section \<open>The converters\<close>

definition positive_int :: "string \<Rightarrow> exn + int" where
  "positive_int val =
     (case py_int val of
        Inl e \<Rightarrow> Inl e
      | Inr ivalue \<Rightarrow> if ivalue \<le> 0 then Inl ArgumentTypeError else Inr ivalue)"

definition non_negative_int :: "string \<Rightarrow> exn + int" where
  "non_negative_int val =
     (case py_int val of
        Inl e \<Rightarrow> Inl e
      | Inr ivalue \<Rightarrow> if ivalue < 0 then Inl ArgumentTypeError else Inr ivalue)"

text \<open>
  What \<^verbatim>\<open>argparse\<close> does with a converter given as \<^verbatim>\<open>type=\<close>: a
  value the converter rejects with \<^verbatim>\<open>ArgumentTypeError\<close> or
  \<^verbatim>\<open>ValueError\<close> ends the program with exit status 2.
\<close>

definition convert :: "(string \<Rightarrow> exn + 'a) \<Rightarrow> string \<Rightarrow> exn + 'a" where
  "convert f s =
     (case f s of
        Inl e \<Rightarrow> if e = ArgumentTypeError \<or> e = ValueError then Inl (SystemExit 2) else Inl e
      | Inr v \<Rightarrow> Inr v)"

definition MODE_CHOICES :: "string list" where
  "MODE_CHOICES = [''normal'', ''noisy'', ''ramp'']"

definition choice :: "string list \<Rightarrow> string \<Rightarrow> exn + string" where
  "choice cs s = (if s \<in> set cs then Inr s else Inl (SystemExit 2))"

definition DEFAULT_TEST_MAX_PERIODS :: int where
  "DEFAULT_TEST_MAX_PERIODS = 2"

section \<open>The parsers\<close>

datatype cli_opt =
    OptSysfsRoot path
  | OptDevice path
  | OptIndex string
  | OptCount string
  | OptDuration string
  | OptSamplingMs string
  | OptSamplingUs string
  | OptThresholdMc string
  | OptMode string
  | OptMaxPeriods string

definition store :: "exn + 'v \<Rightarrow> ('v \<Rightarrow> 'a) \<Rightarrow> exn + 'a" where
  "store r upd = (case r of Inl e \<Rightarrow> Inl e | Inr v \<Rightarrow> Inr (upd v))"

fun set_global :: "cli_opt \<Rightarrow> cli_args \<Rightarrow> exn + cli_args" where
  "set_global (OptSysfsRoot p) a = Inr (a\<lparr>arg_sysfs_root := p\<rparr>)"
| "set_global (OptDevice p) a = Inr (a\<lparr>arg_device := Some p\<rparr>)"
| "set_global (OptIndex s) a = store (convert non_negative_int s) (\<lambda>v. a\<lparr>arg_index := v\<rparr>)"
| "set_global _ a = Inl (SystemExit 2)"

fun set_stream :: "(string \<Rightarrow> exn + real) \<Rightarrow> cli_opt \<Rightarrow> stream_args \<Rightarrow> exn + stream_args" where
  "set_stream fl (OptCount s) a = store (convert positive_int s) (\<lambda>v. a\<lparr>arg_count := Some v\<rparr>)"
| "set_stream fl (OptDuration s) a = store (convert fl s) (\<lambda>v. a\<lparr>arg_duration := Some v\<rparr>)"
| "set_stream fl (OptSamplingMs s) a =
     store (convert positive_int s) (\<lambda>v. a\<lparr>arg_sampling_ms := Some v\<rparr>)"
| "set_stream fl (OptSamplingUs s) a =
     store (convert positive_int s) (\<lambda>v. a\<lparr>arg_sampling_us := Some v\<rparr>)"
| "set_stream fl (OptThresholdMc s) a =
     store (convert py_int s) (\<lambda>v. a\<lparr>arg_threshold_mc := Some v\<rparr>)"
| "set_stream fl (OptMode s) a = store (choice MODE_CHOICES s) (\<lambda>v. a\<lparr>arg_mode := Some v\<rparr>)"
| "set_stream fl _ a = Inl (SystemExit 2)"

fun set_test :: "cli_opt \<Rightarrow> test_args \<Rightarrow> exn + test_args" where
  "set_test (OptSamplingMs s) a =
     store (convert positive_int s) (\<lambda>v. a\<lparr>arg_sampling_ms := Some v\<rparr>)"
| "set_test (OptSamplingUs s) a =
     store (convert positive_int s) (\<lambda>v. a\<lparr>arg_sampling_us := Some v\<rparr>)"
| "set_test (OptThresholdMc s) a =
     store (convert py_int s) (\<lambda>v. a\<lparr>arg_threshold_mc := Some v\<rparr>)"
| "set_test (OptMode s) a = store (choice MODE_CHOICES s) (\<lambda>v. a\<lparr>arg_mode := Some v\<rparr>)"
| "set_test (OptMaxPeriods s) a =
     store (convert positive_int s) (\<lambda>v. a\<lparr>arg_max_periods := v\<rparr>)"
| "set_test _ a = Inl (SystemExit 2)"

fun apply_opts :: "(cli_opt \<Rightarrow> 'a \<Rightarrow> exn + 'a) \<Rightarrow> cli_opt list \<Rightarrow> 'a \<Rightarrow> exn + 'a" where
  "apply_opts f [] a = Inr a"
| "apply_opts f (x # xs) a = (case f x a of Inl e \<Rightarrow> Inl e | Inr b \<Rightarrow> apply_opts f xs b)"

definition default_cli :: cli_args where
  "default_cli = \<lparr>arg_sysfs_root = DEFAULT_SYSFS_ROOT, arg_device = None, arg_index = 0\<rparr>"

definition default_stream :: "cli_args \<Rightarrow> stream_args" where
  "default_stream c =
     \<lparr>arg_sysfs_root = arg_sysfs_root c, arg_device = arg_device c, arg_index = arg_index c,
      arg_sampling_ms = None, arg_sampling_us = None, arg_threshold_mc = None, arg_mode = None,
      arg_count = None, arg_duration = None\<rparr>"

definition default_test :: "cli_args \<Rightarrow> test_args" where
  "default_test c =
     \<lparr>arg_sysfs_root = arg_sysfs_root c, arg_device = arg_device c, arg_index = arg_index c,
      arg_sampling_ms = None, arg_sampling_us = None, arg_threshold_mc = None, arg_mode = None,
      arg_max_periods = DEFAULT_TEST_MAX_PERIODS\<rparr>"

type_synonym command_line = "cli_opt list \<times> string option \<times> cli_opt list"

definition parse_args :: "(string \<Rightarrow> exn + real) \<Rightarrow> command_line \<Rightarrow> exn + namespace" where
  "parse_args fl = (\<lambda>(globals, command, opts).
     case apply_opts set_global globals default_cli of
       Inl e \<Rightarrow> Inl e
     | Inr c \<Rightarrow>
         (case command of
            None \<Rightarrow> if opts = [] then Inr (NoCommand c) else Inl (SystemExit 2)
          | Some name \<Rightarrow>
              if name = ''stream''
              then store (apply_opts (set_stream fl) opts (default_stream c)) StreamNs
              else if name = ''test''
              then store (apply_opts set_test opts (default_test c)) TestNs
              else Inl (SystemExit 2)))"

section \<open>Well-formed namespaces\<close>

definition positive_opt :: "int option \<Rightarrow> bool" where
  "positive_opt v = (case v of None \<Rightarrow> True | Some n \<Rightarrow> 0 < n)"

definition valid_cli :: "'a cli_args_scheme \<Rightarrow> bool" where
  "valid_cli a \<longleftrightarrow> 0 \<le> arg_index a"

definition valid_config :: "'a config_args_scheme \<Rightarrow> bool" where
  "valid_config a \<longleftrightarrow>
     valid_cli a \<and> positive_opt (arg_sampling_ms a) \<and> positive_opt (arg_sampling_us a)
     \<and> (case arg_mode a of None \<Rightarrow> True | Some m \<Rightarrow> m \<in> set MODE_CHOICES)"

definition valid_stream :: "stream_args \<Rightarrow> bool" where
  "valid_stream a \<longleftrightarrow> valid_config a \<and> positive_opt (arg_count a)"

definition valid_test :: "test_args \<Rightarrow> bool" where
  "valid_test a \<longleftrightarrow> valid_config a \<and> 0 < arg_max_periods a"

fun valid_namespace :: "namespace \<Rightarrow> bool" where
  "valid_namespace (NoCommand c) = valid_cli c"
| "valid_namespace (StreamNs a) = valid_stream a"
| "valid_namespace (TestNs a) = valid_test a"

section \<open>Command lines of the examples\<close>

text \<open>
  The command line of the tests, \<^verbatim>\<open>--sysfs-root /tmp test --max-periods 1\<close>,
  and a conversion of \<^verbatim>\<open>float\<close> that accepts nothing, for the examples
  that give no duration.
\<close>

definition test_line :: command_line where
  "test_line = ([OptSysfsRoot [''/'', ''tmp'']], Some ''test'', [OptMaxPeriods ''1''])"

definition no_float :: "string \<Rightarrow> exn + real" where
  "no_float s = Inl ValueError"

named_theorems args_defs "definitions of the command line model"

declare positive_int_def [args_defs] non_negative_int_def [args_defs] convert_def [args_defs]
  choice_def [args_defs] store_def [args_defs] MODE_CHOICES_def [args_defs]
  DEFAULT_TEST_MAX_PERIODS_def [args_defs] default_cli_def [args_defs]
  default_stream_def [args_defs] default_test_def [args_defs] parse_args_def [args_defs]

lemmas valid_defs = valid_cli_def valid_config_def valid_stream_def valid_test_def
  positive_opt_def

section \<open>What the converters accept\<close>

lemma positive_int_Inr: "positive_int s = Inr v \<longleftrightarrow> py_int s = Inr v \<and> 0 < v"
  by (auto simp: positive_int_def split: sum.splits)

lemma non_negative_int_Inr: "non_negative_int s = Inr v \<longleftrightarrow> py_int s = Inr v \<and> 0 \<le> v"
  by (auto simp: non_negative_int_def split: sum.splits)

lemma positive_int_Inl:
  "positive_int s = Inl e \<longleftrightarrow>
     py_int s = Inl e \<or> (e = ArgumentTypeError \<and> (\<exists>v. py_int s = Inr v \<and> v \<le> 0))"
  by (auto simp: positive_int_def split: sum.splits)

lemma non_negative_int_Inl:
  "non_negative_int s = Inl e \<longleftrightarrow>
     py_int s = Inl e \<or> (e = ArgumentTypeError \<and> (\<exists>v. py_int s = Inr v \<and> v < 0))"
  by (auto simp: non_negative_int_def split: sum.splits)

lemma convert_Inr [simp]: "convert f s = Inr v \<longleftrightarrow> f s = Inr v"
  by (auto simp: convert_def split: sum.splits)

lemma store_Inr: "store r upd = Inr a \<longleftrightarrow> (\<exists>v. r = Inr v \<and> a = upd v)"
  by (auto simp: store_def split: sum.splits)

section \<open>Every parser keeps the namespace well formed\<close>

lemma apply_opts_invariant:
  assumes "\<And>x a b. P a \<Longrightarrow> f x a = Inr b \<Longrightarrow> P b" and "P a" and "apply_opts f xs a = Inr b"
  shows "P b"
  using assms(2,3)
proof (induction xs arbitrary: a)
  case Nil
  then show ?case by simp
next
  case (Cons x xs)
  then show ?case by (auto split: sum.splits dest: assms(1))
qed

lemma set_global_valid: "valid_cli a \<Longrightarrow> set_global x a = Inr b \<Longrightarrow> valid_cli b"
  by (cases x) (auto simp: valid_defs store_Inr non_negative_int_Inr)

lemma set_stream_valid: "valid_stream a \<Longrightarrow> set_stream fl x a = Inr b \<Longrightarrow> valid_stream b"
  by (cases x) (auto simp: valid_defs store_Inr positive_int_Inr choice_def split: if_splits)

lemma set_test_valid: "valid_test a \<Longrightarrow> set_test x a = Inr b \<Longrightarrow> valid_test b"
  by (cases x) (auto simp: valid_defs store_Inr positive_int_Inr choice_def split: if_splits)

lemma default_valid:
  "valid_cli default_cli" "valid_cli c \<Longrightarrow> valid_stream (default_stream c)"
  "valid_cli c \<Longrightarrow> valid_test (default_test c)"
  by (simp_all add: valid_defs args_defs)

lemma apply_opts_append:
  "apply_opts f (xs @ ys) a =
     (case apply_opts f xs a of Inl e \<Rightarrow> Inl e | Inr b \<Rightarrow> apply_opts f ys b)"
  by (induction xs arbitrary: a) (auto split: sum.splits)

lemma parse_args_Inr:
  assumes "parse_args fl (globals, command, opts) = Inr ns"
  obtains (none) c where "apply_opts set_global globals default_cli = Inr c"
      "command = None" "opts = []" "ns = NoCommand c"
  | (stream) c a where "apply_opts set_global globals default_cli = Inr c"
      "command = Some ''stream''" "apply_opts (set_stream fl) opts (default_stream c) = Inr a"
      "ns = StreamNs a"
  | (test) c a where "apply_opts set_global globals default_cli = Inr c"
      "command = Some ''test''" "apply_opts set_test opts (default_test c) = Inr a"
      "ns = TestNs a"
  using assms
  by (auto simp: parse_args_def store_Inr split: sum.splits option.splits if_splits)

lemma parse_args_well_formed:
  assumes "parse_args fl cl = Inr ns"
  shows "valid_namespace ns"
proof -
  obtain globals command opts where cl: "cl = (globals, command, opts)"
    by (cases cl)
  note inv = apply_opts_invariant [where P = valid_cli, OF set_global_valid default_valid(1)]
    apply_opts_invariant [where P = valid_stream, OF set_stream_valid default_valid(2)]
    apply_opts_invariant [where P = valid_test, OF set_test_valid default_valid(3)]
  from assms [unfolded cl] show ?thesis
    by (cases rule: parse_args_Inr) (auto intro: inv)
qed

section \<open>What a parser rejects\<close>

lemma convert_raises:
  assumes "convert f s = Inl e"
  obtains "e = SystemExit 2" | "f s = Inl e" "e \<noteq> ValueError" "e \<noteq> ArgumentTypeError"
  using assms by (auto simp: convert_def split: sum.splits if_splits)

lemma store_Inl: "store r upd = Inl e \<longleftrightarrow> r = Inl e"
  by (auto simp: store_def split: sum.splits)

lemma converters_raise:
  "positive_int s = Inl e \<Longrightarrow> e = ValueError \<or> e = ArgumentTypeError"
  "non_negative_int s = Inl e \<Longrightarrow> e = ValueError \<or> e = ArgumentTypeError"
  "py_int s = Inl e \<Longrightarrow> e = ValueError \<or> e = ArgumentTypeError"
  by (auto simp: positive_int_Inl non_negative_int_Inl dest: py_int_raises)

lemma convert_exits:
  "convert positive_int s = Inl e \<Longrightarrow> e = SystemExit 2"
  "convert non_negative_int s = Inl e \<Longrightarrow> e = SystemExit 2"
  "convert py_int s = Inl e \<Longrightarrow> e = SystemExit 2"
  by (auto elim!: convert_raises dest: converters_raise)

lemma apply_opts_raises:
  assumes "\<And>x a e. f x a = Inl e \<Longrightarrow> e = SystemExit 2" and "apply_opts f xs a = Inl e"
  shows "e = SystemExit 2"
  using assms(2) by (induction xs arbitrary: a) (auto split: sum.splits dest: assms(1))

lemma set_global_raises: "set_global x a = Inl e \<Longrightarrow> e = SystemExit 2"
  by (cases x) (auto simp: store_Inl dest: convert_exits)

lemma set_test_raises: "set_test x a = Inl e \<Longrightarrow> e = SystemExit 2"
  by (cases x) (auto simp: store_Inl choice_def dest: convert_exits split: if_splits)

lemma set_stream_raises:
  assumes "\<And>s e. fl s = Inl e \<Longrightarrow> e = ValueError" and "set_stream fl x a = Inl e"
  shows "e = SystemExit 2"
  using assms(2)
  by (cases x)
    (auto simp: store_Inl choice_def dest: convert_exits assms(1) elim: convert_raises
      split: if_splits)

lemma globals_raise: "apply_opts set_global xs a = Inl e \<Longrightarrow> e = SystemExit 2"
  using apply_opts_raises [of set_global xs a e] set_global_raises by blast

lemma test_opts_raise: "apply_opts set_test xs a = Inl e \<Longrightarrow> e = SystemExit 2"
  using apply_opts_raises [of set_test xs a e] set_test_raises by blast

lemma stream_opts_raise:
  assumes "\<And>s e. fl s = Inl e \<Longrightarrow> e = ValueError"
    and "apply_opts (set_stream fl) xs a = Inl e"
  shows "e = SystemExit 2"
  using apply_opts_raises [of "set_stream fl" xs a e] set_stream_raises [of fl] assms by blast

section \<open>Properties of the command line\<close>

text \<open>
  Claim C10. Every namespace \<^verbatim>\<open>parse_args\<close> returns is well formed: the
  device index is not negative, a sampling period or a count that was given is
  positive, the number of periods of the self-test is positive, and a mode
  that was given is one of the three choices. The commands can rely on it.
\<close>

theorem parse_args_valid:
  assumes "parse_args fl cl = Inr ns"
  shows "valid_namespace ns"
  using assms by (rule parse_args_well_formed)

theorem parse_args_valid_witness:
  "parse_args no_float test_line
     = Inr (TestNs \<lparr>arg_sysfs_root = [''/'', ''tmp''], arg_device = None, arg_index = 0,
         arg_sampling_ms = None, arg_sampling_us = None, arg_threshold_mc = None,
         arg_mode = None, arg_max_periods = 1\<rparr>)
   \<and> valid_namespace (TestNs \<lparr>arg_sysfs_root = [''/'', ''tmp''], arg_device = None, arg_index = 0,
         arg_sampling_ms = None, arg_sampling_us = None, arg_threshold_mc = None,
         arg_mode = None, arg_max_periods = 1\<rparr>)"
  using parse_args_valid [of no_float test_line]
  by (simp add: test_line_def args_defs text_eval)

text \<open>
  Claim C23. A command line the parser does not accept ends the program with
  exit status 2, whatever is wrong with it: an option the parser does not
  know, a value its converter rejects (\<^verbatim>\<open>ValueError\<close> of \<^verbatim>\<open>int\<close> and
  \<^verbatim>\<open>float\<close>, \<^verbatim>\<open>ArgumentTypeError\<close> of the two range checks), a mode that
  is not a choice, an unknown subcommand. No other exception leaves the parser.
\<close>

theorem parse_args_rejects:
  assumes "\<And>s e. fl s = Inl e \<Longrightarrow> e = ValueError" and "parse_args fl cl = Inl e"
  shows "e = SystemExit 2"
proof -
  obtain globals command opts where cl: "cl = (globals, command, opts)"
    by (cases cl)
  have stream: "e = SystemExit 2" if "apply_opts (set_stream fl) xs a = Inl e" for xs a
    using assms(1) that by (rule stream_opts_raise)
  from assms(2) show ?thesis
    unfolding cl parse_args_def
    by (auto simp: store_Inl split: sum.splits option.splits if_splits
        dest: globals_raise test_opts_raise stream)
qed

theorem parse_args_rejects_witness:
  "parse_args no_float ([], Some ''stream'', [OptCount ''0'']) = Inl (SystemExit 2)
   \<and> parse_args no_float ([OptIndex ''-1''], Some ''test'', []) = Inl (SystemExit 2)
   \<and> parse_args no_float ([], Some ''test'', [OptMode ''fast'']) = Inl (SystemExit 2)
   \<and> parse_args no_float ([], Some ''test'', [OptCount ''3'']) = Inl (SystemExit 2)"
  using parse_args_rejects [of no_float "([], Some ''stream'', [OptCount ''0''])" "SystemExit 2"]
  by (simp add: args_defs no_float_def text_eval)

text \<open>
  Claim C33. The two range checks read back what \<^verbatim>\<open>str\<close> writes:
  \<^verbatim>\<open>positive_int\<close> accepts the decimal text of exactly the integers above
  zero and \<^verbatim>\<open>non_negative_int\<close> that of the integers from zero, returning
  the integer; the text of any other integer raises \<^verbatim>\<open>ArgumentTypeError\<close>.
\<close>

theorem converters_py_str:
  "positive_int (py_str n) = (if 0 < n then Inr n else Inl ArgumentTypeError)
   \<and> non_negative_int (py_str n) = (if 0 \<le> n then Inr n else Inl ArgumentTypeError)"
  by (simp add: positive_int_def non_negative_int_def py_int_py_str)

theorem converters_py_str_witness:
  "positive_int ''500'' = Inr 500 \<and> positive_int ''0'' = Inl ArgumentTypeError
   \<and> non_negative_int ''0'' = Inr 0"
  using converters_py_str [of 500] converters_py_str [of 0]
  by (simp add: py_str_examples)

end
