(* ===== verification/Self_Test.thy ===== *)
theory Self_Test
  imports Wait_Alert Cli_Args
begin

text \<open>
  The self-test session, \<^verbatim>\<open>test_command\<close>: select the device, take a
  snapshot of its configuration, then, under a \<^verbatim>\<open>finally\<close> clause that
  writes the snapshot back, apply the overrides of the command line, lower the
  threshold, wait for an alert and print the verdict. The exit status is the
  value the function returns; an exception leaves through the outcome.
\<close>

section \<open>The session\<close>

definition DEFAULT_TEST_THRESHOLD_MC :: int where
  "DEFAULT_TEST_THRESHOLD_MC = 20000"

definition effective_sampling_us :: "test_args \<Rightarrow> SimtempConfig \<Rightarrow> int" where
  "effective_sampling_us args original =
     (case arg_sampling_us args of
        Some us \<Rightarrow> us
      | None \<Rightarrow> (case arg_sampling_ms args of
                   Some ms \<Rightarrow> ms * 1000
                 | None \<Rightarrow> sampling_us original))"

definition test_configure :: "test_args \<Rightarrow> SimtempDevice \<Rightarrow> (unit, world) prog" where
  "test_configure args device =
     seq (write_sampling device (arg_sampling_us args) (arg_sampling_ms args))
    (seq (when_some (arg_mode args) (\<lambda>m. write_attr device ''mode'' m))
         (write_attr device ''threshold_mC''
            (py_str (case arg_threshold_mc args of
                       Some t \<Rightarrow> t
                     | None \<Rightarrow> DEFAULT_TEST_THRESHOLD_MC))))"

definition test_report :: "test_args \<Rightarrow> SimtempConfig \<Rightarrow> alert_result \<Rightarrow> (int, world) prog" where
  "test_report args original =
     (\<lambda>(success, sample, count).
        case sample of
          Some (ts_ns, temp_mc, flags) \<Rightarrow>
            if success then seq (print_line (PassLine count ts_ns temp_mc flags)) (ret 0)
            else seq (print_line (FailLine (arg_max_periods args)
                                    (effective_sampling_us args original))) (ret 1)
        | None \<Rightarrow>
            seq (print_line (FailLine (arg_max_periods args)
                               (effective_sampling_us args original))) (ret 1))"

definition test_body :: "test_args \<Rightarrow> SimtempDevice \<Rightarrow> SimtempConfig \<Rightarrow> (int, world) prog" where
  "test_body args device original =
     seq (test_configure args device)
       (bind (wait_for_alert (char_device device) (effective_sampling_us args original)
                (arg_max_periods args))
          (test_report args original))"

definition test_restore :: "test_args \<Rightarrow> SimtempDevice \<Rightarrow> SimtempConfig \<Rightarrow> (unit, world) prog" where
  "test_restore args device original =
     seq (write_attr device ''threshold_mC'' (py_str (threshold_mc original)))
    (seq (when_true (arg_sampling_ms args \<noteq> None \<or> arg_sampling_us args \<noteq> None)
            (write_sampling device (Some (sampling_us original)) None))
         (when_true (arg_mode args \<noteq> None) (write_attr device ''mode'' (mode original))))"

definition test_command :: "test_args \<Rightarrow> (int, world) prog" where
  "test_command args =
     bind (SimtempDevice_init (arg_sysfs_root args) (arg_index args) (arg_device args))
       (\<lambda>device. bind (snapshot device)
          (\<lambda>original. try_finally (test_body args device original)
                         (test_restore args device original)))"

section \<open>What the session promises\<close>

text \<open>
  The verdict as a function of the result of the wait: the exit status and the
  line printed.
\<close>

definition verdict :: "test_args \<Rightarrow> SimtempConfig \<Rightarrow> alert_result \<Rightarrow> int \<times> out_line" where
  "verdict args original res =
     (case res of
        (True, Some (t, m, f), n) \<Rightarrow> (0, PassLine n t m f)
      | _ \<Rightarrow> (1, FailLine (arg_max_periods args) (effective_sampling_us args original)))"

section \<open>Sessions of the examples\<close>

text \<open>
  The session \<^verbatim>\<open>test --max-periods 1\<close> on the device directory of the
  tests, with the channel and the clock of \<open>alert_world\<close>; the same with a
  mode override; and a session with a sampling override on a device whose
  threshold attribute is read-only.
\<close>

definition session_world :: world where
  "session_world =
     \<lparr>tree = tmp_tree @ [(DEFAULT_CHAR_DEVICE, File False [])], missing_write = None,
      clock = [1 / 100, 2 / 100, 3 / 100, 4 / 100], polls = [Ready],
      reads = [Data [0xD2, 0x02, 0x96, 0x49, 0, 0, 0, 0, 0x10, 0xA4, 0, 0, 2, 0, 0, 0]],
      poll_log = [], open_fds = [], next_fd = 3, stdout = [], stderr = []\<rparr>"

definition session_args :: test_args where
  "session_args =
     \<lparr>arg_sysfs_root = [''/'', ''tmp''], arg_device = None, arg_index = 0,
      arg_sampling_ms = None, arg_sampling_us = None, arg_threshold_mc = None,
      arg_mode = None, arg_max_periods = 1\<rparr>"

definition session_config :: SimtempConfig where
  "session_config = \<lparr>sampling_us = 100000, threshold_mc = 45000, mode = ''normal''\<rparr>"

definition mode_args :: test_args where
  "mode_args = session_args\<lparr>arg_mode := Some ''ramp''\<rparr>"

definition readonly_world :: world where
  "readonly_world =
     session_world
       \<lparr>tree :=
          [([''/'', ''tmp''], Dir),
           ([''/'', ''tmp'', ''simtemp0''], Dir),
           ([''/'', ''tmp'', ''simtemp0'', ''sampling_us''], File True (''100000'' @ [CHR 0x0A])),
           ([''/'', ''tmp'', ''simtemp0'', ''threshold_mC''], File False (''45000'' @ [CHR 0x0A])),
           ([''/'', ''tmp'', ''simtemp0'', ''mode''], File True (''normal'' @ [CHR 0x0A])),
           (DEFAULT_CHAR_DEVICE, File False [])]\<rparr>"

definition readonly_args :: test_args where
  "readonly_args = session_args\<lparr>arg_sampling_us := Some 500\<rparr>"

section \<open>The session as a whole\<close>

lemma test_command_unfold:
  assumes "outcome (SimtempDevice_init (arg_sysfs_root args) (arg_index args) (arg_device args)) w
      = Inr dev"
    and "outcome (snapshot dev) w = Inr orig"
  shows "test_command args w = try_finally (test_body args dev orig) (test_restore args dev orig) w"
  using assms by (simp add: test_command_def bind_returns)

lemma test_command_final:
  assumes "outcome (SimtempDevice_init (arg_sysfs_root args) (arg_index args) (arg_device args)) w
      = Inr dev"
    and "outcome (snapshot dev) w = Inr orig"
  shows "final (test_command args) w
    = final (test_restore args dev orig) (final (test_body args dev orig) w)"
  by (simp add: test_command_unfold [OF assms] final_try_finally)

lemma test_report_apply:
  "test_report args orig res w =
     (Inr (fst (verdict args orig res)), w\<lparr>stdout := stdout w @ [snd (verdict args orig res)]\<rparr>)"
  by (cases res)
    (auto simp: test_report_def verdict_def seq_apply ret_apply print_line_def
      split: option.splits bool.splits)

section \<open>What the body and the restore keep\<close>

lemma guarded_wait_for_alert [preserves_intros]:
  "preserves (guarded p rw c) (wait_for_alert d s n)"
  by (simp add: preserves_def guarded_def files_def wait_for_alert_store)

lemma guarded_print_line [preserves_intros]: "preserves (guarded p rw c) (print_line l)"
  by (simp add: preserves_def guarded_def files_def print_line_def)

lemma guarded_test_body: "preserves (guarded p rw c) (test_body args dev orig)"
  unfolding test_body_def test_configure_def test_report_def
  by (auto intro!: preserves_intros split: option.splits prod.splits)

lemma holds_text_wait_for_alert [preserves_intros]:
  "preserves (holds_text dev m v) (wait_for_alert d s n)"
  by (simp add: preserves_def holds_text_def attr_text_def read_str_files files_def
      wait_for_alert_store)

lemma holds_text_print_line [preserves_intros]: "preserves (holds_text dev m v) (print_line l)"
  by (simp add: preserves_def holds_text_def attr_text_def read_str_files files_def print_line_def)

lemma same_env_test_configure: "preserves (same_env w0) (test_configure args dev)"
  unfolding test_configure_def by (auto intro!: preserves_intros)

lemma same_env_test_restore: "preserves (same_env w0) (test_restore args dev orig)"
  unfolding test_restore_def by (auto intro!: preserves_intros)

lemma test_restore_threshold:
  assumes "guarded (attr_path dev ''threshold_mC'') rw c w"
    and "py_int c = Inr (threshold_mc orig)"
  shows "holds_value dev ''threshold_mC'' (threshold_mc orig) (final (test_restore args dev orig) w)"
proof (cases rw)
  case False
  with assms have "holds_value dev ''threshold_mC'' (threshold_mc orig) w"
    by (simp add: holds_value_def guarded_value)
  moreover have "outcome (write_attr dev ''threshold_mC'' (py_str (threshold_mc orig))) w
      = Inl PermissionError"
    using assms(1) False by (simp add: guarded_readonly)
  ultimately show ?thesis
    by (simp add: test_restore_def seq_raises write_attr_fails)
next
  case True
  let ?w1 = "final (write_attr dev ''threshold_mC'' (py_str (threshold_mc orig))) w"
  let ?rest = "seq (when_true (arg_sampling_ms args \<noteq> None \<or> arg_sampling_us args \<noteq> None)
            (write_sampling dev (Some (sampling_us orig)) None))
         (when_true (arg_mode args \<noteq> None) (write_attr dev ''mode'' (mode orig)))"
  have ok: "outcome (write_attr dev ''threshold_mC'' (py_str (threshold_mc orig))) w = Inr ()"
    using assms(1) True by (simp add: guarded_writable write_attr_writable)
  then have 1: "holds_value dev ''threshold_mC'' (threshold_mc orig) ?w1"
    by (simp add: holds_value_def attr_value_written)
  have "preserves (holds_value dev ''threshold_mC'' (threshold_mc orig)) ?rest"
    by (auto intro!: preserves_intros)
  with 1 have "holds_value dev ''threshold_mC'' (threshold_mc orig) (final ?rest ?w1)"
    unfolding preserves_def by blast
  moreover have "final (test_restore args dev orig) w = final ?rest ?w1"
    using ok by (simp add: test_restore_def seq_returns)
  ultimately show ?thesis by simp
qed

lemma test_restore_readonly:
  assumes "guarded (attr_path dev ''threshold_mC'') False c w"
  shows "test_restore args dev orig w = (Inl PermissionError, w)"
proof -
  have "outcome (write_attr dev ''threshold_mC'' (py_str (threshold_mc orig))) w
      = Inl PermissionError"
    using assms by (rule guarded_readonly)
  then show ?thesis
    by (simp add: test_restore_def seq_raises write_attr_fails)
qed

lemma test_configure_readonly:
  assumes "guarded (attr_path dev ''threshold_mC'') False c w"
  shows "\<exists>e. outcome (test_configure args dev) w = Inl e"
proof -
  let ?ws = "write_sampling dev (arg_sampling_us args) (arg_sampling_ms args)"
  let ?wm = "when_some (arg_mode args) (\<lambda>m. write_attr dev ''mode'' m)"
  let ?wt = "write_attr dev ''threshold_mC''
    (py_str (case arg_threshold_mc args of Some t \<Rightarrow> t | None \<Rightarrow> DEFAULT_TEST_THRESHOLD_MC))"
  have "preserves (guarded (attr_path dev ''threshold_mC'') False c) ?ws"
    "preserves (guarded (attr_path dev ''threshold_mC'') False c) ?wm"
    by (auto intro!: preserves_intros)
  with assms have "guarded (attr_path dev ''threshold_mC'') False c (final ?wm (final ?ws w))"
    unfolding preserves_def by blast
  then have t: "outcome ?wt (final ?wm (final ?ws w)) = Inl PermissionError"
    by (rule guarded_readonly)
  show ?thesis
  proof (cases "outcome ?ws w")
    case (Inl e)
    then show ?thesis by (simp add: test_configure_def seq_raises)
  next
    case ws: (Inr u)
    show ?thesis
    proof (cases "outcome ?wm (final ?ws w)")
      case (Inl e)
      with ws show ?thesis by (simp add: test_configure_def seq_raises seq_returns)
    next
      case (Inr v)
      with ws t show ?thesis by (simp add: test_configure_def seq_raises seq_returns)
    qed
  qed
qed

lemma test_body_readonly:
  assumes "guarded (attr_path dev ''threshold_mC'') False c w"
  shows "final (test_body args dev orig) w = final (test_configure args dev) w"
proof -
  from test_configure_readonly [OF assms] obtain e
    where "outcome (test_configure args dev) w = Inl e" ..
  then show ?thesis by (simp add: test_body_def seq_raises)
qed

lemma test_command_keeps_mode:
  assumes "arg_mode args = None"
  shows "preserves (holds_text dev ''mode'' v)
    (try_finally (test_body args dev orig) (test_restore args dev orig))"
  unfolding test_body_def test_configure_def test_report_def test_restore_def
  using assms
  by (auto intro!: preserves_intros split: option.splits prod.splits)

lemma test_restore_mode:
  assumes "arg_mode args = Some m" "outcome (test_restore args dev orig) w = Inr ()"
  shows "attr_text dev ''mode'' (final (test_restore args dev orig) w)
    = Inr (strip (mode orig @ [CHR 0x0A]))"
proof -
  let ?wt = "write_attr dev ''threshold_mC'' (py_str (threshold_mc orig))"
  let ?ws = "when_true (arg_sampling_ms args \<noteq> None \<or> arg_sampling_us args \<noteq> None)
    (write_sampling dev (Some (sampling_us orig)) None)"
  let ?wm = "write_attr dev ''mode'' (mode orig)"
  have r: "test_restore args dev orig = seq ?wt (seq ?ws ?wm)"
    unfolding test_restore_def using assms(1) by simp
  from assms(2) have a: "outcome (seq ?wt (seq ?ws ?wm)) w = Inr ()"
    unfolding r .
  then obtain x where 1: "seq ?wt (seq ?ws ?wm) w = seq ?ws ?wm (final ?wt w)"
    by (rule seq_returnsE)
  with a have "outcome (seq ?ws ?wm) (final ?wt w) = Inr ()" by simp
  then obtain y where 2: "seq ?ws ?wm (final ?wt w) = ?wm (final ?ws (final ?wt w))"
    by (rule seq_returnsE)
  from a 1 2 have "outcome ?wm (final ?ws (final ?wt w)) = Inr ()" by simp
  from attr_text_written [OF this] show ?thesis
    unfolding r 1 2 .
qed

lemma test_body_returns:
  assumes "outcome (test_body args dev orig) w = Inr rc"
  obtains c where "consumed w (final (test_body args dev orig) w) c"
    and "rc = fst (verdict args orig (result_of (scan_reads 0 c)))"
    and "stdout (final (test_body args dev orig) w)
          = stdout w @ [snd (verdict args orig (result_of (scan_reads 0 c)))]"
proof -
  let ?w1 = "final (test_configure args dev) w"
  let ?wait = "wait_for_alert (char_device dev) (effective_sampling_us args orig)
    (arg_max_periods args)"
  from assms have a: "outcome (seq (test_configure args dev)
      (bind ?wait (test_report args orig))) w = Inr rc"
    by (simp add: test_body_def)
  from a obtain x where "seq (test_configure args dev) (bind ?wait (test_report args orig)) w
      = bind ?wait (test_report args orig) ?w1"
    by (rule seq_returnsE)
  then have b: "test_body args dev orig w = bind ?wait (test_report args orig) ?w1"
    by (simp add: test_body_def)
  with assms have 1: "outcome (bind ?wait (test_report args orig)) ?w1 = Inr rc"
    by simp
  from 1 obtain res where res: "outcome ?wait ?w1 = Inr res"
    and r: "bind ?wait (test_report args orig) ?w1 = test_report args orig res (final ?wait ?w1)"
    by (rule bind_returnsE)
  from wait_for_alert_scan [OF res] obtain c where c: "consumed ?w1 (final ?wait ?w1) c"
    "res = result_of (scan_reads 0 c)" by blast
  have e: "same_env w ?w1"
    using same_env_test_configure [of w args dev] by (simp add: preserves_def)
  show thesis
  proof (rule that [of c])
    show "consumed w (final (test_body args dev orig) w) c"
      using c(1) e by (simp add: b r test_report_apply consumed_def same_env_def)
    show "rc = fst (verdict args orig (result_of (scan_reads 0 c)))"
      using assms c(2) by (simp add: b r test_report_apply)
    show "stdout (final (test_body args dev orig) w)
          = stdout w @ [snd (verdict args orig (result_of (scan_reads 0 c)))]"
      using c(2) e wait_for_alert_store [of "char_device dev" _ _ ?w1]
      by (simp add: b r test_report_apply same_env_def)
  qed
qed

lemma test_command_readonly:
  assumes "outcome (SimtempDevice_init (arg_sysfs_root args) (arg_index args) (arg_device args)) w
      = Inr dev"
    and "outcome (snapshot dev) w = Inr orig"
    and "files w (attr_path dev ''threshold_mC'') = Some (File False c)"
  shows "outcome (test_command args) w = Inl PermissionError
    \<and> same_env w (final (test_command args) w)"
proof -
  let ?w1 = "final (test_body args dev orig) w"
  from assms(3) have g: "guarded (attr_path dev ''threshold_mC'') False c w"
    by (simp add: guarded_def)
  then have "guarded (attr_path dev ''threshold_mC'') False c ?w1"
    using guarded_test_body [of _ False c args dev orig] by (simp add: preserves_def)
  then have r: "test_restore args dev orig ?w1 = (Inl PermissionError, ?w1)"
    by (rule test_restore_readonly)
  have "same_env w ?w1"
    using same_env_test_configure [of w args dev]
    by (simp add: preserves_def test_body_readonly [OF g])
  then show ?thesis
    by (simp add: test_command_unfold [OF assms(1,2)] outcome_try_finally final_try_finally r)
qed

lemma test_command_status:
  assumes "outcome (test_command args) w = Inr rc"
  shows "rc = 0 \<or> rc = 1"
  using assms
  by (auto simp: test_command_def test_body_def test_report_def bind_apply seq_apply ret_apply
      try_finally_apply split: prod.splits sum.splits option.splits if_splits)

section \<open>The example sessions\<close>

lemmas session_eval = test_command_def test_body_def test_configure_def test_report_def
  test_restore_def effective_sampling_us_def DEFAULT_TEST_THRESHOLD_MC_def
  session_world_def session_args_def mode_args_def readonly_world_def readonly_args_def
  session_config_def

lemma session_init:
  "outcome (SimtempDevice_init (arg_sysfs_root session_args) (arg_index session_args)
      (arg_device session_args)) session_world = Inr tmp_device"
  "outcome (SimtempDevice_init (arg_sysfs_root mode_args) (arg_index mode_args)
      (arg_device mode_args)) session_world = Inr tmp_device"
  "outcome (SimtempDevice_init (arg_sysfs_root readonly_args) (arg_index readonly_args)
      (arg_device readonly_args)) readonly_world = Inr tmp_device"
  by (simp_all add: session_eval store_eval)

lemma session_snapshot:
  "outcome (snapshot tmp_device) session_world = Inr session_config"
  "outcome (snapshot tmp_device) readonly_world = Inr session_config"
  by (simp_all add: session_eval store_eval prog_simps text_eval)

lemma session_run:
  "outcome (test_command session_args) session_world = Inr 0"
  "stdout (final (test_command session_args) session_world) = [PassLine 1 1234567890 42000 2]"
  by (simp_all add: session_eval store_eval prog_simps text_eval wait_eval env_defs)

lemma mode_run: "outcome (test_command mode_args) session_world = Inr 0"
  by (simp add: session_eval store_eval prog_simps text_eval wait_eval env_defs)

section \<open>Properties of the self-test\<close>

text \<open>
  Claim C1. Once \<^verbatim>\<open>test_command\<close> has selected a device and taken its
  snapshot, the threshold attribute reads as the snapshot's threshold when the
  command ends, on every path: a passing test, a failing test, a write that
  raises, an interrupt during the wait. The \<^verbatim>\<open>finally\<close> clause
  restores it, and a threshold that cannot be written was never changed.
\<close>

theorem test_command_restores_threshold:
  assumes "outcome (SimtempDevice_init (arg_sysfs_root args) (arg_index args) (arg_device args)) w
      = Inr dev"
    and "outcome (snapshot dev) w = Inr orig"
  shows "attr_value dev ''threshold_mC'' (final (test_command args) w) = Inr (threshold_mc orig)"
proof -
  from snapshot_threshold [OF assms(2)]
  obtain rw c where g: "guarded (attr_path dev ''threshold_mC'') rw c w"
    and c: "py_int c = Inr (threshold_mc orig)"
    by (rule attr_value_guarded)
  from g have "guarded (attr_path dev ''threshold_mC'') rw c (final (test_body args dev orig) w)"
    using guarded_test_body [of _ rw c args dev orig] by (simp add: preserves_def)
  from test_restore_threshold [OF this c] show ?thesis
    by (simp add: test_command_final [OF assms] holds_value_def)
qed

theorem test_command_restores_threshold_witness:
  "outcome (SimtempDevice_init (arg_sysfs_root session_args) (arg_index session_args)
      (arg_device session_args)) session_world = Inr tmp_device
   \<and> outcome (snapshot tmp_device) session_world = Inr session_config
   \<and> attr_value tmp_device ''threshold_mC'' (final (test_command session_args) session_world)
       = Inr 45000"
  using test_command_restores_threshold [of session_args session_world tmp_device session_config]
  by (simp add: session_init session_snapshot) (simp add: session_config_def)

text \<open>
  Claim C4. When \<^verbatim>\<open>test_command\<close> returns, it has read a prefix of what the
  channel offered, and its exit status and the one line it printed are the
  verdict on the scan of that prefix: status 0 and a PASS line with the count
  and the record if the scan finds a record with the alert flag, status 1 and a
  FAIL line with the periods and the effective sampling period otherwise.
\<close>

theorem test_command_verdict:
  assumes "outcome (SimtempDevice_init (arg_sysfs_root args) (arg_index args) (arg_device args)) w
      = Inr dev"
    and "outcome (snapshot dev) w = Inr orig"
    and "outcome (test_command args) w = Inr rc"
  shows "\<exists>c. consumed w (final (test_command args) w) c
    \<and> rc = fst (verdict args orig (result_of (scan_reads 0 c)))
    \<and> stdout (final (test_command args) w)
        = stdout w @ [snd (verdict args orig (result_of (scan_reads 0 c)))]"
proof -
  from assms(3) have "outcome (try_finally (test_body args dev orig) (test_restore args dev orig)) w
      = Inr rc"
    by (simp add: test_command_unfold [OF assms(1,2)])
  then have "outcome (test_body args dev orig) w = Inr rc"
    by (rule try_finally_returnsE)
  then obtain c where c: "consumed w (final (test_body args dev orig) w) c"
    "rc = fst (verdict args orig (result_of (scan_reads 0 c)))"
    "stdout (final (test_body args dev orig) w)
      = stdout w @ [snd (verdict args orig (result_of (scan_reads 0 c)))]"
    by (rule test_body_returns)
  have "same_env (final (test_body args dev orig) w) (final (test_command args) w)"
    using same_env_test_restore [of "final (test_body args dev orig) w" args dev orig]
    by (simp add: test_command_final [OF assms(1,2)] preserves_def)
  with c show ?thesis
    by (intro exI [of _ c]) (simp add: consumed_def same_env_def)
qed

theorem test_command_verdict_witness:
  "outcome (SimtempDevice_init (arg_sysfs_root session_args) (arg_index session_args)
      (arg_device session_args)) session_world = Inr tmp_device
   \<and> outcome (snapshot tmp_device) session_world = Inr session_config
   \<and> outcome (test_command session_args) session_world = Inr 0
   \<and> (\<exists>c. consumed session_world (final (test_command session_args) session_world) c
     \<and> 0 = fst (verdict session_args session_config (result_of (scan_reads 0 c)))
     \<and> stdout (final (test_command session_args) session_world)
        = stdout session_world
          @ [snd (verdict session_args session_config (result_of (scan_reads 0 c)))])"
  using test_command_verdict [of session_args session_world tmp_device session_config 0]
  by (simp add: session_init session_snapshot session_run)

text \<open>
  Claim C17. When \<^verbatim>\<open>test_command\<close> returns, the mode attribute reads as the
  mode of the snapshot: it was never written if no override was given, and
  the \<^verbatim>\<open>finally\<close> clause wrote the snapshot's mode back if one was.
\<close>

theorem test_command_restores_mode:
  assumes "outcome (SimtempDevice_init (arg_sysfs_root args) (arg_index args) (arg_device args)) w
      = Inr dev"
    and "outcome (snapshot dev) w = Inr orig"
    and "outcome (test_command args) w = Inr rc"
  shows "attr_text dev ''mode'' (final (test_command args) w) = Inr (mode orig)"
proof (cases "arg_mode args")
  case None
  from snapshot_mode [OF assms(2)] have "holds_text dev ''mode'' (mode orig) w"
    by (simp add: holds_text_def)
  with test_command_keeps_mode [OF None, of dev "mode orig" orig]
  show ?thesis
    by (simp add: preserves_def holds_text_def test_command_unfold [OF assms(1,2)])
next
  case (Some m)
  from assms(3) have "outcome (try_finally (test_body args dev orig) (test_restore args dev orig)) w
      = Inr rc"
    by (simp add: test_command_unfold [OF assms(1,2)])
  then have "outcome (test_restore args dev orig) (final (test_body args dev orig) w) = Inr ()"
    by (rule try_finally_returnsE)
  from test_restore_mode [OF Some this] attr_text_stripped [OF snapshot_mode [OF assms(2)]]
  show ?thesis
    using strip_strip_newline [of "mode orig"]
    by (simp add: test_command_final [OF assms(1,2)])
qed

theorem test_command_restores_mode_witness:
  "outcome (SimtempDevice_init (arg_sysfs_root mode_args) (arg_index mode_args)
      (arg_device mode_args)) session_world = Inr tmp_device
   \<and> outcome (snapshot tmp_device) session_world = Inr session_config
   \<and> outcome (test_command mode_args) session_world = Inr 0
   \<and> attr_text tmp_device ''mode'' (final (test_command mode_args) session_world)
       = Inr ''normal''"
  using test_command_restores_mode [of mode_args session_world tmp_device session_config 0]
  by (simp add: session_init session_snapshot mode_run) (simp add: session_config_def)

text \<open>
  Claim C18. If the threshold attribute of the selected device is read-only,
  \<^verbatim>\<open>test_command\<close> ends with \<^verbatim>\<open>PermissionError\<close>, raised by the
  restore in the \<^verbatim>\<open>finally\<close> clause whatever the body raised, and it
  has neither opened the channel nor polled nor printed a verdict.
\<close>

theorem test_command_readonly_threshold:
  assumes "outcome (SimtempDevice_init (arg_sysfs_root args) (arg_index args) (arg_device args)) w
      = Inr dev"
    and "outcome (snapshot dev) w = Inr orig"
    and "files w (attr_path dev ''threshold_mC'') = Some (File False c)"
  shows "outcome (test_command args) w = Inl PermissionError
    \<and> same_env w (final (test_command args) w)"
  using assms by (rule test_command_readonly)

theorem test_command_readonly_threshold_witness:
  "outcome (SimtempDevice_init (arg_sysfs_root readonly_args) (arg_index readonly_args)
      (arg_device readonly_args)) readonly_world = Inr tmp_device
   \<and> outcome (snapshot tmp_device) readonly_world = Inr session_config
   \<and> files readonly_world (attr_path tmp_device ''threshold_mC'')
       = Some (File False (''45000'' @ [CHR 0x0A]))
   \<and> outcome (test_command readonly_args) readonly_world = Inl PermissionError
   \<and> same_env readonly_world (final (test_command readonly_args) readonly_world)"
  using test_command_readonly_threshold [of readonly_args readonly_world tmp_device
      session_config "''45000'' @ [CHR 0x0A]"]
  by (simp add: session_init session_snapshot)
    (simp add: readonly_world_def session_world_def files_def attr_path_def tmp_device_def)

text \<open>
  Claim C19. The restore writes the threshold first and stops at the first write that
  raises. With a read-only threshold and a sampling override in microseconds
  on a writable \<^verbatim>\<open>sampling_us\<close>, the override is written and never
  undone: the attribute holds the test value when the command ends.
\<close>

theorem test_command_skips_restore:
  assumes "outcome (SimtempDevice_init (arg_sysfs_root args) (arg_index args) (arg_device args)) w
      = Inr dev"
    and "outcome (snapshot dev) w = Inr orig"
    and "files w (attr_path dev ''threshold_mC'') = Some (File False c)"
    and "writable_attr dev ''sampling_us'' w"
    and "arg_sampling_us args = Some us"
  shows "attr_value dev ''sampling_us'' (final (test_command args) w) = Inr us"
proof -
  let ?ws = "write_sampling dev (Some us) (arg_sampling_ms args)"
  let ?rest = "seq (when_some (arg_mode args) (\<lambda>m. write_attr dev ''mode'' m))
    (write_attr dev ''threshold_mC''
      (py_str (case arg_threshold_mc args of Some t \<Rightarrow> t | None \<Rightarrow> DEFAULT_TEST_THRESHOLD_MC)))"
  let ?w1 = "final (test_body args dev orig) w"
  from assms(3) have g: "guarded (attr_path dev ''threshold_mC'') False c w"
    by (simp add: guarded_def)
  then have "guarded (attr_path dev ''threshold_mC'') False c ?w1"
    using guarded_test_body [of _ False c args dev orig] by (simp add: preserves_def)
  then have r: "test_restore args dev orig ?w1 = (Inl PermissionError, ?w1)"
    by (rule test_restore_readonly)
  from write_sampling_prefers_us [OF assms(4), of us "arg_sampling_ms args"]
  have ok: "outcome ?ws w = Inr ()" and v: "holds_value dev ''sampling_us'' us (final ?ws w)"
    by (simp_all add: holds_value_def)
  have "preserves (holds_value dev ''sampling_us'' us) ?rest"
    by (auto intro!: preserves_intros)
  with v have "holds_value dev ''sampling_us'' us (final ?rest (final ?ws w))"
    unfolding preserves_def by blast
  moreover have "final (test_configure args dev) w = final ?rest (final ?ws w)"
    using ok assms(5) by (simp add: test_configure_def seq_returns)
  ultimately have "holds_value dev ''sampling_us'' us ?w1"
    by (simp add: test_body_readonly [OF g])
  then show ?thesis
    by (simp add: test_command_final [OF assms(1,2)] r holds_value_def)
qed

theorem test_command_skips_restore_witness:
  "outcome (SimtempDevice_init (arg_sysfs_root readonly_args) (arg_index readonly_args)
      (arg_device readonly_args)) readonly_world = Inr tmp_device
   \<and> outcome (snapshot tmp_device) readonly_world = Inr session_config
   \<and> files readonly_world (attr_path tmp_device ''threshold_mC'')
       = Some (File False (''45000'' @ [CHR 0x0A]))
   \<and> writable_attr tmp_device ''sampling_us'' readonly_world
   \<and> arg_sampling_us readonly_args = Some 500
   \<and> attr_value tmp_device ''sampling_us'' (final (test_command readonly_args) readonly_world)
       = Inr 500"
  using test_command_skips_restore [of readonly_args readonly_world tmp_device
      session_config "''45000'' @ [CHR 0x0A]" 500]
  by (simp add: session_init session_snapshot)
    (simp add: readonly_world_def session_world_def files_def attr_path_def tmp_device_def
      writable_attr_def readonly_args_def session_args_def)



end
