(* ===== verification/Stream_Session.thy ===== *)
theory Stream_Session
  imports Wait_Alert Cli_Args
begin

text \<open>
  The streaming session, \<^verbatim>\<open>stream_command\<close>: select the device, apply the
  overrides of the command line, fix the optional deadline, open the channel,
  and print one line per full record until the deadline or the sample count
  is reached or the operator interrupts; the channel is closed in a
  \<^verbatim>\<open>finally\<close> clause and the function returns 0.

  One pass through the body of \<^verbatim>\<open>while True\<close> is \<open>stream_iteration\<close>, with
  the same conventions as \<open>wait_iteration\<close>. A pass that continues has
  consumed a poll result, so the loop is a total function with the measure
  \<open>length (polls w)\<close>.
\<close>

section \<open>The loop\<close>

definition stream_expired :: "real option \<Rightarrow> (bool, world) prog" where
  "stream_expired deadline =
     (case deadline of
        None \<Rightarrow> ret False
      | Some dl \<Rightarrow> bind monotonic (\<lambda>now. ret (dl \<le> now)))"

definition stream_iteration ::
  "nat \<Rightarrow> real option \<Rightarrow> int option \<Rightarrow> int \<Rightarrow> (unit loop_step, world) prog" where
  "stream_iteration fd deadline count_limit samples =
     bind (stream_expired deadline) (\<lambda>expired.
       if expired then ret (Break ())
       else if (case count_limit of None \<Rightarrow> False | Some n \<Rightarrow> n \<le> samples) then ret (Break ())
       else bind (poll_record fd DEFAULT_POLL_TIMEOUT_MS) (\<lambda>unpacked.
         case unpacked of
           None \<Rightarrow> ret (Continue samples)
         | Some (timestamp_ns, temp_mc, flags) \<Rightarrow>
             seq (print_line (SampleLine timestamp_ns temp_mc (alert_bit flags) flags))
               (ret (Continue (samples + 1)))))"

text \<open>
  A clock reading leaves the world as it is or takes the first reading off
  the clock; \<open>ticked\<close> is that relation.
\<close>

definition ticked :: "world \<Rightarrow> world \<Rightarrow> bool" where
  "ticked w w' \<longleftrightarrow> w' = w \<or> (\<exists>t ts. clock w = t # ts \<and> w' = w\<lparr>clock := ts\<rparr>)"

lemma stream_expired_apply:
  "stream_expired dl w =
     (case dl of
        None \<Rightarrow> (Inr False, w)
      | Some d \<Rightarrow> (case clock w of
                     [] \<Rightarrow> (Inl KeyboardInterrupt, w)
                   | t # ts \<Rightarrow> (Inr (d \<le> t), w\<lparr>clock := ts\<rparr>)))"
  by (simp add: stream_expired_def prog_simps monotonic_def split: option.splits list.splits)

lemma stream_expired_cases [consumes 1, case_names interrupted checked]:
  assumes "stream_expired dl w = (c, w0)"
  obtains (interrupted) "c = Inl KeyboardInterrupt" "w0 = w"
  | (checked) b where "c = Inr b" "ticked w w0" "dl = None \<longrightarrow> \<not> b"
  using assms
  by (auto simp: stream_expired_apply ticked_def split: option.splits list.splits)

lemma stream_iteration_apply:
  "stream_iteration fd dl cl n w =
     (case stream_expired dl w of
        (Inl e, w0) \<Rightarrow> (Inl e, w0)
      | (Inr b, w0) \<Rightarrow>
          if b \<or> (case cl of None \<Rightarrow> False | Some k \<Rightarrow> k \<le> n) then (Inr (Break ()), w0)
          else (case poll_record fd DEFAULT_POLL_TIMEOUT_MS w0 of
                  (Inl e, w1) \<Rightarrow> (Inl e, w1)
                | (Inr None, w1) \<Rightarrow> (Inr (Continue n), w1)
                | (Inr (Some (t, m, f)), w1) \<Rightarrow>
                    (Inr (Continue (n + 1)),
                     w1\<lparr>stdout := stdout w1 @ [SampleLine t m (alert_bit f) f]\<rparr>)))"
  unfolding stream_iteration_def
  by (simp add: bind_apply [of "stream_expired dl"] bind_apply [of "poll_record _ _"]
      seq_apply ret_apply print_line_def split: sum.splits option.splits prod.splits)

text \<open>
  The three ways a pass can go: it stops at one of the two bounds, it is
  interrupted at the clock reading, or it reaches the shared step.
\<close>

lemma stream_iteration_cases [consumes 1, case_names stop interrupted polled]:
  assumes "stream_iteration fd dl cl n w = (r, w')"
  obtains (stop) "r = Inr (Break ())" "ticked w w'"
      "dl = None \<longrightarrow> (\<exists>k. cl = Some k \<and> k \<le> n)"
  | (interrupted) "r = Inl KeyboardInterrupt" "w' = w"
  | (polled) w0 rr w1 where "ticked w w0"
      "\<forall>k. cl = Some k \<longrightarrow> n < k"
      "poll_record fd DEFAULT_POLL_TIMEOUT_MS w0 = (rr, w1)"
      "case rr of
         Inl e \<Rightarrow> r = Inl e \<and> w' = w1
       | Inr None \<Rightarrow> r = Inr (Continue n) \<and> w' = w1
       | Inr (Some (t, m, f)) \<Rightarrow> r = Inr (Continue (n + 1))
           \<and> w' = w1\<lparr>stdout := stdout w1 @ [SampleLine t m (alert_bit f) f]\<rparr>"
proof -
  obtain c w0 where check: "stream_expired dl w = (c, w0)"
    by (cases "stream_expired dl w")
  obtain rr w1 where poll: "poll_record fd DEFAULT_POLL_TIMEOUT_MS w0 = (rr, w1)"
    by (cases "poll_record fd DEFAULT_POLL_TIMEOUT_MS w0")
  note run = assms [unfolded stream_iteration_apply check prod.case poll]
  from check show thesis
  proof (cases rule: stream_expired_cases)
    case interrupted
    with run show thesis by (intro that(2)) auto
  next
    case (checked b)
    show thesis
    proof (cases "b \<or> (case cl of None \<Rightarrow> False | Some k \<Rightarrow> k \<le> n)")
      case True
      with checked run show thesis by (intro stop) (auto split: option.splits)
    next
      case False
      with checked run have "case rr of
         Inl e \<Rightarrow> r = Inl e \<and> w' = w1
       | Inr None \<Rightarrow> r = Inr (Continue n) \<and> w' = w1
       | Inr (Some (t, m, f)) \<Rightarrow> r = Inr (Continue (n + 1))
           \<and> w' = w1\<lparr>stdout := stdout w1 @ [SampleLine t m (alert_bit f) f]\<rparr>"
        by (auto split: sum.splits option.splits)
      moreover from False have "\<forall>k. cl = Some k \<longrightarrow> n < k" by (auto split: option.splits)
      ultimately show thesis using checked(2) poll by (intro polled [of w0 rr w1])
    qed
  qed
qed

lemma stream_iteration_continue:
  assumes "stream_iteration fd deadline count_limit samples w = (Inr (Continue n), w')"
  shows "length (polls w') < length (polls w)"
proof -
  obtain c w0 where check: "stream_expired deadline w = (c, w0)"
    by (cases "stream_expired deadline w")
  then have w0: "polls w0 = polls w"
    by (auto simp: stream_expired_apply split: option.splits list.splits)
  obtain rr w1 where poll: "poll_record fd DEFAULT_POLL_TIMEOUT_MS w0 = (rr, w1)"
    by (cases "poll_record fd DEFAULT_POLL_TIMEOUT_MS w0")
  from assms have "polls w' = polls w1 \<and> (\<exists>x. rr = Inr x)"
    by (auto simp: stream_iteration_def bind_apply check poll seq_apply ret_apply print_line_def
        split: sum.splits option.splits if_splits)
  with poll_record_frame(3) [OF poll] poll_record_result [OF poll] w0 show ?thesis
    by (cases "polls w0") (auto split: option.splits)
qed

function stream_loop :: "nat \<Rightarrow> real option \<Rightarrow> int option \<Rightarrow> int \<Rightarrow> (unit, world) prog" where
  "stream_loop fd deadline count_limit samples w =
     (case stream_iteration fd deadline count_limit samples w of
        (Inl e, w') \<Rightarrow> (Inl e, w')
      | (Inr (Break r), w') \<Rightarrow> (Inr r, w')
      | (Inr (Continue n), w') \<Rightarrow> stream_loop fd deadline count_limit n w')"
  by pat_completeness auto
termination
  by (relation "measure (\<lambda>(fd, deadline, count_limit, samples, w). length (polls w))")
    (auto dest: stream_iteration_continue [OF sym])

declare stream_loop.simps [simp del]

section \<open>The session\<close>

definition stream_configure :: "stream_args \<Rightarrow> SimtempDevice \<Rightarrow> (unit, world) prog" where
  "stream_configure args device =
     seq (write_sampling device (arg_sampling_us args) (arg_sampling_ms args))
    (seq (when_some (arg_threshold_mc args)
            (\<lambda>t. write_attr device ''threshold_mC'' (py_str t)))
         (when_some (arg_mode args) (\<lambda>m. write_attr device ''mode'' m)))"

definition stream_deadline :: "real option \<Rightarrow> (real option, world) prog" where
  "stream_deadline duration =
     (case duration of
        None \<Rightarrow> ret None
      | Some d \<Rightarrow> if d = 0 then ret None else bind monotonic (\<lambda>now. ret (Some (now + d))))"

definition stream_session ::
  "nat \<Rightarrow> real option \<Rightarrow> int option \<Rightarrow> (unit, world) prog" where
  "stream_session fd deadline count_limit =
     try_finally
       (try_except (stream_loop fd deadline count_limit 0) (\<lambda>e. e = KeyboardInterrupt)
          (\<lambda>_. ret ()))
       (os_close fd)"

definition stream_open :: "real option \<Rightarrow> path \<Rightarrow> int option \<Rightarrow> (int, world) prog" where
  "stream_open duration dev count_limit =
     bind (stream_deadline duration) (\<lambda>deadline.
       bind (os_open dev) (\<lambda>fd. seq (stream_session fd deadline count_limit) (ret 0)))"

definition stream_command :: "stream_args \<Rightarrow> (int, world) prog" where
  "stream_command args =
     bind (SimtempDevice_init (arg_sysfs_root args) (arg_index args) (arg_device args))
       (\<lambda>device. seq (stream_configure args device)
          (stream_open (arg_duration args) (char_device device) (arg_count args)))"

section \<open>What the session promises\<close>

text \<open>
  The lines a list of reads gives rise to: one line per full record, in
  order; short reads and reads that raise print nothing.
\<close>

fun line_of :: "read_result \<Rightarrow> out_line list" where
  "line_of (ReadRaises e) = []"
| "line_of (Data bs) =
     (if length bs < SIMTEMP_SAMPLE_SIZE then []
      else case unpack (take SIMTEMP_SAMPLE_SIZE bs) of
             Inl e \<Rightarrow> []
           | Inr (t, m, f) \<Rightarrow> [SampleLine t m (alert_bit f) f])"

definition sample_lines :: "read_result list \<Rightarrow> out_line list" where
  "sample_lines rs = concat (map line_of rs)"

definition under_limit :: "int option \<Rightarrow> int \<Rightarrow> bool" where
  "under_limit count_limit n = (case count_limit of None \<Rightarrow> True | Some k \<Rightarrow> n \<le> max k 0)"

text \<open>A read that delivers a whole record.\<close>

fun full :: "read_result \<Rightarrow> bool" where
  "full (Data bs) \<longleftrightarrow> SIMTEMP_SAMPLE_SIZE \<le> length bs"
| "full (ReadRaises e) \<longleftrightarrow> False"

text \<open>What the loop leaves alone: the file tree, the descriptors, the error output.\<close>

definition only_io :: "world \<Rightarrow> world \<Rightarrow> bool" where
  "only_io w w' \<longleftrightarrow>
     tree w' = tree w \<and> missing_write w' = missing_write w \<and> open_fds w' = open_fds w
     \<and> next_fd w' = next_fd w \<and> stderr w' = stderr w"

text \<open>What the loop adds to the log of timeouts: the default timeout, once per poll.\<close>

definition stream_polled :: "world \<Rightarrow> world \<Rightarrow> bool" where
  "stream_polled w w' \<longleftrightarrow>
     (\<exists>new. poll_log w' = new @ poll_log w \<and> list_all (\<lambda>t. t = DEFAULT_POLL_TIMEOUT_MS) new
        \<and> length new + length (polls w') = length (polls w))"

text \<open>What the command has not touched when it reaches the loop.\<close>

definition at_loop :: "world \<Rightarrow> world \<Rightarrow> bool" where
  "at_loop w w1 \<longleftrightarrow>
     polls w1 = polls w \<and> reads w1 = reads w \<and> poll_log w1 = poll_log w
     \<and> stdout w1 = stdout w \<and> stderr w1 = stderr w"

section \<open>Sessions of the examples\<close>

text \<open>
  Two sessions on the device directory of the tests. In the first the
  operator gives no bound: the channel delivers a short read, a poll that
  times out, a read that would block and one record, and then the operator
  interrupts. The second is \<^verbatim>\<open>stream --count 2\<close> on a channel with three
  records ready, the second with a negative temperature.
\<close>

definition stream_world :: world where
  "stream_world =
     \<lparr>tree = tmp_tree @ [(DEFAULT_CHAR_DEVICE, File False [])], missing_write = None,
      clock = [], polls = [Ready, TimedOut, Ready, Ready],
      reads = [Data [1, 2, 3], ReadRaises BlockingIOError,
               Data [0xD2, 0x02, 0x96, 0x49, 0, 0, 0, 0, 0x10, 0xA4, 0, 0, 2, 0, 0, 0]],
      poll_log = [], open_fds = [], next_fd = 3, stdout = [], stderr = []\<rparr>"

definition plain_args :: stream_args where
  "plain_args =
     \<lparr>arg_sysfs_root = [''/'', ''tmp''], arg_device = None, arg_index = 0,
      arg_sampling_ms = None, arg_sampling_us = None, arg_threshold_mc = None,
      arg_mode = None, arg_count = None, arg_duration = None\<rparr>"

definition count_records :: "read_result list" where
  "count_records =
     [Data [0xD2, 0x02, 0x96, 0x49, 0, 0, 0, 0, 0x10, 0xA4, 0, 0, 2, 0, 0, 0],
      Data [1, 0, 0, 0, 0, 0, 0, 0, 0xFF, 0xFF, 0xFF, 0xFF, 0, 0, 0, 0]]"

definition count_world :: world where
  "count_world =
     stream_world
       \<lparr>polls := [Ready, Ready, TimedOut],
        reads := count_records @ [Data [2, 0, 0, 0, 0, 0, 0, 0, 0, 0, 0, 0, 0, 0, 0, 0]]\<rparr>"

definition count_args :: stream_args where
  "count_args = plain_args\<lparr>arg_count := Some 2\<rparr>"

section \<open>The loop rule\<close>

lemma stream_loop_rule:
  assumes inv: "I n w"
    and step: "\<And>n w r w'. I n w \<Longrightarrow> stream_iteration fd dl cl n w = (r, w') \<Longrightarrow>
      (case r of Inl e \<Rightarrow> Q (Inl e) w'
       | Inr (Break res) \<Rightarrow> Q (Inr res) w'
       | Inr (Continue k) \<Rightarrow> I k w')"
  shows "Q (outcome (stream_loop fd dl cl n) w) (final (stream_loop fd dl cl n) w)"
  using inv
proof (induction "length (polls w)" arbitrary: n w rule: less_induct)
  case less
  obtain r w' where it: "stream_iteration fd dl cl n w = (r, w')"
    by (cases "stream_iteration fd dl cl n w")
  note s = step [OF less.prems it]
  show ?case
  proof (cases r)
    case (Inl e)
    with s it show ?thesis by (simp add: stream_loop.simps [of fd dl cl n w])
  next
    case (Inr st)
    show ?thesis
    proof (cases st)
      case (Continue k)
      with s Inr have "I k w'" by simp
      moreover have "length (polls w') < length (polls w)"
        using it Inr Continue by (auto dest: stream_iteration_continue)
      ultimately have "Q (outcome (stream_loop fd dl cl k) w') (final (stream_loop fd dl cl k) w')"
        by (rule less.hyps [rotated])
      with it Inr Continue show ?thesis by (simp add: stream_loop.simps [of fd dl cl n w])
    next
      case (Break res)
      with s it Inr show ?thesis by (simp add: stream_loop.simps [of fd dl cl n w])
    qed
  qed
qed

lemma stream_loop_preserves:
  assumes step: "\<And>n w. R w (final (stream_iteration fd dl cl n) w)"
    and refl: "\<And>w. R w w" and trans: "\<And>a b c. R a b \<Longrightarrow> R b c \<Longrightarrow> R a c"
  shows "R w (final (stream_loop fd dl cl n) w)"
proof (rule stream_loop_rule [where I = "\<lambda>_. R w" and Q = "\<lambda>_. R w"])
  fix n v r v'
  assume "R w v" and "stream_iteration fd dl cl n v = (r, v')"
  then have "R w v'"
    using step [of v n] by (auto intro: trans)
  then show "case r of Inl e \<Rightarrow> R w v' | Inr (Continue k) \<Rightarrow> R w v' | Inr (Break res) \<Rightarrow> R w v'"
    by (simp split: sum.splits loop_step.splits)
qed (rule refl)

section \<open>The frame and the polls of the loop\<close>

lemma only_io_refl [simp]: "only_io w w"
  by (simp add: only_io_def)

lemma only_io_trans: "only_io a b \<Longrightarrow> only_io b c \<Longrightarrow> only_io a c"
  by (simp add: only_io_def)

lemma only_io_stream_iteration: "only_io w (final (stream_iteration fd dl cl n) w)"
proof (cases "stream_iteration fd dl cl n w")
  case (Pair r w')
  then show ?thesis
  proof (cases rule: stream_iteration_cases)
    case (polled w0 rr w1)
    from polled(3) have "only_env w0 w1" by (rule poll_record_frame)
    with polled(1,4) Pair show ?thesis
      by (auto simp: only_io_def only_env_def ticked_def split: sum.splits option.splits)
  qed (use Pair in \<open>auto simp: only_io_def ticked_def\<close>)
qed

lemma only_io_stream_loop: "only_io w (final (stream_loop fd dl cl n) w)"
  by (rule stream_loop_preserves) (auto intro: only_io_stream_iteration only_io_trans)

lemma stream_polled_refl [simp]: "stream_polled w w"
  by (simp add: stream_polled_def)

lemma stream_polled_trans: "stream_polled a b \<Longrightarrow> stream_polled b c \<Longrightarrow> stream_polled a c"
  by (auto simp: stream_polled_def)

lemma stream_polled_iteration: "stream_polled w (final (stream_iteration fd dl cl n) w)"
proof (cases "stream_iteration fd dl cl n w")
  case (Pair r w')
  then show ?thesis
  proof (cases rule: stream_iteration_cases)
    case (polled w0 rr w1)
    from poll_record_frame [OF polled(3)] poll_record_result [OF polled(3)] polled(1,4) Pair
    show ?thesis
      by (cases "polls w")
        (auto simp: stream_polled_def ticked_def split: sum.splits option.splits)
  qed (use Pair in \<open>auto simp: stream_polled_def ticked_def\<close>)
qed

lemma stream_polled_loop: "stream_polled w (final (stream_loop fd dl cl n) w)"
  by (rule stream_loop_preserves) (auto intro: stream_polled_iteration stream_polled_trans)

section \<open>The loop prints the lines of the reads it consumes\<close>

lemma sample_lines_simps [simp]:
  "sample_lines [] = []" "sample_lines (r # rs) = line_of r @ sample_lines rs"
  "sample_lines (c @ d) = sample_lines c @ sample_lines d"
  by (simp_all add: sample_lines_def)

lemma length_line_of: "length (line_of r) \<le> 1"
  by (cases r) (auto split: sum.splits)

lemma length_sample_lines: "length (sample_lines rs) \<le> length rs"
proof (induction rs)
  case (Cons r rs)
  with length_line_of [of r] show ?case by simp
qed simp

lemma stream_iteration_lines:
  assumes "stream_iteration fd dl cl n w = (r, w')"
  shows "consumed w w' (taken w w') \<and> stdout w' = stdout w @ sample_lines (taken w w')
    \<and> length (sample_lines (taken w w')) \<le> 1
    \<and> (case r of
         Inl e \<Rightarrow> sample_lines (taken w w') = []
       | Inr (Break u) \<Rightarrow> taken w w' = [] \<and> (dl = None \<longrightarrow> (\<exists>k. cl = Some k \<and> k \<le> n))
       | Inr (Continue k) \<Rightarrow> k = n + int (length (sample_lines (taken w w')))
           \<and> (sample_lines (taken w w') \<noteq> [] \<longrightarrow> (\<forall>lim. cl = Some lim \<longrightarrow> n < lim)))"
  using assms
proof (cases rule: stream_iteration_cases)
  case (polled w0 rr w1)
  have t: "taken w w' = taken w0 w1"
    using polled(1,4) by (auto simp: taken_def ticked_def split: sum.splits option.splits)
  have o: "stdout w1 = stdout w" "reads w0 = reads w"
    using poll_record_frame(1) [OF polled(3)] polled(1) by (auto simp: only_env_def ticked_def)
  have "length (sample_lines (taken w0 w1)) \<le> 1"
    using length_sample_lines [of "taken w0 w1"] poll_record_consumed(2) [OF polled(3)] by simp
  with poll_record_consumed(1) [OF polled(3)] poll_record_result [OF polled(3)] polled(2,4) o
  show ?thesis
    unfolding t by (auto simp: consumed_def split: sum.splits option.splits)
qed (auto simp: consumed_def taken_def ticked_def)

lemma consumed_trans: "consumed a b c \<Longrightarrow> consumed b v d \<Longrightarrow> consumed a v (c @ d)"
  by (simp add: consumed_def)

lemma stream_loop_lines:
  "\<exists>c. consumed w (final (stream_loop fd dl cl n) w) c
     \<and> stdout (final (stream_loop fd dl cl n) w) = stdout w @ sample_lines c
     \<and> (under_limit cl n \<longrightarrow> under_limit cl (n + int (length (sample_lines c))))
     \<and> (outcome (stream_loop fd dl cl n) w = Inr () \<longrightarrow> dl = None \<longrightarrow>
          (\<exists>k. cl = Some k \<and> k \<le> n + int (length (sample_lines c))))"
proof -
  let ?L = "\<lambda>v c. consumed w v c \<and> stdout v = stdout w @ sample_lines c
    \<and> (under_limit cl n \<longrightarrow> under_limit cl (n + int (length (sample_lines c))))"
  let ?I = "\<lambda>k v. \<exists>c. ?L v c \<and> k = n + int (length (sample_lines c))"
  let ?Q = "\<lambda>r v. \<exists>c. ?L v c
    \<and> (r = Inr () \<longrightarrow> dl = None \<longrightarrow> (\<exists>k. cl = Some k \<and> k \<le> n + int (length (sample_lines c))))"
  have "?Q (outcome (stream_loop fd dl cl n) w) (final (stream_loop fd dl cl n) w)"
  proof (rule stream_loop_rule [where I = ?I and Q = ?Q])
    show "?I n w" by (intro exI [of _ "[]"]) (simp add: consumed_def)
  next
    fix k v r v'
    assume "?I k v" and it: "stream_iteration fd dl cl k v = (r, v')"
    then obtain c where c: "?L v c" "k = n + int (length (sample_lines c))" by blast
    let ?d = "taken v v'"
    note d = stream_iteration_lines [OF it]
    have "?L v' (c @ ?d)"
      using c d by (auto simp: consumed_def under_limit_def split: sum.splits loop_step.splits
          option.splits)
    with c(2) d show "case r of Inl e \<Rightarrow> ?Q (Inl e) v' | Inr (Continue j) \<Rightarrow> ?I j v'
      | Inr (Break res) \<Rightarrow> ?Q (Inr res) v'"
      by (auto split: sum.splits loop_step.splits intro!: exI [of _ "c @ ?d"])
  qed
  then show ?thesis by blast
qed

section \<open>Interrupts\<close>

lemma stream_iteration_benign:
  assumes "benign w" "fd \<in> set (open_fds w)" "stream_iteration fd dl cl n w = (r, w')"
  shows "benign w' \<and> fd \<in> set (open_fds w') \<and> (\<forall>e. r = Inl e \<longrightarrow> e = KeyboardInterrupt)"
  using assms(3)
proof (cases rule: stream_iteration_cases)
  case (polled w0 rr w1)
  from polled(1) assms(1,2) have "benign w0" "fd \<in> set (open_fds w0)"
    by (auto simp: benign_def ticked_def)
  from poll_record_benign [OF this polled(3)] poll_record_frame(1) [OF polled(3)] polled(4)
    \<open>fd \<in> set (open_fds w0)\<close>
  show ?thesis
    by (auto simp: benign_def only_env_def split: sum.splits option.splits)
qed (use assms in \<open>auto simp: benign_def ticked_def\<close>)

lemma stream_loop_benign:
  assumes "benign w" "fd \<in> set (open_fds w)"
  shows "outcome (stream_loop fd dl cl n) w \<in> {Inr (), Inl KeyboardInterrupt}"
proof -
  let ?I = "\<lambda>(k::int) v. benign v \<and> fd \<in> set (open_fds v)"
  let ?Q = "\<lambda>r (v::world). r \<in> {Inr (), Inl KeyboardInterrupt}"
  show ?thesis
  proof (rule stream_loop_rule [where I = ?I and Q = ?Q])
    show "?I n w" using assms by simp
  next
    fix k v r v'
    assume "?I k v" and "stream_iteration fd dl cl k v = (r, v')"
    then show "case r of Inl e \<Rightarrow> ?Q (Inl e) v' | Inr (Continue j) \<Rightarrow> ?I j v'
      | Inr (Break res) \<Rightarrow> ?Q (Inr res) v'"
      using stream_iteration_benign [of v fd dl cl k r v']
      by (auto split: sum.splits loop_step.splits)
  qed
qed

section \<open>The session closes the channel\<close>

lemma stream_session_run:
  assumes "open_fds w = fd # fds" "fd \<notin> set fds"
  shows "stream_session fd dl cl w =
     ((case outcome (stream_loop fd dl cl 0) w of
         Inl e \<Rightarrow> if e = KeyboardInterrupt then Inr () else Inl e
       | Inr u \<Rightarrow> Inr u),
      (final (stream_loop fd dl cl 0) w)\<lparr>open_fds := fds\<rparr>)"
proof -
  let ?loop = "stream_loop fd dl cl 0"
  have "open_fds (final ?loop w) = fd # fds"
    using only_io_stream_loop [of w fd dl cl 0] assms(1) by (simp add: only_io_def)
  then have "os_close fd (final ?loop w) = (Inr (), (final ?loop w)\<lparr>open_fds := fds\<rparr>)"
    using assms(2) by (rule os_close_opened)
  then show ?thesis
    by (cases "?loop w")
      (auto simp: stream_session_def try_finally_apply try_except_apply ret_apply
        split: sum.splits)
qed

section \<open>The command\<close>

lemma same_env_stream_configure: "preserves (same_env w0) (stream_configure args dev)"
  unfolding stream_configure_def by (auto intro!: preserves_intros)

lemma path_exists_stream_configure: "preserves (path_exists p) (stream_configure args dev)"
  unfolding stream_configure_def by (auto intro!: preserves_intros)

lemma stream_deadline_apply:
  "stream_deadline duration w =
     (if duration = None \<or> duration = Some 0 then (Inr None, w)
      else case clock w of
             [] \<Rightarrow> (Inl KeyboardInterrupt, w)
           | t # ts \<Rightarrow> (Inr (Some (t + the duration)), w\<lparr>clock := ts\<rparr>))"
  by (auto simp: stream_deadline_def prog_simps monotonic_def split: option.splits list.splits)

lemma stream_deadline_ticked: "ticked w (final (stream_deadline duration) w)"
  by (auto simp: stream_deadline_apply ticked_def split: list.splits)

lemma stream_open_apply:
  "stream_open d p cl v =
     (case stream_deadline d v of
        (Inl e, v2) \<Rightarrow> (Inl e, v2)
      | (Inr dl, v2) \<Rightarrow>
          if path_exists p v2
          then seq (stream_session (next_fd v2) dl cl) (ret 0) (opened v2)
          else (Inl FileNotFoundError, v2))"
  by (auto simp: stream_open_def bind_apply os_open_def opened_def split: prod.splits sum.splits)

lemma stream_command_configured:
  assumes "outcome (SimtempDevice_init (arg_sysfs_root args) (arg_index args) (arg_device args)) w
      = Inr dev"
    and "outcome (stream_configure args dev) w = Inr ()"
  shows "stream_command args w =
    stream_open (arg_duration args) (char_device dev) (arg_count args)
      (final (stream_configure args dev) w)"
  using assms by (simp add: stream_command_def bind_returns seq_returns)

text \<open>
  Up to the loop the command either raises, having changed at most the
  attribute files and the clock, or it reaches the session with the channel
  open on a fresh descriptor; \<open>at_loop\<close> is what has not changed by then.
\<close>

lemma at_loop_ticked: "ticked w v \<Longrightarrow> at_loop w v \<and> open_fds v = open_fds w \<and> next_fd v = next_fd w"
  by (auto simp: ticked_def at_loop_def)

lemma stream_open_final [consumes 1, case_names early run]:
  assumes "fds_fresh v"
  obtains (early) "at_loop v (final (stream_open d p cl) v)"
      "open_fds (final (stream_open d p cl) v) = open_fds v"
      "\<exists>e. outcome (stream_open d p cl) v = Inl e"
  | (run) dl v1 where "at_loop v v1" "next_fd v \<in> set (open_fds v1)"
      "final (stream_open d p cl) v
        = (final (stream_loop (next_fd v) dl cl 0) v1)\<lparr>open_fds := open_fds v\<rparr>"
      "outcome (stream_open d p cl) v =
         (case outcome (stream_loop (next_fd v) dl cl 0) v1 of
            Inl e \<Rightarrow> if e = KeyboardInterrupt then Inr 0 else Inl e
          | Inr u \<Rightarrow> Inr 0)"
proof -
  obtain r v2 where dl: "stream_deadline d v = (r, v2)"
    by (cases "stream_deadline d v")
  with stream_deadline_ticked [of v d] have v2: "at_loop v v2" "open_fds v2 = open_fds v"
    "next_fd v2 = next_fd v"
    by (simp_all add: at_loop_ticked)
  show thesis
  proof (cases "\<exists>deadline. r = Inr deadline \<and> path_exists p v2")
    case False
    with dl v2 show thesis
      by (intro early) (auto simp: stream_open_apply split: sum.splits)
  next
    case True
    then obtain deadline where r: "r = Inr deadline" "path_exists p v2" by blast
    have o: "open_fds (opened v2) = next_fd v # open_fds v" "next_fd v \<notin> set (open_fds v)"
      using v2 fresh_not_open [OF assms] by (simp_all add: opened_def)
    note s = stream_session_run [OF o, of deadline cl]
    have "stream_open d p cl v = seq (stream_session (next_fd v) deadline cl) (ret 0) (opened v2)"
      using dl r v2 by (simp add: stream_open_apply)
    moreover have "at_loop v (opened v2)" "next_fd v \<in> set (open_fds (opened v2))"
      using v2 by (simp_all add: at_loop_def opened_def)
    ultimately show thesis
      by (intro run [of "opened v2" deadline])
        (simp_all add: seq_apply s ret_apply split: sum.splits)
  qed
qed

lemma stream_command_final [consumes 1, case_names early run]:
  assumes "fds_fresh w"
  obtains (early) "at_loop w (final (stream_command args) w)"
      "open_fds (final (stream_command args) w) = open_fds w"
      "\<exists>e. outcome (stream_command args) w = Inl e"
  | (run) dl w1 where "at_loop w w1" "next_fd w \<in> set (open_fds w1)"
      "final (stream_command args) w
        = (final (stream_loop (next_fd w) dl (arg_count args) 0) w1)\<lparr>open_fds := open_fds w\<rparr>"
      "outcome (stream_command args) w =
         (case outcome (stream_loop (next_fd w) dl (arg_count args) 0) w1 of
            Inl e \<Rightarrow> if e = KeyboardInterrupt then Inr 0 else Inl e
          | Inr u \<Rightarrow> Inr 0)"
proof (cases "outcome (SimtempDevice_init (arg_sysfs_root args) (arg_index args)
    (arg_device args)) w")
  case (Inl e)
  then show thesis
    by (intro early) (simp_all add: stream_command_def bind_raises at_loop_def)
next
  case dev: (Inr dev)
  let ?v = "final (stream_configure args dev) w"
  have env: "same_env w ?v"
    using same_env_stream_configure [of w args dev] by (simp add: preserves_def)
  then have v: "fds_fresh ?v" "at_loop w ?v" "open_fds ?v = open_fds w" "next_fd ?v = next_fd w"
    using assms by (simp_all add: same_env_def fds_fresh_def at_loop_def)
  show thesis
  proof (cases "outcome (stream_configure args dev) w")
    case (Inl e)
    with dev v show thesis
      by (intro early) (simp_all add: stream_command_def bind_returns seq_raises)
  next
    case (Inr u)
    note c = stream_command_configured [OF dev]
    from v(1) show thesis
    proof (cases rule: stream_open_final
        [where d = "arg_duration args" and p = "char_device dev" and cl = "arg_count args"])
      case early
      with v Inr show thesis
        by (intro that(1)) (simp_all add: c at_loop_def)
    next
      case (run dl v1)
      with v Inr show thesis
        by (intro that(2) [of v1 dl]) (simp_all add: c at_loop_def)
    qed
  qed
qed

lemma stream_session_benign:
  assumes "benign w" "open_fds w = fd # fds" "fd \<notin> set fds"
  shows "outcome (stream_session fd dl cl) w = Inr ()"
  using stream_loop_benign [of w fd dl cl 0] assms
  by (auto simp: stream_session_run [OF assms(2,3)])

lemma stream_command_status:
  assumes "outcome (stream_command args) w = Inr rc"
  shows "rc = 0"
  using assms
  by (auto simp: stream_command_def stream_open_def bind_apply seq_apply ret_apply
      split: prod.splits sum.splits)

lemma stream_command_prints:
  assumes "fds_fresh w"
  shows "\<exists>c. consumed w (final (stream_command args) w) c
    \<and> stdout (final (stream_command args) w) = stdout w @ sample_lines c
    \<and> under_limit (arg_count args) (int (length (sample_lines c)))"
  using assms
proof (cases rule: stream_command_final [where args = args])
  case early
  then show ?thesis
    by (intro exI [of _ "[]"]) (simp add: at_loop_def consumed_def under_limit_def split: option.splits)
next
  case (run dl w1)
  from stream_loop_lines [of w1 "next_fd w" dl "arg_count args" 0] run(1,3) show ?thesis
    by (auto simp: at_loop_def consumed_def under_limit_def split: option.splits)
qed

section \<open>A count that is reached\<close>

lemma poll_record_ready:
  assumes "fd \<in> set (open_fds w)" "polls w = Ready # ps" "reads w = Data bs # rs"
    and "SIMTEMP_SAMPLE_SIZE \<le> length bs"
  shows "poll_record fd t w =
    (map_sum id Some (unpack (take SIMTEMP_SAMPLE_SIZE bs)),
     w\<lparr>polls := ps, poll_log := t # poll_log w, reads := rs\<rparr>)"
  using assms
  by (auto simp: prog_simps env_defs dest: unpack_take_raises split: sum.splits)

lemma full_line:
  assumes "full r"
  obtains t m f where "line_of r = [SampleLine t m (alert_bit f) f]"
    "\<exists>bs. r = Data bs \<and> SIMTEMP_SAMPLE_SIZE \<le> length bs
       \<and> unpack (take SIMTEMP_SAMPLE_SIZE bs) = Inr (t, m, f)"
proof -
  from assms obtain bs where r: "r = Data bs" "SIMTEMP_SAMPLE_SIZE \<le> length bs"
    by (cases r) auto
  then obtain t m f where "unpack (take SIMTEMP_SAMPLE_SIZE bs) = Inr (t, m, f)"
    using unpack_Inr_iff [of "take SIMTEMP_SAMPLE_SIZE bs"] by auto
  with r show thesis by (intro that [of t m f]) auto
qed

lemma length_full_lines: "list_all full c \<Longrightarrow> length (sample_lines c) = length c"
  by (induction c) (auto elim: full_line)

lemma stream_iteration_ready:
  assumes "fd \<in> set (open_fds w)" "polls w = Ready # ps" "reads w = r # rs" "full r" "n < k"
  shows "stream_iteration fd None (Some k) n w =
    (Inr (Continue (n + 1)),
     w\<lparr>polls := ps, poll_log := DEFAULT_POLL_TIMEOUT_MS # poll_log w, reads := rs,
       stdout := stdout w @ line_of r\<rparr>)"
  using assms(4)
proof (cases rule: full_line)
  case (1 t m f)
  then obtain bs where r: "r = Data bs" "SIMTEMP_SAMPLE_SIZE \<le> length bs"
    "unpack (take SIMTEMP_SAMPLE_SIZE bs) = Inr (t, m, f)" by blast
  with assms(5) 1(1) show ?thesis
    by (simp add: stream_iteration_apply stream_expired_apply
        poll_record_ready [OF assms(1,2) assms(3) [unfolded r(1)] r(2)])
qed

lemma stream_loop_count:
  assumes "fd \<in> set (open_fds w)" "polls w = replicate j Ready @ ps" "reads w = c @ rs"
    and "length c = j" "list_all full c"
  shows "stream_loop fd None (Some (n + int j)) n w =
    (Inr (),
     w\<lparr>polls := ps, poll_log := replicate j DEFAULT_POLL_TIMEOUT_MS @ poll_log w, reads := rs,
       stdout := stdout w @ sample_lines c\<rparr>)"
  using assms
proof (induction j arbitrary: n w c)
  case 0
  then have "stream_iteration fd None (Some n) n w = (Inr (Break ()), w)"
    by (simp add: stream_iteration_apply stream_expired_apply)
  with 0 show ?case by (simp add: stream_loop.simps [of fd None "Some n" n w])
next
  case (Suc j)
  define k where "k = n + int (Suc j)"
  from Suc.prems obtain x c' where c: "c = x # c'" "length c' = j" "full x" "list_all full c'"
    by (cases c) auto
  let ?w' = "w\<lparr>polls := replicate j Ready @ ps,
    poll_log := DEFAULT_POLL_TIMEOUT_MS # poll_log w, reads := c' @ rs,
    stdout := stdout w @ line_of x\<rparr>"
  have it: "stream_iteration fd None (Some k) n w = (Inr (Continue (n + 1)), ?w')"
    using Suc.prems c by (intro stream_iteration_ready) (simp_all add: k_def)
  have "stream_loop fd None (Some (n + 1 + int j)) (n + 1) ?w' =
    (Inr (),
     ?w'\<lparr>polls := ps, poll_log := replicate j DEFAULT_POLL_TIMEOUT_MS @ poll_log ?w', reads := rs,
       stdout := stdout ?w' @ sample_lines c'\<rparr>)"
    using Suc.prems(1) c by (intro Suc.IH) simp_all
  moreover have "n + 1 + int j = k" by (simp add: k_def)
  ultimately have "stream_loop fd None (Some k) n w =
    (Inr (),
     ?w'\<lparr>polls := ps, poll_log := replicate j DEFAULT_POLL_TIMEOUT_MS @ poll_log ?w', reads := rs,
       stdout := stdout ?w' @ sample_lines c'\<rparr>)"
    using it by (simp add: stream_loop.simps [of fd None "Some k" n w])
  then show ?case
    unfolding k_def [symmetric] by (simp add: c(1) replicate_app_Cons_same)
qed

section \<open>The sessions of the examples\<close>

lemmas stream_eval = stream_command_def stream_open_def stream_session_def stream_deadline_def
  stream_configure_def stream_loop.simps stream_iteration_def stream_expired_def
  stream_world_def plain_args_def count_world_def count_args_def count_records_def
  codec_defs to_signed_def

lemma stream_world_run:
  "stream_command plain_args stream_world =
     (Inr 0,
      stream_world\<lparr>polls := [], reads := [], poll_log := [1000, 1000, 1000, 1000], next_fd := 4,
        stdout := [SampleLine 1234567890 42000 1 2]\<rparr>)"
  by (simp add: stream_eval store_eval prog_simps env_defs)

lemma count_world_run:
  "stream_command count_args count_world =
     (Inr 0,
      count_world\<lparr>polls := [TimedOut],
        reads := [Data [2, 0, 0, 0, 0, 0, 0, 0, 0, 0, 0, 0, 0, 0, 0, 0]],
        poll_log := [1000, 1000], next_fd := 4,
        stdout := [SampleLine 1234567890 42000 1 2, SampleLine 1 (- 1) 0 0]\<rparr>)"
  by (simp add: stream_eval store_eval prog_simps env_defs)

lemma plain_init:
  "outcome (SimtempDevice_init (arg_sysfs_root plain_args) (arg_index plain_args)
      (arg_device plain_args)) stream_world = Inr tmp_device"
  "outcome (SimtempDevice_init (arg_sysfs_root count_args) (arg_index count_args)
      (arg_device count_args)) count_world = Inr tmp_device"
  by (simp_all add: stream_eval store_eval)

lemma plain_configure:
  "outcome (stream_configure plain_args tmp_device) stream_world = Inr ()"
  "outcome (stream_configure count_args tmp_device) count_world = Inr ()"
  by (simp_all add: stream_eval store_eval prog_simps)

section \<open>Properties of the streaming session\<close>

text \<open>
  Claim C3. With descriptors allocated freshly, \<^verbatim>\<open>stream_command\<close> takes a
  prefix of the reads the channel offers and prints exactly the lines of the
  full records in it, in order, after what was printed before: short reads
  and reads that would block print nothing. With \<^verbatim>\<open>--count k\<close> it never
  prints more than \<open>k\<close> lines. This holds on every path, exceptions and
  interrupts included.
\<close>

theorem stream_command_refines:
  assumes "fds_fresh w"
  shows "\<exists>c. consumed w (final (stream_command args) w) c
    \<and> stdout (final (stream_command args) w) = stdout w @ sample_lines c
    \<and> under_limit (arg_count args) (int (length (sample_lines c)))"
  using assms by (rule stream_command_prints)

theorem stream_command_refines_witness:
  "fds_fresh stream_world
   \<and> stdout (final (stream_command plain_args) stream_world) = [SampleLine 1234567890 42000 1 2]
   \<and> (\<exists>c. consumed stream_world (final (stream_command plain_args) stream_world) c
        \<and> stdout (final (stream_command plain_args) stream_world)
            = stdout stream_world @ sample_lines c
        \<and> under_limit (arg_count plain_args) (int (length (sample_lines c))))"
  using stream_command_refines [of stream_world plain_args]
  by (simp add: stream_world_run) (simp add: stream_world_def fds_fresh_def)

text \<open>
  Claim C7. With descriptors allocated freshly, \<^verbatim>\<open>stream_command\<close> leaves
  the set of open descriptors as it found it on every path: the channel is
  opened right before the \<^verbatim>\<open>try\<close> whose \<^verbatim>\<open>finally\<close> closes it, so
  neither an interrupt nor an error in the loop leaves it open.
\<close>

theorem stream_command_descriptor:
  assumes "fds_fresh w"
  shows "open_fds (final (stream_command args) w) = open_fds w"
  using assms by (cases rule: stream_command_final [where args = args]) simp_all

theorem stream_command_descriptor_witness:
  "fds_fresh stream_world
   \<and> next_fd (final (stream_command plain_args) stream_world) = 4
   \<and> open_fds (final (stream_command plain_args) stream_world) = open_fds stream_world"
  using stream_command_descriptor [of stream_world plain_args]
  by (simp add: stream_world_run) (simp add: stream_world_def fds_fresh_def)

text \<open>
  Claim C11. With a count given, no deadline, and as many full records ready on
  the channel as the count asks for, \<^verbatim>\<open>stream_command\<close> ends by itself: it
  returns 0 after exactly that many polls, having printed one line per record
  and having left the rest of the channel unread.
\<close>

theorem stream_command_count:
  assumes "fds_fresh w"
    and "outcome (SimtempDevice_init (arg_sysfs_root args) (arg_index args) (arg_device args)) w
      = Inr dev"
    and "outcome (stream_configure args dev) w = Inr ()"
    and "path_exists (char_device dev) w"
    and "arg_duration args = None" "arg_count args = Some (int (length c))"
    and "polls w = replicate (length c) Ready @ ps" "reads w = c @ rs" "list_all full c"
  shows "stream_command args w =
    (Inr 0,
     (final (stream_configure args dev) w)
       \<lparr>polls := ps, poll_log := replicate (length c) DEFAULT_POLL_TIMEOUT_MS @ poll_log w,
        reads := rs, next_fd := Suc (next_fd w), stdout := stdout w @ sample_lines c\<rparr>)"
proof -
  let ?v = "final (stream_configure args dev) w"
  have env: "same_env w ?v"
    using same_env_stream_configure [of w args dev] by (simp add: preserves_def)
  have p: "path_exists (char_device dev) ?v"
    using path_exists_stream_configure [of "char_device dev" args dev] assms(4)
    by (simp add: preserves_def)
  have o: "open_fds (opened ?v) = next_fd w # open_fds w" "next_fd w \<notin> set (open_fds w)"
    using env fresh_not_open [OF assms(1)] by (simp_all add: opened_def same_env_def)
  let ?end = "(opened ?v)\<lparr>polls := ps,
    poll_log := replicate (length c) DEFAULT_POLL_TIMEOUT_MS @ poll_log (opened ?v),
    reads := rs, stdout := stdout (opened ?v) @ sample_lines c\<rparr>"
  have "stream_loop (next_fd w) None (Some (0 + int (length c))) 0 (opened ?v) = (Inr (), ?end)"
    using assms(7-9) env by (intro stream_loop_count) (simp_all add: opened_def same_env_def)
  then have "stream_session (next_fd w) None (Some (int (length c))) (opened ?v)
      = (Inr (), ?end\<lparr>open_fds := open_fds w\<rparr>)"
    by (simp add: stream_session_run [OF o])
  moreover have "stream_command args w
      = seq (stream_session (next_fd w) None (Some (int (length c)))) (ret 0) (opened ?v)"
    using env p
    by (simp add: stream_command_configured [OF assms(2,3)] stream_open_apply assms(5,6)
        stream_deadline_apply same_env_def)
  ultimately show ?thesis
    using env by (simp add: seq_apply ret_apply opened_def same_env_def)
qed

theorem stream_command_count_witness:
  "fds_fresh count_world \<and> path_exists (char_device tmp_device) count_world
   \<and> list_all full count_records
   \<and> outcome (stream_command count_args) count_world = Inr 0
   \<and> stdout (final (stream_command count_args) count_world)
       = [SampleLine 1234567890 42000 1 2, SampleLine 1 (- 1) 0 0]
   \<and> polls (final (stream_command count_args) count_world) = [TimedOut]"
  using stream_command_count [of count_world count_args tmp_device count_records "[TimedOut]"
      "[Data [2, 0, 0, 0, 0, 0, 0, 0, 0, 0, 0, 0, 0, 0, 0, 0]]"]
  by (simp add: plain_init plain_configure)
    (simp add: stream_eval store_eval fds_fresh_def sample_lines_def)

text \<open>
  Claim C13. If the only exceptions the channel and the clock can raise are
  the operator's interrupt and reads that would block, then a session that
  has selected its device, applied its overrides and found the character
  device returns 0: the interrupt is swallowed and nothing else can go wrong.
  A deadline needs one reading of the clock before the loop.
\<close>

theorem stream_command_returns:
  assumes "fds_fresh w" "benign w"
    and "outcome (SimtempDevice_init (arg_sysfs_root args) (arg_index args) (arg_device args)) w
      = Inr dev"
    and "outcome (stream_configure args dev) w = Inr ()"
    and "path_exists (char_device dev) w"
    and "arg_duration args = None \<or> arg_duration args = Some 0 \<or> clock w \<noteq> []"
  shows "outcome (stream_command args) w = Inr 0"
proof -
  let ?v = "final (stream_configure args dev) w"
  have env: "same_env w ?v"
    using same_env_stream_configure [of w args dev] by (simp add: preserves_def)
  have p: "path_exists (char_device dev) ?v"
    using path_exists_stream_configure [of "char_device dev" args dev] assms(5)
    by (simp add: preserves_def)
  define v2 where "v2 = final (stream_deadline (arg_duration args)) ?v"
  have "\<exists>dl. outcome (stream_deadline (arg_duration args)) ?v = Inr dl"
    and v2: "polls v2 = polls w" "reads v2 = reads w" "open_fds v2 = open_fds w"
      "next_fd v2 = next_fd w" "tree v2 = tree ?v"
    using assms(6) env unfolding v2_def
    by (auto simp: stream_deadline_apply same_env_def split: list.splits)
  then obtain dl where d: "stream_deadline (arg_duration args) ?v = (Inr dl, v2)"
    by (auto simp: v2_def prod_eq_iff)
  have "benign (opened v2)" "open_fds (opened v2) = next_fd v2 # open_fds w"
    "next_fd v2 \<notin> set (open_fds w)"
    using assms(1,2) v2 fresh_not_open [OF assms(1)] by (simp_all add: benign_def opened_def)
  then have "outcome (stream_session (next_fd v2) dl (arg_count args)) (opened v2) = Inr ()"
    by (rule stream_session_benign)
  moreover have "path_exists (char_device dev) v2"
    using p v2(5) by (simp add: path_exists_def)
  ultimately show ?thesis
    by (simp add: stream_command_configured [OF assms(3,4)] stream_open_apply d seq_returns
        ret_apply)
qed

theorem stream_command_returns_witness:
  "fds_fresh stream_world \<and> benign stream_world
   \<and> path_exists (char_device tmp_device) stream_world
   \<and> outcome (stream_command plain_args) stream_world = Inr 0"
  using stream_command_returns [of stream_world plain_args tmp_device]
  by (simp add: plain_init plain_configure)
    (simp add: stream_eval store_eval fds_fresh_def benign_def)

text \<open>
  Claim C31. Every poll of \<^verbatim>\<open>stream_command\<close> is made with the default
  timeout of one second, the session removes nothing from the log of earlier
  polls, and each poll consumes one answer of the channel: the session makes at
  most as many passes that poll as the channel has answers.
\<close>

theorem stream_command_polls:
  assumes "fds_fresh w"
  shows "stream_polled w (final (stream_command args) w)"
  using assms
proof (cases rule: stream_command_final [where args = args])
  case early
  then show ?thesis by (simp add: at_loop_def stream_polled_def)
next
  case (run dl w1)
  from stream_polled_loop [of w1 "next_fd w" dl "arg_count args" 0] run(1,3) show ?thesis
    by (simp add: at_loop_def stream_polled_def)
qed

theorem stream_command_polls_witness:
  "fds_fresh count_world
   \<and> poll_log (final (stream_command count_args) count_world) = [1000, 1000]
   \<and> stream_polled count_world (final (stream_command count_args) count_world)"
  using stream_command_polls [of count_world count_args]
  by (simp add: count_world_run) (simp add: stream_eval fds_fresh_def)

text \<open>
  Claim C20. A duration of zero is no duration: \<^verbatim>\<open>stream --duration 0\<close> is the
  same session as \<^verbatim>\<open>stream\<close> without the option, because the code tests the
  truth value of the duration and not whether one was given. It does not stop
  at once; it runs until the count is reached or the operator interrupts.
\<close>

theorem stream_duration_zero:
  assumes "arg_duration args = Some 0"
  shows "stream_command args = stream_command (args\<lparr>arg_duration := None\<rparr>)"
  using assms by (simp add: stream_command_def stream_open_def stream_deadline_def
      stream_configure_def)

theorem stream_duration_zero_witness:
  "stream_command (plain_args\<lparr>arg_duration := Some 0\<rparr>) stream_world
     = (Inr 0,
        stream_world\<lparr>polls := [], reads := [], poll_log := [1000, 1000, 1000, 1000],
          next_fd := 4, stdout := [SampleLine 1234567890 42000 1 2]\<rparr>)"
  using stream_duration_zero [of "plain_args\<lparr>arg_duration := Some 0\<rparr>"]
  by (simp add: stream_world_run [symmetric]) (simp add: plain_args_def)

text \<open>
  Claim C32. Without a count and without a deadline the loop of
  \<^verbatim>\<open>stream_command\<close> never ends by itself: whatever the channel delivers,
  the loop does not return; it ends only by an exception or the operator's
  interrupt.
\<close>

theorem stream_unbounded: "outcome (stream_loop fd None None n) w \<noteq> Inr ()"
  using stream_loop_lines [of w fd None None n] by auto

theorem stream_unbounded_witness:
  "outcome (stream_loop 3 None None 0) (opened stream_world) = Inl KeyboardInterrupt"
  using stream_unbounded [of 3 0 "opened stream_world"]
  by (simp add: stream_eval opened_def prog_simps env_defs)

end
