(* ===== verification/Cli_Main.thy ===== *)
theory Cli_Main
  imports Self_Test Stream_Session
begin

text \<open>
  The entry point, \<^verbatim>\<open>main\<close>: parse the command line, call the function
  the parser selected, and turn what it raises into an exit status. A missing
  file, a refused access and an index out of range go to
  \<^verbatim>\<open>parser.error\<close>, which writes a usage error and exits with status 2;
  any other \<^verbatim>\<open>OSError\<close> is written as an error and gives status 1; every
  other exception leaves \<^verbatim>\<open>main\<close>.

  The function the parser selects is \<^verbatim>\<open>test_command\<close> for \<^verbatim>\<open>test\<close>
  and \<^verbatim>\<open>stream_command\<close> for \<^verbatim>\<open>stream\<close> and, by
  \<^verbatim>\<open>parser.set_defaults\<close>, for a command line without a subcommand. In the
  last case the namespace has the shared options only, so
  \<^verbatim>\<open>stream_command\<close> selects the device and then fails at its first use
  of an option of \<^verbatim>\<open>stream\<close> with \<^verbatim>\<open>AttributeError\<close>.
\<close>

section \<open>The entry point\<close>

definition run_command :: "namespace \<Rightarrow> (int, world) prog" where
  "run_command args =
     (case args of
        TestNs a \<Rightarrow> test_command a
      | StreamNs a \<Rightarrow> stream_command a
      | NoCommand c \<Rightarrow>
          bind (SimtempDevice_init (arg_sysfs_root c) (arg_index c) (arg_device c))
            (\<lambda>device. throw AttributeError))"

definition parser_error :: "exn \<Rightarrow> ('a, world) prog" where
  "parser_error e = seq (print_err (UsageError e)) (throw (SystemExit 2))"

definition usage_exn :: "exn \<Rightarrow> bool" where
  "usage_exn e \<longleftrightarrow> e = FileNotFoundError \<or> e = PermissionError \<or> e = IndexError"

definition main :: "(string \<Rightarrow> exn + real) \<Rightarrow> command_line \<Rightarrow> (int, world) prog" where
  "main fl argv =
     bind (lift (parse_args fl argv)) (\<lambda>args.
       try_except (run_command args) (\<lambda>e. usage_exn e \<or> is_OSError e)
         (\<lambda>e. if usage_exn e then parser_error e
               else seq (print_err (RuntimeError e)) (ret 1)))"

definition run_script :: "(string \<Rightarrow> exn + real) \<Rightarrow> command_line \<Rightarrow> (unit, world) prog" where
  "run_script fl argv = bind (main fl argv) (\<lambda>status. throw (SystemExit status))"

section \<open>What the entry point promises\<close>

text \<open>The shared options of a namespace and the device they select.\<close>

fun cli_of :: "namespace \<Rightarrow> cli_args" where
  "cli_of (NoCommand c) = c"
| "cli_of (StreamNs a) = cli_args.truncate a"
| "cli_of (TestNs a) = cli_args.truncate a"

definition device_of :: "namespace \<Rightarrow> (SimtempDevice, world) prog" where
  "device_of ns =
     SimtempDevice_init (arg_sysfs_root (cli_of ns)) (arg_index (cli_of ns))
       (arg_device (cli_of ns))"

section \<open>Command lines of the examples\<close>

text \<open>
  \<^verbatim>\<open>--sysfs-root /tmp\<close> without a subcommand,
  \<^verbatim>\<open>--sysfs-root /tmp test --sampling-us 500 --max-periods 1\<close>, and
  \<^verbatim>\<open>--sysfs-root /tmp stream --count 2\<close>.
\<close>

definition bare_line :: command_line where
  "bare_line = ([OptSysfsRoot [''/'', ''tmp'']], None, [])"

definition readonly_line :: command_line where
  "readonly_line =
     ([OptSysfsRoot [''/'', ''tmp'']], Some ''test'', [OptSamplingUs ''500'', OptMaxPeriods ''1''])"

definition count_line :: command_line where
  "count_line = ([OptSysfsRoot [''/'', ''tmp'']], Some ''stream'', [OptCount ''2''])"

section \<open>The handlers\<close>

lemma main_apply:
  assumes "parse_args fl argv = Inr ns"
  shows "main fl argv w =
    (case run_command ns w of
       (Inr s, w') \<Rightarrow> (Inr s, w')
     | (Inl e, w') \<Rightarrow>
         if usage_exn e then (Inl (SystemExit 2), w'\<lparr>stderr := stderr w' @ [UsageError e]\<rparr>)
         else if is_OSError e then (Inr 1, w'\<lparr>stderr := stderr w' @ [RuntimeError e]\<rparr>)
         else (Inl e, w'))"
  using assms
  by (simp add: main_def parser_error_def print_err_def prog_simps
      split: prod.splits sum.splits)

lemma main_returns:
  assumes "parse_args fl argv = Inr ns" and "outcome (run_command ns) w = Inr s"
  shows "main fl argv w = (Inr s, final (run_command ns) w)"
  using assms(2) by (cases "run_command ns w") (simp add: main_apply [OF assms(1)])

lemma main_rejected: "parse_args fl argv = Inl e \<Longrightarrow> main fl argv w = (Inl e, w)"
  by (simp add: main_def prog_simps)

lemma device_of_simps [simp]:
  "device_of (NoCommand c) = SimtempDevice_init (arg_sysfs_root c) (arg_index c) (arg_device c)"
  "device_of (StreamNs a) = SimtempDevice_init (arg_sysfs_root a) (arg_index a) (arg_device a)"
  "device_of (TestNs b) = SimtempDevice_init (arg_sysfs_root b) (arg_index b) (arg_device b)"
  by (simp_all add: device_of_def cli_args.truncate_def)

lemma init_raises:
  assumes "outcome (SimtempDevice_init base i d) w = Inl e"
  shows "usage_exn e"
  using assms by (auto simp: SimtempDevice_init_def Let_def usage_exn_def split: if_splits)

lemma run_command_no_device:
  assumes "outcome (device_of ns) w = Inl e"
  shows "run_command ns w = (Inl e, w)"
  using assms
  by (cases ns) (simp_all add: run_command_def test_command_def stream_command_def bind_raises)

lemma run_command_status:
  assumes "outcome (run_command ns) w = Inr rc"
  shows "rc = 0 \<or> rc = 1"
  using assms
  by (cases ns)
    (auto simp: run_command_def bind_apply throw_apply dest: test_command_status
      stream_command_status split: prod.splits sum.splits)

lemma run_script_apply:
  "run_script fl argv w =
     (case main fl argv w of (Inl e, w') \<Rightarrow> (Inl e, w') | (Inr s, w') \<Rightarrow> (Inl (SystemExit s), w'))"
  by (simp add: run_script_def prog_simps split: prod.splits sum.splits)

section \<open>The example command lines\<close>

lemma example_lines:
  "parse_args no_float test_line = Inr (TestNs session_args)"
  "parse_args no_float bare_line
     = Inr (NoCommand \<lparr>arg_sysfs_root = [''/'', ''tmp''], arg_device = None, arg_index = 0\<rparr>)"
  "parse_args no_float count_line = Inr (StreamNs count_args)"
  "parse_args no_float readonly_line = Inr (TestNs readonly_args)"
  "parse_args no_float ([], Some ''test'', []) = Inr (TestNs (default_test default_cli))"
  by (simp_all add: test_line_def bare_line_def count_line_def readonly_line_def args_defs
      text_eval session_args_def readonly_args_def count_args_def plain_args_def)

section \<open>Properties of the entry point\<close>

text \<open>
  Claim C6. For a command line the parser accepts, \<^verbatim>\<open>main\<close> returns 0 or
  1 and nothing else, and no \<^verbatim>\<open>OSError\<close> and no \<^verbatim>\<open>IndexError\<close>
  leaves it: those are turned into exit status 2 or into the return value 1.
  What can still leave \<^verbatim>\<open>main\<close> are the exit of \<^verbatim>\<open>parser.error\<close>
  and exceptions outside the two handlers, such as \<^verbatim>\<open>ValueError\<close> of an
  attribute that does not hold a number.
\<close>

theorem main_exit_status:
  assumes "parse_args fl argv = Inr ns"
  shows "case outcome (main fl argv) w of
           Inr s \<Rightarrow> s = 0 \<or> s = 1
         | Inl e \<Rightarrow> \<not> is_OSError e \<and> e \<noteq> IndexError"
  using run_command_status [of ns w]
  by (cases "run_command ns w")
    (auto simp: main_apply [OF assms] usage_exn_def split: sum.splits)

theorem main_exit_status_witness:
  "parse_args no_float test_line = Inr (TestNs session_args)
   \<and> outcome (main no_float test_line) session_world = Inr 0"
  using main_exit_status [of no_float test_line "TestNs session_args" session_world]
  by (simp add: example_lines run_command_def session_run
      main_returns [of no_float test_line "TestNs session_args" session_world 0])

text \<open>
  Claim C14. When the device cannot be selected, because the sysfs root does
  not exist, holds no simtemp directory, or has fewer of them than the index
  asks for, \<^verbatim>\<open>main\<close> ends with exit status 2 and one usage error naming
  the reason, whichever subcommand was given, and has touched nothing else:
  no attribute is written and the channel is not opened.
\<close>

theorem main_no_device:
  assumes "parse_args fl argv = Inr ns" and "outcome (device_of ns) w = Inl e"
  shows "main fl argv w = (Inl (SystemExit 2), w\<lparr>stderr := stderr w @ [UsageError e]\<rparr>)"
proof -
  from assms(2) have "usage_exn e"
    unfolding device_of_def by (rule init_raises)
  then show ?thesis
    by (simp add: main_apply [OF assms(1)] run_command_no_device [OF assms(2)])
qed

theorem main_no_device_witness:
  "outcome (device_of (TestNs (default_test default_cli))) session_world = Inl FileNotFoundError
   \<and> main no_float ([], Some ''test'', []) session_world
       = (Inl (SystemExit 2), session_world\<lparr>stderr := [UsageError FileNotFoundError]\<rparr>)"
  using main_no_device [of no_float "([], Some ''test'', [])" "TestNs (default_test default_cli)"
      session_world FileNotFoundError]
  by (simp add: example_lines)
    (simp add: args_defs session_world_def store_eval DEFAULT_SYSFS_ROOT_def)

text \<open>
  Claim C15. A command line without a subcommand does not stream: if a device
  can be selected, \<^verbatim>\<open>main\<close> raises \<^verbatim>\<open>AttributeError\<close>, which no
  handler catches, before it has written an attribute, opened the channel or
  printed a line. The parser makes \<^verbatim>\<open>stream_command\<close> the default
  function, but the options \<^verbatim>\<open>stream_command\<close> reads exist only in the
  namespace of the subcommand.
\<close>

theorem main_no_subcommand:
  assumes "apply_opts set_global globals default_cli = Inr c"
    and "outcome (SimtempDevice_init (arg_sysfs_root c) (arg_index c) (arg_device c)) w = Inr dev"
  shows "main fl (globals, None, []) w = (Inl AttributeError, w)"
proof -
  have "parse_args fl (globals, None, []) = Inr (NoCommand c)"
    using assms(1) by (simp add: parse_args_def)
  then show ?thesis
    using assms(2)
    by (simp add: main_apply run_command_def bind_returns throw_apply usage_exn_def)
qed

theorem main_no_subcommand_witness:
  "outcome (SimtempDevice_init [''/'', ''tmp''] 0 None) session_world = Inr tmp_device
   \<and> main no_float bare_line session_world = (Inl AttributeError, session_world)"
  using main_no_subcommand [of "[OptSysfsRoot [''/'', ''tmp'']]"
      "\<lparr>arg_sysfs_root = [''/'', ''tmp''], arg_device = None, arg_index = 0\<rparr>" session_world
      tmp_device no_float]
  by (simp add: bare_line_def args_defs) (simp add: session_world_def store_eval)

text \<open>
  Claim C21. A self-test on a device whose threshold attribute is read-only
  ends \<^verbatim>\<open>main\<close> with exit status 2 and a usage error naming
  \<^verbatim>\<open>PermissionError\<close>: the first handler of \<^verbatim>\<open>main\<close> sends a
  refused access to \<^verbatim>\<open>parser.error\<close>, the path of a wrong command
  line, and not to the handler that reports a runtime failure with status 1.
\<close>

theorem main_permission_denied:
  assumes "parse_args fl argv = Inr (TestNs a)"
    and "outcome (SimtempDevice_init (arg_sysfs_root a) (arg_index a) (arg_device a)) w = Inr dev"
    and "outcome (snapshot dev) w = Inr orig"
    and "files w (attr_path dev ''threshold_mC'') = Some (File False c)"
  shows "outcome (main fl argv) w = Inl (SystemExit 2)
    \<and> stderr (final (main fl argv) w) = stderr w @ [UsageError PermissionError]"
proof -
  from test_command_readonly [OF assms(2-4)]
  have "outcome (test_command a) w = Inl PermissionError"
    "stderr (final (test_command a) w) = stderr w"
    by (simp_all add: same_env_def)
  then show ?thesis
    by (cases "test_command a w")
      (simp add: main_apply [OF assms(1)] run_command_def usage_exn_def)
qed

theorem main_permission_denied_witness:
  "parse_args no_float readonly_line = Inr (TestNs readonly_args)
   \<and> outcome (snapshot tmp_device) readonly_world = Inr session_config
   \<and> outcome (main no_float readonly_line) readonly_world = Inl (SystemExit 2)
   \<and> stderr (final (main no_float readonly_line) readonly_world)
       = [UsageError PermissionError]"
  using main_permission_denied [of no_float readonly_line readonly_args readonly_world tmp_device
      session_config "''45000'' @ [CHR 0x0A]"]
  by (simp add: example_lines session_init session_snapshot)
    (simp add: readonly_world_def session_world_def files_def attr_path_def tmp_device_def)

text \<open>
  Claim C22. From the command line to the output: \<^verbatim>\<open>stream --count k\<close>
  prints at most \<open>k\<close> lines, each the line of a full record the channel
  delivered, in order, on every path through \<^verbatim>\<open>main\<close>. The parser
  guarantees that \<open>k\<close> is positive and the session that the count is kept.
\<close>

theorem main_stream_count:
  assumes "parse_args fl argv = Inr (StreamNs a)" "arg_count a = Some k" "fds_fresh w"
  shows "\<exists>c. consumed w (final (main fl argv) w) c
    \<and> stdout (final (main fl argv) w) = stdout w @ sample_lines c
    \<and> length (sample_lines c) \<le> nat k"
proof -
  from assms(1) have "valid_namespace (StreamNs a)"
    by (rule parse_args_well_formed)
  with assms(2) have k: "0 < k"
    by (simp add: valid_defs)
  from stream_command_prints [OF assms(3), of a] obtain c
    where c: "consumed w (final (stream_command a) w) c"
      "stdout (final (stream_command a) w) = stdout w @ sample_lines c"
      "under_limit (Some k) (int (length (sample_lines c)))"
    by (auto simp: assms(2))
  have "reads (final (main fl argv) w) = reads (final (stream_command a) w)"
    "stdout (final (main fl argv) w) = stdout (final (stream_command a) w)"
    by (simp_all add: main_apply [OF assms(1)] run_command_def split: prod.splits sum.splits)
  with c k show ?thesis
    by (intro exI [of _ c]) (simp add: consumed_def under_limit_def)
qed

theorem main_stream_count_witness:
  "parse_args no_float count_line = Inr (StreamNs count_args) \<and> fds_fresh count_world
   \<and> stdout (final (main no_float count_line) count_world)
       = [SampleLine 1234567890 42000 1 2, SampleLine 1 (- 1) 0 0]
   \<and> (\<exists>c. consumed count_world (final (main no_float count_line) count_world) c
        \<and> stdout (final (main no_float count_line) count_world)
            = stdout count_world @ sample_lines c
        \<and> length (sample_lines c) \<le> nat 2)"
  using main_stream_count [of no_float count_line count_args 2 count_world]
  by (simp add: example_lines main_apply run_command_def count_world_run)
    (simp add: stream_eval fds_fresh_def)

end
