(* ===== verification/Loop_Steps.thy ===== *)
theory Loop_Steps
  imports Stream_Session
begin

text \<open>
  The two loops as transition systems. A configuration is the running sample
  count and the world; a loop body that ends in \<open>Continue\<close> is one step, and
  a loop halts in a configuration whose pass ends in \<open>Break\<close> or in an
  exception. \<open>steps\<close> is the reflexive and transitive closure of the step,
  \<open>runs\<close> a sequence of steps followed by a halt.

  The functions \<open>wait_loop\<close> and \<open>stream_loop\<close> are the deterministic
  evaluators of this relation. Properties of every configuration a loop
  reaches, and not only of its result, are proved by induction over \<open>steps\<close>.
\<close>

section \<open>Steps and runs\<close>

inductive steps :: "(int \<Rightarrow> ('a loop_step, 's) prog) \<Rightarrow> int \<times> 's \<Rightarrow> int \<times> 's \<Rightarrow> bool"
  for body :: "int \<Rightarrow> ('a loop_step, 's) prog" where
  steps_refl: "steps body c c"
| steps_step: "body n s = (Inr (Continue k), s') \<Longrightarrow> steps body (k, s') c \<Longrightarrow> steps body (n, s) c"

code_pred steps .




declare steps_refl [simp, intro]

section \<open>The closure\<close>



text \<open>An invariant of the step holds in every configuration the loop reaches.\<close>

lemma steps_invariant:
  assumes "steps body a b" and "I (fst a) (snd a)"
    and "\<And>n s k s'. I n s \<Longrightarrow> body n s = (Inr (Continue k), s') \<Longrightarrow> I k s'"
  shows "I (fst b) (snd b)"
  using assms(1,2) by (induction rule: steps.induct) (auto dest: assms(3))








section \<open>The loops evaluate the relation\<close>




section \<open>What holds in every configuration a loop reaches\<close>

lemma wait_steps_scan:
  assumes "steps (wait_iteration fd dl) (n, w) (k, w')"
  shows "\<exists>c. consumed w w' c \<and> scan_reads n c = Searching k"
proof -
  let ?I = "\<lambda>k v. \<exists>c. consumed w v c \<and> scan_reads n c = Searching k"
  have "?I (fst (k, w')) (snd (k, w'))"
  proof (rule steps_invariant [OF assms, where I = ?I])
    show "?I (fst (n, w)) (snd (n, w))"
      by (intro exI [of _ "[]"]) (simp add: consumed_def)
  next
    fix j v j' v'
    assume "?I j v" and it: "wait_iteration fd dl j v = (Inr (Continue j'), v')"
    then obtain c where c: "consumed w v c" "scan_reads n c = Searching j" by blast
    from wait_iteration_scan [OF it] obtain d where "consumed v v' d"
      "scan_reads j d = Searching j'" by auto
    with c show "?I j' v'"
      by (intro exI [of _ "c @ d"]) (simp add: consumed_def scan_reads_append)
  qed
  then show ?thesis by simp
qed

lemma stream_steps_lines:
  assumes "steps (stream_iteration fd dl cl) (n, w) (k, w')"
  shows "\<exists>c. consumed w w' c \<and> stdout w' = stdout w @ sample_lines c
    \<and> k = n + int (length (sample_lines c))"
proof -
  let ?I = "\<lambda>k v. \<exists>c. consumed w v c \<and> stdout v = stdout w @ sample_lines c
    \<and> k = n + int (length (sample_lines c))"
  have "?I (fst (k, w')) (snd (k, w'))"
  proof (rule steps_invariant [OF assms, where I = ?I])
    show "?I (fst (n, w)) (snd (n, w))"
      by (intro exI [of _ "[]"]) (simp add: consumed_def)
  next
    fix j v j' v'
    assume "?I j v" and it: "stream_iteration fd dl cl j v = (Inr (Continue j'), v')"
    then obtain c where c: "consumed w v c" "stdout v = stdout w @ sample_lines c"
      "j = n + int (length (sample_lines c))" by blast
    from stream_iteration_lines [OF it] c show "?I j' v'"
      by (intro exI [of _ "c @ taken v v'"]) (simp add: consumed_def)
  qed
  then show ?thesis by simp
qed

section \<open>Properties of the loops as transition systems\<close>



text \<open>
  Claim C40. In every configuration the loop of \<^verbatim>\<open>stream_command\<close>
  reaches, and not only when it ends, the sample counter is its start value
  plus the number of lines printed so far, the lines printed are those of the
  full records among the reads consumed so far, and nothing else was printed.
\<close>

theorem stream_steps_count:
  assumes "steps (stream_iteration fd dl cl) (0, w) (k, w')"
  shows "\<exists>c. consumed w w' c \<and> stdout w' = stdout w @ sample_lines c
    \<and> k = int (length (sample_lines c))"
  using stream_steps_lines [OF assms] by simp

theorem stream_steps_count_witness:
  "steps (stream_iteration 3 None (Some 2)) (0, opened count_world)
     (1, (opened count_world)\<lparr>polls := [Ready, TimedOut], reads := tl (reads count_world),
        poll_log := [1000], stdout := [SampleLine 1234567890 42000 1 2]\<rparr>)
   \<and> (\<exists>c. consumed (opened count_world)
          ((opened count_world)\<lparr>polls := [Ready, TimedOut], reads := tl (reads count_world),
             poll_log := [1000], stdout := [SampleLine 1234567890 42000 1 2]\<rparr>) c
        \<and> [SampleLine 1234567890 42000 1 2] = stdout (opened count_world) @ sample_lines c
        \<and> (1::int) = int (length (sample_lines c)))"
proof -
  let ?w1 = "(opened count_world)\<lparr>polls := [Ready, TimedOut], reads := tl (reads count_world),
    poll_log := [1000], stdout := [SampleLine 1234567890 42000 1 2]\<rparr>"
  have "stream_iteration 3 None (Some 2) 0 (opened count_world) = (Inr (Continue 1), ?w1)"
    by (simp add: stream_eval opened_def prog_simps env_defs)
  then have s: "steps (stream_iteration 3 None (Some 2)) (0, opened count_world) (1, ?w1)"
    by (rule steps_step) (rule steps_refl)
  from stream_steps_count [OF s] s show ?thesis by simp
qed

end
