(* ===== verification/Spec2Isabelle.thy ===== *)
theory Spec2Isabelle
  imports Cli_Main Loop_Steps
begin

text \<open>
  \<^bold>\<open>A verification development for the nxp\_simtemp command line tool.\<close>

  The program (\<^verbatim>\<open>src/user/cli/main.py\<close>) configures a simulated
  temperature sensor through text attributes in a sysfs directory and reads
  binary sample records from a character device. It has two sessions:
  \<^verbatim>\<open>stream_command\<close> prints samples until a bound or an interrupt, and
  \<^verbatim>\<open>test_command\<close> lowers the alert threshold, waits for an alert within a
  deadline and restores the configuration it found. Both select a device
  through \<^verbatim>\<open>SimtempDevice\<close>, write attributes, open the character device
  and run a loop of \<^verbatim>\<open>poll\<close>, \<^verbatim>\<open>os.read\<close> and
  \<^verbatim>\<open>struct.unpack\<close>; \<^verbatim>\<open>main\<close> parses the command line and maps
  exceptions to exit statuses.

  \<^bold>\<open>How the program is modelled.\<close> Python integers are \<open>int\<close>, strings are
  \<open>string\<close>, \<^verbatim>\<open>pathlib\<close> paths are lists of path components. A
  fragment of the program is a function from a state to an outcome and a new
  state, \<open>('a, 's) prog\<close>; the outcome is \<open>Inl e\<close> for a raised exception \<open>e\<close>
  of the datatype \<open>exn\<close> and \<open>Inr x\<close> for a returned value. The state is kept on
  the exceptional path, so that what a fragment wrote before it raised is
  visible to the \<^verbatim>\<open>finally\<close> clause that follows. Early
  \<^verbatim>\<open>return\<close>, \<^verbatim>\<open>continue\<close> and \<^verbatim>\<open>break\<close> are values (\<open>loop_step\<close>).

  \<^bold>\<open>Theories, in the order of their imports.\<close>
  \<^item> \<open>Simtemp_Prelude\<close>: the exceptions (\<open>exn\<close>, with \<open>SystemExit\<close> carrying
    the exit status, and \<open>is_OSError\<close>), the
    combinators \<open>ret\<close>, \<open>throw\<close>, \<open>lift\<close>, \<open>bind\<close>, \<open>seq\<close>, \<open>when_some\<close>,
    \<open>when_true\<close>, \<open>try_except\<close>, \<open>try_finally\<close> with their laws, the predicate
    \<open>preserves\<close> with one rule per combinator (\<open>preserves_intros\<close>), and the
    fact collections \<open>prog_simps\<close>, \<open>codec_defs\<close>, \<open>store_defs\<close>, \<open>env_defs\<close>.
  \<^item> \<open>Sample_Codec\<close>: the record layout \<^verbatim>\<open>struct.Struct("<QiI")\<close>
    (\<open>unpack\<close>, \<open>pack\<close>, \<open>le_bytes\<close>, \<open>le_value\<close>, \<open>to_signed\<close>,
    \<open>SIMTEMP_SAMPLE_SIZE\<close>) and the alert flag (\<open>SIMTEMP_FLAG_ALERT\<close>,
    \<open>alert_set\<close>, \<open>alert_bit\<close>). Lemmas: both round trips, the ranges of the
    fields, the agreement of the arithmetic decoding with 64 and 32 bit
    machine words (\<open>word_rcat\<close>, \<open>uint\<close>, \<open>sint\<close>), the alert bit.
  \<^item> \<open>Py_Text\<close>: \<^verbatim>\<open>str\<close> of an integer (\<open>py_str\<close>), \<^verbatim>\<open>str.strip\<close>
    (\<open>strip\<close>) and \<^verbatim>\<open>int\<close> of a string (\<open>py_int\<close>, with sign, underscores
    and \<^verbatim>\<open>ValueError\<close>). Lemmas: \<open>strip\<close> is idempotent and removes the
    newline a write appended; \<open>py_int\<close> inverts \<open>py_str\<close>.
  \<^item> \<open>Sysfs_Store\<close>: the file tree (\<open>sysfs\<close>, an association list from paths to
    \<open>node\<close>s, and what a write to a missing file does), \<^verbatim>\<open>Path.read_text\<close>
    and \<^verbatim>\<open>Path.write_text\<close>, the class \<^verbatim>\<open>SimtempDevice\<close>
    (\<open>SimtempDevice_init\<close> with \<open>discover\<close>, \<open>attr_path\<close>, \<open>read_int\<close>,
    \<open>read_str\<close>, \<open>write_attr\<close> for the method \<^verbatim>\<open>write\<close>, \<open>snapshot\<close>) and
    \<open>write_sampling\<close>. The abstract store is the map \<open>files\<close> with the write
    \<open>abs_write\<close>. Lemmas: the writes refine \<open>abs_write\<close> and keep the tree
    well formed; a written integer is read back; the unit fallback of
    \<open>write_sampling\<close> and of \<open>snapshot\<close> and when it does not fire; device
    selection is sorted, independent of creation order, and raises
    \<^verbatim>\<open>IndexError\<close> exactly out of range.
  \<^item> \<open>Poll_Env\<close>: the \<open>world\<close>, the file tree extended with the environment of
    the loops, and the system calls on it: \<open>monotonic\<close>, \<open>os_open\<close>,
    \<open>os_close\<close>, \<open>poller_poll\<close>, \<open>os_read\<close>, \<open>print_line\<close> for the standard
    output and \<open>print_err\<close> for the standard error. \<open>poll_record\<close> is the step
    the two loops have in common (spec section 4.3): poll, read without
    blocking, skip a short read, decode. Lemmas: the frame of each call
    (\<open>only_env\<close>, \<open>same_env\<close>, \<open>unread\<close>), descriptors stay fresh, what
    \<open>poll_record\<close> consumes and returns (\<open>poll_record_consumed\<close>,
    \<open>poll_record_frame\<close>, \<open>poll_record_result\<close>).
  \<^item> \<open>Wait_Alert\<close>: \<^verbatim>\<open>wait_for_alert\<close>: one pass of the loop body
    (\<open>wait_iteration\<close>), the loop (\<open>wait_loop\<close>), the deadline
    (\<open>wait_deadline\<close>) and the call with its \<^verbatim>\<open>finally\<close>
    (\<open>wait_for_alert\<close>). The specification is \<open>scan_reads\<close>, the scan of a list
    of reads for the first full record with the alert flag. Lemmas: an
    invariant rule for the loop (\<open>wait_loop_rule\<close>); the loop refines the scan;
    timeouts are at least 50 ms; the descriptor is closed except on one
    path; an idle channel gives a timeout result, and the call returns when
    the clock passes the deadline.
  \<^item> \<open>Cli_Args\<close>: the command line as \<^verbatim>\<open>build_parser\<close> declares it. The
    namespaces are the records \<open>cli_args\<close>, \<open>config_args\<close>, \<open>stream_args\<close>,
    \<open>test_args\<close>, each extending the one before, and the datatype
    \<open>namespace\<close>; the converters are \<open>positive_int\<close> and \<open>non_negative_int\<close>
    over \<open>py_int\<close>; \<open>set_global\<close>, \<open>set_stream\<close> and \<open>set_test\<close> say which
    options each parser knows and how it converts and stores a value;
    \<open>parse_args\<close> applies them in the order of the command line to the
    defaults. Lemmas: every namespace the parser returns is well formed
    (\<open>valid_namespace\<close>); a rejected command line exits with status 2; the
    range checks read back what \<open>py_str\<close> writes.
  \<^item> \<open>Self_Test\<close>: \<^verbatim>\<open>test_command\<close> as \<open>test_configure\<close>, the wait,
    \<open>test_report\<close> (together \<open>test_body\<close>) under \<open>try_finally\<close> with
    \<open>test_restore\<close>. Lemmas: the threshold is restored on every path and the
    mode on every normal return; the exit status and the printed line are the
    \<open>verdict\<close> on the scanned reads; a read-only threshold ends the session
    with \<^verbatim>\<open>PermissionError\<close> and leaves a sampling override in place.
  \<^item> \<open>Stream_Session\<close>: \<^verbatim>\<open>stream_command\<close> as \<open>stream_configure\<close>, then
    \<open>stream_open\<close>: the deadline (\<open>stream_deadline\<close>), \<^verbatim>\<open>os.open\<close>, and
    \<open>stream_session\<close>, the loop under its two handlers. One pass of the loop
    is \<open>stream_iteration\<close> (the deadline test \<open>stream_expired\<close>, the count
    test, \<open>poll_record\<close>, the print), repeated by \<open>stream_loop\<close>. The
    specification is \<open>sample_lines\<close>, the lines of the full records in a list
    of reads. Lemmas: an invariant rule for the loop (\<open>stream_loop_rule\<close>); the
    session prints the lines of the reads it consumed and keeps the count; the
    descriptor is closed on every path; every poll uses the default timeout;
    with benign scripts the session returns 0; a count that the channel can
    serve is reached after exactly that many polls; a duration of zero is no
    duration.
  \<^item> \<open>Cli_Main\<close>: \<^verbatim>\<open>main\<close> as \<open>parse_args\<close>, the dispatch
    \<open>run_command\<close> and the two handlers (\<open>usage_exn\<close>, \<open>parser_error\<close>), and
    the last line of the script, \<open>run_script\<close>. Lemmas: the handlers as one
    case distinction (\<open>main_apply\<close>); the return values are 0 and 1 and no
    \<^verbatim>\<open>OSError\<close> leaves \<^verbatim>\<open>main\<close>; a device that cannot be selected
    gives exit status 2 and touches nothing; a command line without a
    subcommand raises \<^verbatim>\<open>AttributeError\<close>; the count of the command line
    bounds the lines printed.
  \<^item> \<open>Loop_Steps\<close>: the two loops as transition systems over configurations
    of sample count and world: the inductive closure \<open>steps\<close> of the passes
    that continue, \<open>halts\<close> for a pass that returns or raises, and \<open>runs\<close>.
    Lemmas: runs are deterministic and \<open>wait_loop\<close> and \<open>stream_loop\<close>
    compute them; by induction over \<open>steps\<close>, what holds in every
    configuration a loop reaches (the counter of the stream is the number of
    lines printed, the counter of the wait the number of full records
    scanned).
  \<^item> \<open>Spec2Isabelle\<close> (this theory): the property that links the record layout
    to the verdict of the self-test.

  \<^bold>\<open>The environment and why the loops are total.\<close> The clock, \<^verbatim>\<open>poll\<close>
  and \<^verbatim>\<open>os.read\<close> answer from three scripts in the world (\<open>clock\<close>,
  \<open>polls\<close>, \<open>reads\<close>), each consumed in order; a call that finds its script
  empty raises \<^verbatim>\<open>KeyboardInterrupt\<close>, the operator stopping the program.
  There is no fuel: every pass of \<open>wait_iteration\<close> that continues has consumed
  a clock reading, so \<open>wait_loop\<close> is a \<open>function\<close> with the measure
  \<open>length (clock w)\<close>, and a property of the form "the call returns" is stated
  with the hypothesis that the clock passes the deadline before the scripts
  end (\<open>enough\<close>). A pass of \<open>stream_iteration\<close> reads the clock only if a
  deadline was given, but every pass that continues has polled, so
  \<open>stream_loop\<close> is a \<open>function\<close> with the measure \<open>length (polls w)\<close>; that
  the session returns is stated for scripts that raise nothing but interrupts
  (\<open>benign\<close>) or for a channel that serves the count (\<open>full\<close> records behind
  \<open>Ready\<close> polls). The examples use the scripts of the tests in
  \<^verbatim>\<open>src/tests/test_cli.py\<close>.

  \<^bold>\<open>The command line.\<close> \<^verbatim>\<open>argparse\<close> is a library the program
  configures; its splitting of \<^verbatim>\<open>argv\<close> into options and values is not
  modelled. A command line is a value of \<open>command_line\<close>: the occurrences of
  options before the subcommand, the subcommand, the occurrences after it,
  each with the text of its value. What \<^verbatim>\<open>build_parser\<close> decides is
  modelled: the options of each parser, their converters and choices, their
  defaults, and that the default function of a command line without a
  subcommand is \<^verbatim>\<open>stream_command\<close>. The conversion \<^verbatim>\<open>float\<close> of
  \<^verbatim>\<open>--duration\<close> is a parameter of \<open>parse_args\<close> and \<open>main\<close>. Exit
  statuses are the values \<open>main\<close> returns and the argument of
  \<open>SystemExit\<close>; the messages on the standard error are values of
  \<open>err_line\<close> that name the exception.

  \<^bold>\<open>The attribute store is passive.\<close> A file holds what was last written to
  it. The kernel driver behind the real sysfs attributes couples
  \<^verbatim>\<open>sampling_us\<close> and \<^verbatim>\<open>sampling_ms\<close> and may reject values; that
  coupling is outside the program and outside the model, which is the store
  the test suite uses (a temporary directory). What a write to a missing
  attribute does is a parameter of the store (\<open>missing_write\<close>): a plain
  directory creates the file, sysfs raises \<^verbatim>\<open>FileNotFoundError\<close>.

  \<^bold>\<open>Not modelled.\<close> The text of the printed lines (\<^verbatim>\<open>iso8601_from_ns\<close>
  and the float formatting, which go through binary floating point; a line is
  a value of \<open>out_line\<close> with its numbers); floating point rounding (the clock
  and the duration are \<open>real\<close>, \<^verbatim>\<open>int(x)\<close> is truncation); the lexical
  work of \<^verbatim>\<open>argparse\<close>, its help and usage texts, and the usage message
  it prints for a command line it rejects; what the interpreter does with an
  exception that leaves \<^verbatim>\<open>main\<close>; the registration of the descriptor
  with the poller, which has no effect the program observes.
\<close>

section \<open>From the record layout to the verdict\<close>




end
